theory Spec2Isabelle
  imports Complex_Main "HOL-Library.Char_ord" "HOL-Library.List_Lexorder"
    "HOL-Library.Product_Lexorder" "HOL-Library.Monad_Syntax" "HOL-Library.Multiset"
begin

section \<open>Strings and identifiers\<close>

text \<open>
  Strings are lists of characters; a character stands for a code unit below 256.
  \<open>js_trim\<close> is \<open>String.prototype.trim\<close> (and the \<open>trim()\<close> sanitizer of the request
  validators, and the \<open>trim: true\<close> option of a schema path): it removes the white
  space at both ends. The white-space characters below 256 are tab, line feed,
  vertical tab, form feed, carriage return, space and the no-break space.
\<close>

definition is_whitespace :: "char \<Rightarrow> bool" where
  "is_whitespace c = ((of_char c :: nat) \<in> set [9, 10, 11, 12, 13, 32, 160])"

definition js_trim :: "string \<Rightarrow> string" where
  "js_trim s = rev (dropWhile is_whitespace (rev (dropWhile is_whitespace s)))"

text \<open>
  Case folding, as \<open>toUpperCase\<close> and \<open>toLowerCase\<close> do it and as the \<open>i\<close> flag of a
  regular expression applies it to the pattern and to the subject: the letters a to z
  and, from 224 to 254 except the division sign 247, the accented letters, whose
  capitals are 32 below. The other characters below 256 have no capital below 256 and
  are compared as they are.
\<close>

definition accented_table :: "(char \<times> char) list" where
  "accented_table =
     [(CHR 0xE0, CHR 0xC0), (CHR 0xE1, CHR 0xC1), (CHR 0xE2, CHR 0xC2), (CHR 0xE3, CHR 0xC3),
      (CHR 0xE4, CHR 0xC4), (CHR 0xE5, CHR 0xC5), (CHR 0xE6, CHR 0xC6), (CHR 0xE7, CHR 0xC7),
      (CHR 0xE8, CHR 0xC8), (CHR 0xE9, CHR 0xC9), (CHR 0xEA, CHR 0xCA), (CHR 0xEB, CHR 0xCB),
      (CHR 0xEC, CHR 0xCC), (CHR 0xED, CHR 0xCD), (CHR 0xEE, CHR 0xCE), (CHR 0xEF, CHR 0xCF),
      (CHR 0xF0, CHR 0xD0), (CHR 0xF1, CHR 0xD1), (CHR 0xF2, CHR 0xD2), (CHR 0xF3, CHR 0xD3),
      (CHR 0xF4, CHR 0xD4), (CHR 0xF5, CHR 0xD5), (CHR 0xF6, CHR 0xD6), (CHR 0xF8, CHR 0xD8),
      (CHR 0xF9, CHR 0xD9), (CHR 0xFA, CHR 0xDA), (CHR 0xFB, CHR 0xDB), (CHR 0xFC, CHR 0xDC),
      (CHR 0xFD, CHR 0xDD), (CHR 0xFE, CHR 0xDE)]"

definition upper_table :: "(char \<times> char) list" where
  "upper_table =
     zip ''abcdefghijklmnopqrstuvwxyz'' ''ABCDEFGHIJKLMNOPQRSTUVWXYZ'' @ accented_table"

definition toUpperCase :: "char \<Rightarrow> char" where
  "toUpperCase c = (case map_of upper_table c of Some u \<Rightarrow> u | None \<Rightarrow> c)"

definition toLowerCase :: "char \<Rightarrow> char" where
  "toLowerCase c = (case map_of (map (\<lambda>(l, u). (u, l)) upper_table) c of Some l \<Rightarrow> l | None \<Rightarrow> c)"

text \<open>
  An ObjectId is kept as its 24 lower-case hexadecimal digits.
  \<open>ObjectId_isValid\<close> is \<open>mongoose.Types.ObjectId.isValid\<close> on a string and
  \<open>castObjectId\<close> the conversion the driver applies to the identifier of a query
  (\<open>None\<close> is the CastError it throws). Only the 24-digit form is modelled; some
  versions of the driver also read any string of 12 characters as the 12 bytes of an
  identifier, and no example below uses such a string.
\<close>

type_synonym objectid = string

definition is_hex :: "char \<Rightarrow> bool" where
  "is_hex c = (c \<in> set ''0123456789abcdefABCDEF'')"

definition ObjectId_isValid :: "string \<Rightarrow> bool" where
  "ObjectId_isValid s = (length s = 24 \<and> list_all is_hex s)"

definition castObjectId :: "string \<Rightarrow> objectid option" where
  "castObjectId s = (if ObjectId_isValid s then Some (map toLowerCase s) else None)"

section \<open>Stored entities\<close>

record category =
  cat_id :: objectid
  cat_name :: string
  cat_url :: string
  cat_createdAt :: int

record subcategory =
  sub_id :: objectid
  sub_name :: string
  sub_category :: objectid
  sub_description :: string
  sub_createdAt :: int
  sub_updatedAt :: int

text \<open>
  The responses of the routes that are not a success. Each constructor stands for one
  shape of the JSON error body and its status code:
  \<^item> \<open>InvalidIdentifier\<close>: 400, \<open>Invalid ... ID\<close> or \<open>Invalid ... ID format\<close>;
  \<^item> \<open>NotFound\<close>: 404, \<open>... not found\<close>;
  \<^item> \<open>ValidatorErrors\<close>: 400 with the \<open>errors\<close> array of the request validators;
  \<^item> \<open>MissingField\<close>: 400, \<open>Missing required fields\<close> with the fields;
  \<^item> \<open>FormatInvalid\<close>: 400, \<open>Validation failed\<close> with the offending fields;
  \<^item> \<open>DuplicateName\<close>: 400, \<open>... with this name already exists\<close>;
  \<^item> \<open>DuplicateKey\<close>: 400, \<open>Email already exists\<close>, the customer route's answer to the
    store's error 11000;
  \<^item> \<open>HasDependents\<close>: 400, \<open>Cannot delete category with existing subcategories\<close>;
  \<^item> \<open>ServerError\<close>: 500, what the \<open>catch\<close> block of a route answers to any other exception.
\<close>

datatype verr =
    V_MissingField string
  | V_InvalidIdentifier string
  | V_ReferenceNotFound

datatype failure =
    InvalidIdentifier
  | NotFound
  | ValidatorErrors "verr list"
  | MissingField "string list"
  | FormatInvalid "string list"
  | DuplicateName
  | DuplicateKey
  | HasDependents
  | ServerError

text \<open>
  The regular-expression machinery belongs to the platform (the JavaScript runtime and
  the store), and the routes take it as a parameter \<open>rx\<close>: \<open>rx p\<close> is the pattern \<open>p\<close>
  compiled with the \<open>i\<close> flag, as the predicate "the pattern matches somewhere in the
  subject", or \<open>None\<close> when \<open>p\<close> is not a well-formed pattern (the SyntaxError of
  \<open>new RegExp\<close>, the store's refusal of a \<open>$regex\<close>; both end in the \<open>catch\<close> block).
\<close>

type_synonym regexp = "string \<Rightarrow> (string \<Rightarrow> bool) option"

section \<open>Category routes\<close>

text \<open>
  The body of a Category request: each field is a string, or absent. (The validators
  turn any other JSON value into a string first; such bodies are not modelled.)
\<close>

record category_body =
  b_name :: "string option"
  b_url :: "string option"

definition Category_findById :: "category list \<Rightarrow> string \<Rightarrow> failure + category option" where
  "Category_findById cs i =
     (case castObjectId i of
        None \<Rightarrow> Inl ServerError
      | Some oid \<Rightarrow> Inr (find (\<lambda>c. cat_id c = oid) cs))"

definition Category_list :: "category list \<Rightarrow> category list" where
  "Category_list cs = cs"

definition Category_getById :: "category list \<Rightarrow> string \<Rightarrow> failure + category" where
  "Category_getById cs i =
     (case Category_findById cs i of
        Inl e \<Rightarrow> Inl e
      | Inr None \<Rightarrow> Inl NotFound
      | Inr (Some c) \<Rightarrow> Inr c)"

text \<open>
  \<open>body('name').trim().notEmpty()\<close>: an absent name is sanitized to the empty string.
  \<open>body('url').optional().trim().isString()\<close> cannot fail once the value is trimmed.
\<close>

definition sanitized_name :: "string option \<Rightarrow> string" where
  "sanitized_name n = js_trim (case n of None \<Rightarrow> [] | Some s \<Rightarrow> s)"

definition Category_validate :: "category_body \<Rightarrow> verr list" where
  "Category_validate b = (if sanitized_name (b_name b) = [] then [V_MissingField ''name''] else [])"

text \<open>
  \<open>category.save()\<close> of a new document: the schema trims both strings, and the store
  refuses (error 11000, a 500 in the route) a document whose identifier or whose
  \<open>name\<close> (the \<open>unique: true\<close> index, an exact comparison) is already there.
\<close>

definition Category_insert :: "category list \<Rightarrow> category \<Rightarrow> failure + category list" where
  "Category_insert cs c =
     (if list_ex (\<lambda>x. cat_id x = cat_id c \<or> cat_name x = cat_name c) cs then Inl ServerError
      else Inr (cs @ [c]))"

definition Category_create ::
  "regexp \<Rightarrow> int \<Rightarrow> objectid \<Rightarrow> category list \<Rightarrow> category_body \<Rightarrow> (failure + category) \<times> category list" where
  "Category_create rx now newId cs b =
     (if Category_validate b \<noteq> [] then (Inl (ValidatorErrors (Category_validate b)), cs)
      else
        let name = sanitized_name (b_name b); url = map_option js_trim (b_url b) in
        case rx (''^'' @ name @ ''$'') of
          None \<Rightarrow> (Inl ServerError, cs)
        | Some m \<Rightarrow>
            (case find (\<lambda>c. m (cat_name c)) cs of
               Some existingCategory \<Rightarrow> (Inl DuplicateName, cs)
             | None \<Rightarrow>
                 let c = \<lparr>cat_id = newId, cat_name = js_trim name,
                          cat_url = js_trim (case url of None \<Rightarrow> [] | Some u \<Rightarrow> u),
                          cat_createdAt = now\<rparr> in
                 (case Category_insert cs c of
                    Inl e \<Rightarrow> (Inl e, cs)
                  | Inr cs' \<Rightarrow> (Inr c, cs'))))"

text \<open>
  \<open>category.save()\<close> of a loaded document writes it back in place; the unique index on
  \<open>name\<close> is checked against the other documents.
\<close>

definition Category_replace :: "category list \<Rightarrow> category \<Rightarrow> failure + category list" where
  "Category_replace cs c =
     (if list_ex (\<lambda>x. cat_id x \<noteq> cat_id c \<and> cat_name x = cat_name c) cs then Inl ServerError
      else Inr (map (\<lambda>x. if cat_id x = cat_id c then c else x) cs))"

definition Category_update ::
  "regexp \<Rightarrow> category list \<Rightarrow> string \<Rightarrow> category_body \<Rightarrow> (failure + category) \<times> category list" where
  "Category_update rx cs i b =
     (if Category_validate b \<noteq> [] then (Inl (ValidatorErrors (Category_validate b)), cs)
      else
        let name = sanitized_name (b_name b); url = map_option js_trim (b_url b) in
        case Category_findById cs i of
          Inl e \<Rightarrow> (Inl e, cs)
        | Inr None \<Rightarrow> (Inl NotFound, cs)
        | Inr (Some category) \<Rightarrow>
            let save =
              (let c = category\<lparr>cat_name := js_trim name,
                                cat_url := (case url of None \<Rightarrow> cat_url category | Some u \<Rightarrow> js_trim u)\<rparr> in
               case Category_replace cs c of
                 Inl e \<Rightarrow> (Inl e, cs)
               | Inr cs' \<Rightarrow> (Inr c, cs')) in
            if name \<noteq> [] \<and> name \<noteq> cat_name category then
              (case rx (''^'' @ name @ ''$'') of
                 None \<Rightarrow> (Inl ServerError, cs)
               | Some m \<Rightarrow>
                   (case find (\<lambda>c. cat_id c \<noteq> cat_id category \<and> m (cat_name c)) cs of
                      Some existingCategory \<Rightarrow> (Inl DuplicateName, cs)
                    | None \<Rightarrow> save))
            else save)"

definition Category_delete ::
  "category list \<Rightarrow> subcategory list \<Rightarrow> string \<Rightarrow> (failure + unit) \<times> category list" where
  "Category_delete cs subs i =
     (case Category_findById cs i of
        Inl e \<Rightarrow> (Inl e, cs)
      | Inr None \<Rightarrow> (Inl NotFound, cs)
      | Inr (Some category) \<Rightarrow>
          let subcategoriesCount = length (filter (\<lambda>s. sub_category s = cat_id category) subs) in
          if subcategoriesCount > 0 then (Inl HasDependents, cs)
          else (Inr (), filter (\<lambda>c. cat_id c \<noteq> cat_id category) cs))"

section \<open>SubCategory routes\<close>

text \<open>The body of a SubCategory request, with string or absent fields as well.\<close>

record subcategory_body =
  sb_name :: "string option"
  sb_categoryId :: "string option"
  sb_description :: "string option"

definition SubCategory_findById :: "subcategory list \<Rightarrow> string \<Rightarrow> failure + subcategory option" where
  "SubCategory_findById subs i =
     (case castObjectId i of
        None \<Rightarrow> Inl ServerError
      | Some oid \<Rightarrow> Inr (find (\<lambda>s. sub_id s = oid) subs))"

text \<open>\<open>.populate('category', 'name url')\<close>: the referenced Category, looked up at read time.\<close>

definition populate_category :: "category list \<Rightarrow> subcategory \<Rightarrow> subcategory \<times> category option" where
  "populate_category cs s = (s, find (\<lambda>c. cat_id c = sub_category s) cs)"

definition SubCategory_list :: "category list \<Rightarrow> subcategory list \<Rightarrow> (subcategory \<times> category option) list" where
  "SubCategory_list cs subs = map (populate_category cs) subs"

definition SubCategory_getById ::
  "category list \<Rightarrow> subcategory list \<Rightarrow> string \<Rightarrow> failure + subcategory \<times> category option" where
  "SubCategory_getById cs subs i =
     (if \<not> ObjectId_isValid i then Inl InvalidIdentifier
      else case SubCategory_findById subs i of
        Inl e \<Rightarrow> Inl e
      | Inr None \<Rightarrow> Inl NotFound
      | Inr (Some s) \<Rightarrow> Inr (populate_category cs s))"

definition SubCategory_byCategory ::
  "category list \<Rightarrow> subcategory list \<Rightarrow> string \<Rightarrow> failure + subcategory list" where
  "SubCategory_byCategory cs subs categoryId =
     (if \<not> ObjectId_isValid categoryId then Inl InvalidIdentifier
      else case Category_findById cs categoryId of
        Inl e \<Rightarrow> Inl e
      | Inr None \<Rightarrow> Inl NotFound
      | Inr (Some c) \<Rightarrow> Inr (filter (\<lambda>s. sub_category s = cat_id c) subs))"

text \<open>
  The validator chain of \<open>categoryId\<close>: \<open>notEmpty()\<close>, then the custom validator, which
  runs on the same value whatever \<open>notEmpty()\<close> said (the chain has no \<open>bail()\<close>): it
  throws \<open>Invalid category ID format\<close> or, after \<open>Category.findById\<close>, \<open>Category not found\<close>.
  The errors of all chains are collected in the order of the chains.
\<close>

definition categoryId_errors :: "category list \<Rightarrow> string option \<Rightarrow> verr list" where
  "categoryId_errors cs v =
     (let categoryId = (case v of None \<Rightarrow> [] | Some s \<Rightarrow> s) in
      (if categoryId = [] then [V_MissingField ''categoryId''] else []) @
      (if \<not> ObjectId_isValid categoryId then [V_InvalidIdentifier ''categoryId'']
       else case Category_findById cs categoryId of
         Inl e \<Rightarrow> [V_InvalidIdentifier ''categoryId'']
       | Inr None \<Rightarrow> [V_ReferenceNotFound]
       | Inr (Some category) \<Rightarrow> []))"

definition SubCategory_validate :: "category list \<Rightarrow> subcategory_body \<Rightarrow> verr list" where
  "SubCategory_validate cs b =
     (if sanitized_name (sb_name b) = [] then [V_MissingField ''name''] else []) @
     categoryId_errors cs (sb_categoryId b)"

text \<open>
  \<open>subcategory.save()\<close>: the store refuses a second document with the same identifier or
  with the same pair of \<open>name\<close> and \<open>category\<close> (the compound unique index, an exact
  comparison); no branch of the route's \<open>catch\<close> looks at the code, so this is a 500.
\<close>

definition SubCategory_insert :: "subcategory list \<Rightarrow> subcategory \<Rightarrow> failure + subcategory list" where
  "SubCategory_insert subs s =
     (if list_ex (\<lambda>x. sub_id x = sub_id s \<or>
                       (sub_name x = sub_name s \<and> sub_category x = sub_category s)) subs
      then Inl ServerError
      else Inr (subs @ [s]))"

definition SubCategory_replace :: "subcategory list \<Rightarrow> subcategory \<Rightarrow> failure + subcategory list" where
  "SubCategory_replace subs s =
     (if list_ex (\<lambda>x. sub_id x \<noteq> sub_id s \<and> sub_name x = sub_name s \<and>
                       sub_category x = sub_category s) subs
      then Inl ServerError
      else Inr (map (\<lambda>x. if sub_id x = sub_id s then s else x) subs))"

definition SubCategory_create ::
  "regexp \<Rightarrow> int \<Rightarrow> objectid \<Rightarrow> category list \<Rightarrow> subcategory list \<Rightarrow> subcategory_body \<Rightarrow>
     (failure + subcategory \<times> category option) \<times> subcategory list" where
  "SubCategory_create rx now newId cs subs b =
     (if SubCategory_validate cs b \<noteq> [] then (Inl (ValidatorErrors (SubCategory_validate cs b)), subs)
      else
        let name = sanitized_name (sb_name b);
            categoryId = (case sb_categoryId b of None \<Rightarrow> [] | Some s \<Rightarrow> s);
            description = map_option js_trim (sb_description b) in
        case rx (''^'' @ name @ ''$'') of
          None \<Rightarrow> (Inl ServerError, subs)
        | Some m \<Rightarrow>
            (case castObjectId categoryId of
               None \<Rightarrow> (Inl ServerError, subs)
             | Some category \<Rightarrow>
                 (case find (\<lambda>s. m (sub_name s) \<and> sub_category s = category) subs of
                    Some existingSubCategory \<Rightarrow> (Inl DuplicateName, subs)
                  | None \<Rightarrow>
                      let s = \<lparr>sub_id = newId, sub_name = js_trim name, sub_category = category,
                               sub_description = js_trim (case description of None \<Rightarrow> [] | Some d \<Rightarrow> d),
                               sub_createdAt = now, sub_updatedAt = now\<rparr> in
                      (case SubCategory_insert subs s of
                         Inl e \<Rightarrow> (Inl e, subs)
                       | Inr subs' \<Rightarrow> (Inr (populate_category cs s), subs')))))"

text \<open>
  On \<open>save()\<close> of a loaded document the \<open>timestamps\<close> option refreshes \<open>updatedAt\<close> when a
  path was modified; a document that was not modified is not written.
\<close>

definition SubCategory_update ::
  "regexp \<Rightarrow> int \<Rightarrow> category list \<Rightarrow> subcategory list \<Rightarrow> string \<Rightarrow> subcategory_body \<Rightarrow>
     (failure + subcategory \<times> category option) \<times> subcategory list" where
  "SubCategory_update rx now cs subs i b =
     (let errors = (if \<not> ObjectId_isValid i then [V_InvalidIdentifier ''id''] else []) @
                   SubCategory_validate cs b in
      if errors \<noteq> [] then (Inl (ValidatorErrors errors), subs)
      else
        let name = sanitized_name (sb_name b);
            categoryId = (case sb_categoryId b of None \<Rightarrow> [] | Some s \<Rightarrow> s);
            description = map_option js_trim (sb_description b) in
        case SubCategory_findById subs i of
          Inl e \<Rightarrow> (Inl e, subs)
        | Inr None \<Rightarrow> (Inl NotFound, subs)
        | Inr (Some subcategory) \<Rightarrow>
            (case castObjectId categoryId of
               None \<Rightarrow> (Inl ServerError, subs)
             | Some category \<Rightarrow>
                 let save =
                   (let s = subcategory\<lparr>sub_name := js_trim name, sub_category := category,
                               sub_description := (case description of
                                   None \<Rightarrow> sub_description subcategory | Some d \<Rightarrow> js_trim d)\<rparr>;
                        s' = (if s = subcategory then s else s\<lparr>sub_updatedAt := now\<rparr>) in
                    case SubCategory_replace subs s' of
                      Inl e \<Rightarrow> (Inl e, subs)
                    | Inr subs' \<Rightarrow> (Inr (populate_category cs s'), subs')) in
                 if name \<noteq> [] \<and> (name \<noteq> sub_name subcategory \<or> categoryId \<noteq> sub_category subcategory) then
                   (case rx (''^'' @ name @ ''$'') of
                      None \<Rightarrow> (Inl ServerError, subs)
                    | Some m \<Rightarrow>
                        (case find (\<lambda>s. sub_id s \<noteq> sub_id subcategory \<and> m (sub_name s) \<and>
                                         sub_category s = category) subs of
                           Some existingSubCategory \<Rightarrow> (Inl DuplicateName, subs)
                         | None \<Rightarrow> save))
                 else save))"

definition SubCategory_delete :: "subcategory list \<Rightarrow> string \<Rightarrow> (failure + unit) \<times> subcategory list" where
  "SubCategory_delete subs i =
     (if \<not> ObjectId_isValid i then (Inl InvalidIdentifier, subs)
      else case SubCategory_findById subs i of
        Inl e \<Rightarrow> (Inl e, subs)
      | Inr None \<Rightarrow> (Inl NotFound, subs)
      | Inr (Some subcategory) \<Rightarrow> (Inr (), filter (\<lambda>s. sub_id s \<noteq> sub_id subcategory) subs))"

section \<open>A fragment of the regular expressions\<close>

text \<open>
  The routes build patterns from request strings (\<open>new RegExp(`^${name}$`, 'i')\<close>,
  \<open>$regex: search\<close>). To run them on concrete inputs, this section implements the part
  of the pattern language that the runtime and the store share: literal characters,
  \<open>.\<close>, the anchors \<open>^\<close> and \<open>$\<close>, the quantifiers \<open>*\<close>, \<open>+\<close> and \<open>?\<close> (also lazy),
  alternation, groups, and a backslash before a syntax character. Character classes,
  braces, \<open>(?\<close> groups and the other escapes are outside the fragment: the parser
  answers \<open>Outside\<close> for them and no statement below is about such a pattern.
\<close>

datatype re = Lit char | AnyChar | Bol | Eol | Empty | Cat re re | Or re re | Star re

text \<open>
  \<open>ends r s i\<close> lists the positions where a match of \<open>r\<close> that starts at position \<open>i\<close> of
  the subject \<open>s\<close> can end. Letters are compared after case folding (the \<open>i\<close> flag). An
  iteration of a star that consumes nothing is dropped, so a star takes at most
  \<open>length s - i\<close> rounds.
\<close>

primrec star_reach :: "nat \<Rightarrow> (nat \<Rightarrow> nat list) \<Rightarrow> nat list \<Rightarrow> nat list" where
  "star_reach 0 f js = js"
| "star_reach (Suc n) f js = js @ star_reach n f (concat (map (\<lambda>j. filter (\<lambda>k. j < k) (f j)) js))"

fun ends :: "re \<Rightarrow> string \<Rightarrow> nat \<Rightarrow> nat list" where
  "ends (Lit c) s i = (if i < length s \<and> toUpperCase (s ! i) = toUpperCase c then [Suc i] else [])"
| "ends AnyChar s i = (if i < length s \<and> (of_char (s ! i) :: nat) \<notin> set [10, 13] then [Suc i] else [])"
| "ends Bol s i = (if i = 0 then [i] else [])"
| "ends Eol s i = (if i = length s then [i] else [])"
| "ends Empty s i = [i]"
| "ends (Cat a b) s i = concat (map (ends b s) (ends a s i))"
| "ends (Or a b) s i = ends a s i @ ends b s i"
| "ends (Star a) s i = star_reach (length s - i) (ends a s) [i]"

text \<open>\<open>RegExp.prototype.test\<close>, \<open>$regex\<close>: the pattern matches at some position.\<close>

definition search :: "re \<Rightarrow> string \<Rightarrow> bool" where
  "search r s = list_ex (\<lambda>i. ends r s i \<noteq> []) [0..<Suc (length s)]"

text \<open>
  The parser reads the pattern from left to right with a stack of open groups. A frame
  holds the finished alternatives of a group and the items of the current one, both
  latest first. An item remembers whether a quantifier may follow it.
\<close>

datatype item = Atom re | Quantified re | Lazy re | Assertion re

fun item_re :: "item \<Rightarrow> re" where
  "item_re (Atom r) = r"
| "item_re (Quantified r) = r"
| "item_re (Lazy r) = r"
| "item_re (Assertion r) = r"

type_synonym frame = "re list \<times> item list"

definition alt_re :: "item list \<Rightarrow> re" where
  "alt_re cur = foldr Cat (map item_re (rev cur)) Empty"

definition frame_re :: "frame \<Rightarrow> re" where
  "frame_re f = foldl (\<lambda>acc a. Or a acc) (alt_re (snd f)) (fst f)"

datatype mode = Normal | Escaped | Opened

datatype pstate = Parsing mode "frame list" | Invalid | Outside

definition syntax_chars :: "char list" where
  "syntax_chars = [CHR ''^'', CHR ''$'', CHR 0x5C, CHR ''.'', CHR ''*'', CHR ''+'', CHR ''?'',
     CHR ''('', CHR '')'', CHR ''['', CHR '']'', CHR ''{'', CHR ''}'', CHR ''|'', CHR ''/'']"

definition push :: "item \<Rightarrow> frame list \<Rightarrow> pstate" where
  "push x st = (case st of [] \<Rightarrow> Invalid | (alts, cur) # rest \<Rightarrow> Parsing Normal ((alts, x # cur) # rest))"

definition quantify :: "(re \<Rightarrow> re) \<Rightarrow> frame list \<Rightarrow> pstate" where
  "quantify q st =
     (case st of
        (alts, Atom r # cur) # rest \<Rightarrow> Parsing Normal ((alts, Quantified (q r) # cur) # rest)
      | _ \<Rightarrow> Invalid)"

definition normal_step :: "frame list \<Rightarrow> char \<Rightarrow> pstate" where
  "normal_step st c =
     (if c = CHR 0x5C then Parsing Escaped st
      else if c = CHR ''('' then Parsing Opened (([], []) # st)
      else if c = CHR '')'' then
        (case st of
           f # (alts, cur) # rest \<Rightarrow> Parsing Normal ((alts, Atom (frame_re f) # cur) # rest)
         | _ \<Rightarrow> Invalid)
      else if c = CHR ''|'' then
        (case st of
           (alts, cur) # rest \<Rightarrow> Parsing Normal ((alt_re cur # alts, []) # rest)
         | [] \<Rightarrow> Invalid)
      else if c = CHR ''*'' then quantify Star st
      else if c = CHR ''+'' then quantify (\<lambda>r. Cat r (Star r)) st
      else if c = CHR ''?'' then
        (case st of
           (alts, Quantified r # cur) # rest \<Rightarrow> Parsing Normal ((alts, Lazy r # cur) # rest)
         | _ \<Rightarrow> quantify (\<lambda>r. Or r Empty) st)
      else if c = CHR ''.'' then push (Atom AnyChar) st
      else if c = CHR ''^'' then push (Assertion Bol) st
      else if c = CHR ''$'' then push (Assertion Eol) st
      else if c = CHR ''['' \<or> c = CHR ''{'' then Outside
      else push (Atom (Lit c)) st)"

fun step :: "pstate \<Rightarrow> char \<Rightarrow> pstate" where
  "step (Parsing Normal st) c = normal_step st c"
| "step (Parsing Escaped st) c = (if c \<in> set syntax_chars then push (Atom (Lit c)) st else Outside)"
| "step (Parsing Opened st) c = (if c = CHR ''?'' then Outside else normal_step st c)"
| "step Invalid c = Invalid"
| "step Outside c = Outside"

datatype compiled = Compiled re | SyntaxError | NotModelled

fun finish :: "pstate \<Rightarrow> compiled" where
  "finish (Parsing Normal [f]) = Compiled (frame_re f)"
| "finish (Parsing m st) = SyntaxError"
| "finish Invalid = SyntaxError"
| "finish Outside = NotModelled"

definition parse :: "string \<Rightarrow> compiled" where
  "parse p = finish (foldl step (Parsing Normal [([], [])]) p)"

definition in_fragment :: "string \<Rightarrow> bool" where
  "in_fragment p = (parse p \<noteq> NotModelled)"

text \<open>
  The platform's regular expressions, on the fragment: \<open>None\<close> is the SyntaxError of
  \<open>new RegExp\<close> (or the store's refusal of the pattern).
\<close>

definition fragment_RegExp :: regexp where
  "fragment_RegExp p = (case parse p of Compiled r \<Rightarrow> Some (search r) | _ \<Rightarrow> None)"

section \<open>Request values\<close>

text \<open>
  The fields of a JSON request body, as JavaScript sees them: absent (\<open>undefined\<close>),
  \<open>null\<close>, a boolean, a number or a string. Finite numbers are kept by their exact
  value; nested arrays and objects are not modelled.
\<close>

datatype jsnum = NaN | Num rat

datatype jsval = JUndefined | JNull | JBool bool | JNum jsnum | JStr string

type_synonym body = "string \<Rightarrow> jsval"

fun truthy :: "jsval \<Rightarrow> bool" where
  "truthy JUndefined = False"
| "truthy JNull = False"
| "truthy (JBool b) = b"
| "truthy (JNum NaN) = False"
| "truthy (JNum (Num q)) = (q \<noteq> 0)"
| "truthy (JStr s) = (s \<noteq> [])"

text \<open>
  What the routes take from their surroundings: the parts of the runtime that are not
  modelled in detail, the clock and the identifier the driver gives a new document.
  \<^item> \<open>StringToNumber\<close>: \<open>Number(s)\<close> for a string;
  \<^item> \<open>newDate\<close>: the time value of \<open>new Date(v)\<close>, \<open>None\<close> for an Invalid Date;
  \<^item> \<open>castDate\<close>: the schema's conversion of a raw value to a Date, \<open>None\<close> when it fails;
  \<^item> \<open>ObjectId_of_number\<close>: \<open>new ObjectId(n)\<close> for a number, \<open>None\<close> when it throws;
  \<^item> \<open>now\<close>: the clock, in milliseconds; \<open>newId\<close>: the fresh identifier.
\<close>

record env =
  StringToNumber :: "string \<Rightarrow> jsnum"
  newDate :: "jsval \<Rightarrow> int option"
  castDate :: "jsval \<Rightarrow> int option"
  ObjectId_of_number :: "jsnum \<Rightarrow> objectid option"
  now :: int
  newId :: objectid

fun Number_of :: "env \<Rightarrow> jsval \<Rightarrow> jsnum" where
  "Number_of E JUndefined = NaN"
| "Number_of E JNull = Num 0"
| "Number_of E (JBool b) = Num (if b then 1 else 0)"
| "Number_of E (JNum n) = n"
| "Number_of E (JStr s) = StringToNumber E s"

text \<open>\<open>n || 0\<close> for a number: \<open>NaN\<close> and zero are falsy.\<close>

fun or_zero :: "jsnum \<Rightarrow> rat" where
  "or_zero NaN = 0"
| "or_zero (Num q) = q"

text \<open>
  \<open>v.trim()\<close>: a TypeError (\<open>None\<close>) unless \<open>v\<close> is a string. \<open>trim_if_truthy v\<close> is
  \<open>v ? v.trim() : null\<close> (or \<open>: undefined\<close>); the outer \<open>None\<close> is the exception.
\<close>

fun trim_val :: "jsval \<Rightarrow> string option" where
  "trim_val (JStr s) = Some (js_trim s)"
| "trim_val v = None"

definition trim_if_truthy :: "jsval \<Rightarrow> string option option" where
  "trim_if_truthy v = (if truthy v then map_option Some (trim_val v) else Some None)"

text \<open>\<open>v !== undefined ? f(v) : undefined\<close>, where \<open>f\<close> may throw.\<close>

definition if_defined :: "(jsval \<Rightarrow> 'a option) \<Rightarrow> jsval \<Rightarrow> 'a option option" where
  "if_defined f v = (if v \<noteq> JUndefined then map_option Some (f v) else Some None)"

text \<open>
  \<open>mongoose.Types.ObjectId.isValid(v)\<close> and \<open>new mongoose.Types.ObjectId(v)\<close> (\<open>None\<close> when
  it throws) on a request value.
\<close>

fun ObjectId_isValid_val :: "jsval \<Rightarrow> bool" where
  "ObjectId_isValid_val (JStr s) = ObjectId_isValid s"
| "ObjectId_isValid_val (JNum n) = True"
| "ObjectId_isValid_val v = False"

fun ObjectId_new :: "env \<Rightarrow> jsval \<Rightarrow> objectid option" where
  "ObjectId_new E (JStr s) = castObjectId s"
| "ObjectId_new E (JNum n) = ObjectId_of_number E n"
| "ObjectId_new E v = None"

section \<open>The Customer schema\<close>

record customer =
  c_id :: objectid
  c_name :: string
  c_dateOfBirth :: "int option"
  c_email :: "string option"
  c_phone :: string
  c_address :: string
  c_city :: "string option"
  c_state :: "string option"
  c_zipCode :: "string option"
  c_serviceCategory :: objectid
  c_serviceCategoryName :: string
  c_serviceSubCategory :: "objectid option"
  c_serviceSubCategoryName :: "string option"
  c_serviceNumber :: "string option"
  c_status :: string
  c_fees :: "rat option"
  c_gstStatus :: string
  c_gstNumber :: "string option"
  c_deliveryDate :: "int option"
  c_nextRenewalDate :: "int option"
  c_deliveryStatus :: string
  c_notes :: "string option"
  c_createdAt :: int
  c_updatedAt :: int

text \<open>
  The object a route hands to the model (\<open>customerData\<close>, \<open>updateData\<close>): a field is
  \<open>None\<close> when the object has no such key (its value was \<open>undefined\<close> and the key was
  deleted). A date is \<open>null\<close>, an Invalid Date or a time value; the enumerated fields
  are still raw request values.
\<close>

datatype date_value = NoDate | InvalidDate | DateValue int

record customerData =
  d_name :: "string option"
  d_email :: "string option option"
  d_phone :: "string option"
  d_dateOfBirth :: "date_value option"
  d_address :: "string option"
  d_city :: "string option option"
  d_state :: "string option option"
  d_zipCode :: "string option option"
  d_serviceCategory :: "objectid option"
  d_serviceCategoryName :: "string option"
  d_serviceSubCategory :: "objectid option option"
  d_serviceSubCategoryName :: "string option option"
  d_serviceNumber :: "string option option"
  d_status :: "jsval option"
  d_fees :: "rat option"
  d_gstStatus :: "jsval option"
  d_gstNumber :: "string option option"
  d_deliveryDate :: "date_value option"
  d_nextRenewalDate :: "date_value option"
  d_deliveryStatus :: "jsval option"
  d_notes :: "string option option"
  d_updatedAt :: "int option"

text \<open>
  The patterns of the schema and of the create route, written out:
  \<open>/^\d{10}$/\<close> and \<open>/^[0-9]{10}$/\<close> are "exactly ten digits";
  \<open>/^[\w-\.]+@([\w-]+\.)+[\w-]{2,4}$/\<close> is a non-empty local part of word characters,
  hyphens and dots, an \<open>@\<close>, and at least two dot-separated non-empty labels of word
  characters and hyphens, the last of two to four characters.
\<close>

definition is_digit :: "char \<Rightarrow> bool" where
  "is_digit c = (c \<in> set ''0123456789'')"

definition is_word :: "char \<Rightarrow> bool" where
  "is_word c = (c \<in> set ''abcdefghijklmnopqrstuvwxyzABCDEFGHIJKLMNOPQRSTUVWXYZ0123456789_'')"

definition ten_digits :: "string \<Rightarrow> bool" where
  "ten_digits s = (length s = 10 \<and> list_all is_digit s)"

fun split_on :: "char \<Rightarrow> string \<Rightarrow> string list" where
  "split_on d [] = [[]]"
| "split_on d (c # cs) =
     (if c = d then [] # split_on d cs
      else case split_on d cs of x # xs \<Rightarrow> (c # x) # xs | [] \<Rightarrow> [[c]])"

definition email_match :: "string \<Rightarrow> bool" where
  "email_match s =
     (let local = takeWhile (\<lambda>c. c \<noteq> CHR ''@'') s;
          labels = split_on CHR ''.'' (drop (Suc (length local)) s) in
      local \<noteq> [] \<and> list_all (\<lambda>c. is_word c \<or> c = CHR ''-'' \<or> c = CHR ''.'') local
      \<and> length local < length s
      \<and> 2 \<le> length labels
      \<and> list_all (\<lambda>l. l \<noteq> [] \<and> list_all (\<lambda>c. is_word c \<or> c = CHR ''-'') l) labels
      \<and> 2 \<le> length (last labels) \<and> length (last labels) \<le> 4)"

text \<open>
  \<open>phoneRegex.test(req.body.phone)\<close> converts its argument to a string first. The
  decimal form of a number is ten digits exactly when the number is an integer from
  1000000000 to 9999999999; \<open>true\<close>, \<open>null\<close> and the like are not ten digits.
\<close>

fun phoneRegex_test :: "jsval \<Rightarrow> bool" where
  "phoneRegex_test (JStr s) = ten_digits s"
| "phoneRegex_test (JNum (Num q)) = (of_int \<lfloor>q\<rfloor> = q \<and> 1000000000 \<le> q \<and> q \<le> 9999999999)"
| "phoneRegex_test v = False"

text \<open>
  The \<open>enum\<close> validator of a String path. A number or a boolean is first cast to its
  decimal form or to \<open>true\<close>, which is in none of the lists.
\<close>

fun enum_ok :: "string list \<Rightarrow> jsval \<Rightarrow> bool" where
  "enum_ok allowed (JStr s) = (s \<in> set allowed)"
| "enum_ok allowed v = False"

definition status_values :: "string list" where
  "status_values = [''Active'', ''Inactive'', ''Pending'', ''Suspended'']"

definition gstStatus_values :: "string list" where
  "gstStatus_values = [''Paid'', ''Not Paid'', ''Pay Later'']"

definition deliveryStatus_values :: "string list" where
  "deliveryStatus_values = [''Pending'', ''In Progress'', ''Completed'', ''Rejected'']"

text \<open>
  The validators of the schema, run on the keys the object has (all of them on a
  create; those of \<open>$set\<close> on an update with \<open>runValidators\<close>), after the setters
  (\<open>trim\<close>, \<open>lowercase\<close>). The result lists the paths that fail. An Invalid Date fails
  the cast of its path. The routes answer with one entry for each key of
  \<open>error.errors\<close>; here the entries come in the order of the schema, which need not be
  the order of those keys, so a statement about an answer is about the paths it
  names, or about an answer with a single path.
\<close>

definition required_text :: "string \<Rightarrow> nat option \<Rightarrow> string option \<Rightarrow> string list" where
  "required_text path maxlength v =
     (case v of
        None \<Rightarrow> []
      | Some s \<Rightarrow>
          if js_trim s = [] \<or> (case maxlength of None \<Rightarrow> False | Some n \<Rightarrow> n < length (js_trim s))
          then [path] else [])"

definition optional_text :: "string \<Rightarrow> nat \<Rightarrow> string option option \<Rightarrow> string list" where
  "optional_text path maxlength v =
     (case v of
        Some (Some s) \<Rightarrow> if maxlength < length (js_trim s) then [path] else []
      | _ \<Rightarrow> [])"

definition date_path :: "string \<Rightarrow> date_value option \<Rightarrow> string list" where
  "date_path path v = (if v = Some InvalidDate then [path] else [])"

definition enum_path :: "string \<Rightarrow> string list \<Rightarrow> jsval option \<Rightarrow> string list" where
  "enum_path path allowed v =
     (case v of None \<Rightarrow> [] | Some x \<Rightarrow> if enum_ok allowed x then [] else [path])"

definition Customer_validate :: "int \<Rightarrow> customerData \<Rightarrow> string list" where
  "Customer_validate today d =
     required_text ''name'' (Some 100) (d_name d) @
     (case d_dateOfBirth d of
        Some InvalidDate \<Rightarrow> [''dateOfBirth'']
      | Some (DateValue t) \<Rightarrow> if t \<le> today then [] else [''dateOfBirth'']
      | _ \<Rightarrow> []) @
     (case d_email d of
        Some (Some s) \<Rightarrow>
          let e = map toLowerCase (js_trim s) in
          if e \<noteq> [] \<and> \<not> email_match e then [''email''] else []
      | _ \<Rightarrow> []) @
     (case d_phone d of
        None \<Rightarrow> []
      | Some s \<Rightarrow> if js_trim s = [] \<or> \<not> ten_digits (js_trim s) then [''phone''] else []) @
     required_text ''address'' (Some 500) (d_address d) @
     optional_text ''city'' 100 (d_city d) @
     optional_text ''state'' 100 (d_state d) @
     optional_text ''zipCode'' 20 (d_zipCode d) @
     required_text ''serviceCategoryName'' None (d_serviceCategoryName d) @
     optional_text ''serviceNumber'' 50 (d_serviceNumber d) @
     enum_path ''status'' status_values (d_status d) @
     (case d_fees d of None \<Rightarrow> [] | Some q \<Rightarrow> if q < 0 then [''fees''] else []) @
     enum_path ''gstStatus'' gstStatus_values (d_gstStatus d) @
     optional_text ''gstNumber'' 50 (d_gstNumber d) @
     date_path ''deliveryDate'' (d_deliveryDate d) @
     date_path ''nextRenewalDate'' (d_nextRenewalDate d) @
     enum_path ''deliveryStatus'' deliveryStatus_values (d_deliveryStatus d) @
     optional_text ''notes'' 2000 (d_notes d)"

text \<open>
  On an update a value that cannot be cast raises a CastError instead, which the
  route answers with a 500.
\<close>

definition Customer_castError :: "customerData \<Rightarrow> bool" where
  "Customer_castError d =
     (d_dateOfBirth d = Some InvalidDate \<or> d_deliveryDate d = Some InvalidDate \<or>
      d_nextRenewalDate d = Some InvalidDate)"

text \<open>
  Writing the keys of the object into a document (\<open>new Customer(customerData)\<close>,
  \<open>$set: updateData\<close>): a key that the object lacks leaves the path as it is.
\<close>

fun set_date :: "date_value option \<Rightarrow> int option \<Rightarrow> int option" where
  "set_date (Some NoDate) old = None"
| "set_date (Some (DateValue t)) old = Some t"
| "set_date v old = old"

fun set_enum :: "jsval option \<Rightarrow> string \<Rightarrow> string" where
  "set_enum (Some (JStr s)) old = s"
| "set_enum v old = old"

definition set_text :: "string option option \<Rightarrow> string option \<Rightarrow> string option" where
  "set_text v old = (case v of None \<Rightarrow> old | Some x \<Rightarrow> map_option js_trim x)"

definition Customer_set :: "customerData \<Rightarrow> customer \<Rightarrow> customer" where
  "Customer_set d c =
     c\<lparr>c_name := (case d_name d of None \<Rightarrow> c_name c | Some s \<Rightarrow> js_trim s),
       c_dateOfBirth := set_date (d_dateOfBirth d) (c_dateOfBirth c),
       c_email := (case d_email d of None \<Rightarrow> c_email c
                   | Some x \<Rightarrow> map_option (\<lambda>s. map toLowerCase (js_trim s)) x),
       c_phone := (case d_phone d of None \<Rightarrow> c_phone c | Some s \<Rightarrow> js_trim s),
       c_address := (case d_address d of None \<Rightarrow> c_address c | Some s \<Rightarrow> js_trim s),
       c_city := set_text (d_city d) (c_city c),
       c_state := set_text (d_state d) (c_state c),
       c_zipCode := set_text (d_zipCode d) (c_zipCode c),
       c_serviceCategory := (case d_serviceCategory d of None \<Rightarrow> c_serviceCategory c | Some i \<Rightarrow> i),
       c_serviceCategoryName :=
         (case d_serviceCategoryName d of None \<Rightarrow> c_serviceCategoryName c | Some s \<Rightarrow> js_trim s),
       c_serviceSubCategory :=
         (case d_serviceSubCategory d of None \<Rightarrow> c_serviceSubCategory c | Some i \<Rightarrow> i),
       c_serviceSubCategoryName := set_text (d_serviceSubCategoryName d) (c_serviceSubCategoryName c),
       c_serviceNumber := set_text (d_serviceNumber d) (c_serviceNumber c),
       c_status := set_enum (d_status d) (c_status c),
       c_fees := (case d_fees d of None \<Rightarrow> c_fees c | Some q \<Rightarrow> Some q),
       c_gstStatus := set_enum (d_gstStatus d) (c_gstStatus c),
       c_gstNumber := set_text (d_gstNumber d) (c_gstNumber c),
       c_deliveryDate := set_date (d_deliveryDate d) (c_deliveryDate c),
       c_nextRenewalDate := set_date (d_nextRenewalDate d) (c_nextRenewalDate c),
       c_deliveryStatus := set_enum (d_deliveryStatus d) (c_deliveryStatus c),
       c_notes := set_text (d_notes d) (c_notes c),
       c_updatedAt := (case d_updatedAt d of None \<Rightarrow> c_updatedAt c | Some t \<Rightarrow> t)\<rparr>"

text \<open>
  A new document before its paths are set: the defaults of the schema, and the time
  stamps of the \<open>timestamps\<close> option.
\<close>

definition Customer_blank :: "env \<Rightarrow> customer" where
  "Customer_blank E =
     \<lparr>c_id = newId E, c_name = [], c_dateOfBirth = None, c_email = None, c_phone = [],
      c_address = [], c_city = None, c_state = None, c_zipCode = None,
      c_serviceCategory = [], c_serviceCategoryName = [], c_serviceSubCategory = None,
      c_serviceSubCategoryName = None, c_serviceNumber = None, c_status = ''Active'',
      c_fees = None, c_gstStatus = ''Not Paid'', c_gstNumber = None, c_deliveryDate = None,
      c_nextRenewalDate = None, c_deliveryStatus = ''Pending'', c_notes = None,
      c_createdAt = now E, c_updatedAt = now E\<rparr>"

section \<open>Customer routes\<close>

text \<open>
  Both writing routes start by normalizing \<open>serviceSubCategory\<close>: a falsy value becomes
  \<open>null\<close> together with \<open>serviceSubCategoryName\<close>, in the request body itself.
\<close>

definition normalize_subcategory :: "body \<Rightarrow> body" where
  "normalize_subcategory b =
     (if \<not> truthy (b ''serviceSubCategory'')
      then b(''serviceSubCategory'' := JNull, ''serviceSubCategoryName'' := JNull)
      else b)"

definition requiredFields :: "string list" where
  "requiredFields = [''name'', ''phone'', ''address'', ''serviceCategory'', ''serviceCategoryName'']"

definition truthy_or :: "jsval \<Rightarrow> string \<Rightarrow> jsval" where
  "truthy_or v dflt = (if truthy v then v else JStr dflt)"

definition date_of :: "(jsval \<Rightarrow> int option) \<Rightarrow> jsval \<Rightarrow> date_value" where
  "date_of conv v =
     (if truthy v then (case conv v of None \<Rightarrow> InvalidDate | Some t \<Rightarrow> DateValue t) else NoDate)"

definition ObjectId_if_truthy :: "env \<Rightarrow> jsval \<Rightarrow> objectid option option" where
  "ObjectId_if_truthy E v = (if truthy v then map_option Some (ObjectId_new E v) else Some None)"

text \<open>
  The object of the create route. The required fields are truthy when it is built, so
  their conditional expressions take the first branch. \<open>None\<close> is an exception (a
  \<open>trim\<close> of a value that is not a string, an identifier that cannot be built).
\<close>

definition create_customerData :: "env \<Rightarrow> body \<Rightarrow> customerData option" where
  "create_customerData E b =
     do {
       serviceCategory \<leftarrow> ObjectId_new E (b ''serviceCategory'');
       serviceSubCategory \<leftarrow> ObjectId_if_truthy E (b ''serviceSubCategory'');
       name' \<leftarrow> trim_val (b ''name'');
       email' \<leftarrow> trim_if_truthy (b ''email'');
       phone' \<leftarrow> trim_val (b ''phone'');
       address' \<leftarrow> trim_val (b ''address'');
       city' \<leftarrow> trim_if_truthy (b ''city'');
       state' \<leftarrow> trim_if_truthy (b ''state'');
       zipCode' \<leftarrow> trim_if_truthy (b ''zipCode'');
       serviceCategoryName \<leftarrow> trim_val (b ''serviceCategoryName'');
       serviceSubCategoryName \<leftarrow> trim_if_truthy (b ''serviceSubCategoryName'');
       serviceNumber \<leftarrow> trim_if_truthy (b ''serviceNumber'');
       gstNumber \<leftarrow> trim_if_truthy (b ''gstNumber'');
       notes' \<leftarrow> trim_if_truthy (b ''notes'');
       Some \<lparr>d_name = Some name', d_email = Some email', d_phone = Some phone',
             d_dateOfBirth = Some (date_of (castDate E) (b ''dateOfBirth'')),
             d_address = Some address', d_city = Some city', d_state = Some state',
             d_zipCode = Some zipCode', d_serviceCategory = Some serviceCategory,
             d_serviceCategoryName = Some serviceCategoryName,
             d_serviceSubCategory = Some serviceSubCategory,
             d_serviceSubCategoryName = Some serviceSubCategoryName,
             d_serviceNumber = Some serviceNumber,
             d_status = Some (truthy_or (b ''status'') ''Active''),
             d_fees = Some (or_zero (Number_of E (b ''fees''))),
             d_gstStatus = Some (truthy_or (b ''gstStatus'') ''Not Paid''),
             d_gstNumber = Some gstNumber,
             d_deliveryDate = Some (date_of (newDate E) (b ''deliveryDate'')),
             d_nextRenewalDate = Some (date_of (newDate E) (b ''nextRenewalDate'')),
             d_deliveryStatus = Some (truthy_or (b ''deliveryStatus'') ''Pending''),
             d_notes = Some notes', d_updatedAt = None\<rparr>
     }"

definition Customer_create :: "env \<Rightarrow> customer list \<Rightarrow> body \<Rightarrow> (failure + customer) \<times> customer list" where
  "Customer_create E custs body0 =
     (let b = normalize_subcategory body0 in
      if truthy (body0 ''serviceSubCategory'') \<and> \<not> ObjectId_isValid_val (body0 ''serviceSubCategory'')
      then (Inl InvalidIdentifier, custs)
      else
        let missingFields = filter (\<lambda>field. \<not> truthy (b field)) requiredFields in
        if missingFields \<noteq> [] then (Inl (MissingField missingFields), custs)
        else if \<not> phoneRegex_test (b ''phone'') then (Inl (FormatInvalid [''phone'']), custs)
        else
          case create_customerData E b of
            None \<Rightarrow> (Inl ServerError, custs)
          | Some customerData \<Rightarrow>
              if Customer_validate (now E) customerData \<noteq> []
              then (Inl (FormatInvalid (Customer_validate (now E) customerData)), custs)
              else
                let savedCustomer = Customer_set customerData (Customer_blank E) in
                if list_ex (\<lambda>x. c_id x = c_id savedCustomer) custs then (Inl DuplicateKey, custs)
                else (Inr savedCustomer, custs @ [savedCustomer]))"

text \<open>
  The object of the update route, after \<open>undefined\<close> values are removed. \<open>status\<close>,
  \<open>gstStatus\<close>, \<open>deliveryStatus\<close>, \<open>serviceSubCategory\<close> and \<open>updatedAt\<close> are always set.
\<close>

definition update_updateData :: "env \<Rightarrow> body \<Rightarrow> customerData option" where
  "update_updateData E b =
     do {
       name' \<leftarrow> trim_if_truthy (b ''name'');
       email' \<leftarrow> if_defined trim_if_truthy (b ''email'');
       phone' \<leftarrow> trim_if_truthy (b ''phone'');
       address' \<leftarrow> trim_if_truthy (b ''address'');
       city' \<leftarrow> if_defined trim_if_truthy (b ''city'');
       state' \<leftarrow> if_defined trim_if_truthy (b ''state'');
       zipCode' \<leftarrow> if_defined trim_if_truthy (b ''zipCode'');
       serviceCategory \<leftarrow> ObjectId_if_truthy E (b ''serviceCategory'');
       serviceCategoryName \<leftarrow> trim_if_truthy (b ''serviceCategoryName'');
       serviceSubCategory \<leftarrow> ObjectId_if_truthy E (b ''serviceSubCategory'');
       serviceSubCategoryName \<leftarrow> if_defined trim_if_truthy (b ''serviceSubCategoryName'');
       serviceNumber \<leftarrow> if_defined trim_if_truthy (b ''serviceNumber'');
       gstNumber \<leftarrow> if_defined trim_if_truthy (b ''gstNumber'');
       notes' \<leftarrow> if_defined trim_if_truthy (b ''notes'');
       Some \<lparr>d_name = name', d_email = email', d_phone = phone',
             d_dateOfBirth = (if b ''dateOfBirth'' \<noteq> JUndefined
                              then Some (date_of (newDate E) (b ''dateOfBirth'')) else None),
             d_address = address', d_city = city', d_state = state',
             d_zipCode = zipCode', d_serviceCategory = serviceCategory,
             d_serviceCategoryName = serviceCategoryName,
             d_serviceSubCategory = Some serviceSubCategory,
             d_serviceSubCategoryName = serviceSubCategoryName,
             d_serviceNumber = serviceNumber,
             d_status = Some (truthy_or (b ''status'') ''Active''),
             d_fees = (if b ''fees'' \<noteq> JUndefined
                       then Some (or_zero (Number_of E (b ''fees''))) else None),
             d_gstStatus = Some (truthy_or (b ''gstStatus'') ''Not Paid''),
             d_gstNumber = gstNumber,
             d_deliveryDate = (if b ''deliveryDate'' \<noteq> JUndefined
                               then Some (date_of (newDate E) (b ''deliveryDate'')) else None),
             d_nextRenewalDate = (if b ''nextRenewalDate'' \<noteq> JUndefined
                                  then Some (date_of (newDate E) (b ''nextRenewalDate'')) else None),
             d_deliveryStatus = Some (truthy_or (b ''deliveryStatus'') ''Pending''),
             d_notes = notes', d_updatedAt = Some (now E)\<rparr>
     }"

text \<open>
  \<open>findByIdAndUpdate(id, {$set: updateData}, {new: true, runValidators: true})\<close> casts
  and validates the update before it reaches the store, and answers \<open>null\<close> when no
  document has the identifier.
\<close>

definition Customer_update ::
  "env \<Rightarrow> customer list \<Rightarrow> string \<Rightarrow> body \<Rightarrow> (failure + customer) \<times> customer list" where
  "Customer_update E custs i body0 =
     (if \<not> ObjectId_isValid i then (Inl InvalidIdentifier, custs)
      else
        let b = normalize_subcategory body0 in
        if truthy (body0 ''serviceSubCategory'') \<and> \<not> ObjectId_isValid_val (body0 ''serviceSubCategory'')
        then (Inl InvalidIdentifier, custs)
        else
          case update_updateData E b of
            None \<Rightarrow> (Inl ServerError, custs)
          | Some updateData \<Rightarrow>
              if Customer_castError updateData then (Inl ServerError, custs)
              else if Customer_validate (now E) updateData \<noteq> []
              then (Inl (FormatInvalid (Customer_validate (now E) updateData)), custs)
              else
                (case castObjectId i of
                   None \<Rightarrow> (Inl ServerError, custs)
                 | Some oid \<Rightarrow>
                     (case find (\<lambda>c. c_id c = oid) custs of
                        None \<Rightarrow> (Inl NotFound, custs)
                      | Some c \<Rightarrow>
                          let updatedCustomer = Customer_set updateData c in
                          (Inr updatedCustomer,
                           map (\<lambda>x. if c_id x = oid then updatedCustomer else x) custs))))"

text \<open>\<open>.populate('serviceCategory', ...)\<close> and \<open>.populate('serviceSubCategory', 'name')\<close>.\<close>

type_synonym customer_row = "customer \<times> category option \<times> subcategory option"

definition populate_customer :: "category list \<Rightarrow> subcategory list \<Rightarrow> customer \<Rightarrow> customer_row" where
  "populate_customer cs subs c =
     (c, find (\<lambda>x. cat_id x = c_serviceCategory c) cs,
      (case c_serviceSubCategory c of
         None \<Rightarrow> None
       | Some i \<Rightarrow> find (\<lambda>x. sub_id x = i) subs))"

definition Customer_getById ::
  "category list \<Rightarrow> subcategory list \<Rightarrow> customer list \<Rightarrow> string \<Rightarrow> failure + customer_row" where
  "Customer_getById cs subs custs i =
     (case castObjectId i of
        None \<Rightarrow> Inl ServerError
      | Some oid \<Rightarrow>
          (case find (\<lambda>c. c_id c = oid) custs of
             None \<Rightarrow> Inl NotFound
           | Some c \<Rightarrow> Inr (populate_customer cs subs c)))"

definition Customer_delete :: "customer list \<Rightarrow> string \<Rightarrow> (failure + unit) \<times> customer list" where
  "Customer_delete custs i =
     (if \<not> ObjectId_isValid i then (Inl InvalidIdentifier, custs)
      else case castObjectId i of
        None \<Rightarrow> (Inl ServerError, custs)
      | Some oid \<Rightarrow>
          (case find (\<lambda>c. c_id c = oid) custs of
             None \<Rightarrow> (Inl NotFound, custs)
           | Some c \<Rightarrow> (Inr (), filter (\<lambda>x. c_id x \<noteq> oid) custs)))"

section \<open>The customer list\<close>

record list_query =
  q_search :: "string option"
  q_status :: "string option"
  q_service :: "string option"
  q_sortBy :: "string option"
  q_sortOrder :: "string option"

text \<open>
  The parameters of the query string, each absent or a string; a parameter given as an
  array or an object (a repeated key, a key with brackets) is not modelled. A
  parameter is used when it is there and not empty.
\<close>

fun present :: "string option \<Rightarrow> bool" where
  "present None = False"
| "present (Some s) = (s \<noteq> [])"

definition the_default :: "'a \<Rightarrow> 'a option \<Rightarrow> 'a" where
  "the_default d v = (case v of None \<Rightarrow> d | Some x \<Rightarrow> x)"

text \<open>
  The store orders values by type first (null and missing, then numbers, strings,
  identifiers, dates) and by value within a type; strings and identifiers compare
  character by character. A sort key is the rank of the type and the value, compared
  lexicographically.
\<close>

type_synonym sortkey = "nat \<times> rat \<times> string \<times> int"

definition key_null :: sortkey where "key_null = (0, 0, [], 0)"

definition key_num :: "rat \<Rightarrow> sortkey" where "key_num q = (1, q, [], 0)"

definition key_str :: "string \<Rightarrow> sortkey" where "key_str s = (2, 0, s, 0)"

definition key_id :: "objectid \<Rightarrow> sortkey" where "key_id i = (3, 0, i, 0)"

definition key_date :: "int \<Rightarrow> sortkey" where "key_date t = (4, 0, [], t)"

definition key_opt :: "('a \<Rightarrow> sortkey) \<Rightarrow> 'a option \<Rightarrow> sortkey" where
  "key_opt k v = (case v of None \<Rightarrow> key_null | Some x \<Rightarrow> k x)"

text \<open>The value a document has at a path; a path the schema does not have is missing.\<close>

definition field_key :: "string \<Rightarrow> customer \<Rightarrow> sortkey" where
  "field_key f c =
     (if f = ''_id'' then key_id (c_id c)
      else if f = ''name'' then key_str (c_name c)
      else if f = ''dateOfBirth'' then key_opt key_date (c_dateOfBirth c)
      else if f = ''email'' then key_opt key_str (c_email c)
      else if f = ''phone'' then key_str (c_phone c)
      else if f = ''address'' then key_str (c_address c)
      else if f = ''city'' then key_opt key_str (c_city c)
      else if f = ''state'' then key_opt key_str (c_state c)
      else if f = ''zipCode'' then key_opt key_str (c_zipCode c)
      else if f = ''serviceCategory'' then key_id (c_serviceCategory c)
      else if f = ''serviceCategoryName'' then key_str (c_serviceCategoryName c)
      else if f = ''serviceSubCategory'' then key_opt key_id (c_serviceSubCategory c)
      else if f = ''serviceSubCategoryName'' then key_opt key_str (c_serviceSubCategoryName c)
      else if f = ''serviceNumber'' then key_opt key_str (c_serviceNumber c)
      else if f = ''status'' then key_str (c_status c)
      else if f = ''fees'' then key_opt key_num (c_fees c)
      else if f = ''gstStatus'' then key_str (c_gstStatus c)
      else if f = ''gstNumber'' then key_opt key_str (c_gstNumber c)
      else if f = ''deliveryDate'' then key_opt key_date (c_deliveryDate c)
      else if f = ''nextRenewalDate'' then key_opt key_date (c_nextRenewalDate c)
      else if f = ''deliveryStatus'' then key_str (c_deliveryStatus c)
      else if f = ''notes'' then key_opt key_str (c_notes c)
      else if f = ''createdAt'' then key_date (c_createdAt c)
      else if f = ''updatedAt'' then key_date (c_updatedAt c)
      else key_null)"

definition schema_paths :: "string list" where
  "schema_paths = [''_id'', ''name'', ''dateOfBirth'', ''email'', ''phone'', ''address'', ''city'',
     ''state'', ''zipCode'', ''serviceCategory'', ''serviceCategoryName'', ''serviceSubCategory'',
     ''serviceSubCategoryName'', ''serviceNumber'', ''status'', ''fees'', ''gstStatus'', ''gstNumber'',
     ''deliveryDate'', ''nextRenewalDate'', ''deliveryStatus'', ''notes'', ''createdAt'', ''updatedAt'']"

text \<open>
  The filter the route builds: the \<open>$or\<close> of four \<open>$regex\<close> clauses when \<open>search\<close> is
  used (a null field matches no pattern), and the two equalities.
\<close>

definition matches_opt :: "(string \<Rightarrow> bool) \<Rightarrow> string option \<Rightarrow> bool" where
  "matches_opt m v = (case v of None \<Rightarrow> False | Some s \<Rightarrow> m s)"

definition query_holds ::
  "(string \<Rightarrow> bool) option \<Rightarrow> string option \<Rightarrow> objectid option \<Rightarrow> customer \<Rightarrow> bool" where
  "query_holds m st svc c =
     ((case m of
         None \<Rightarrow> True
       | Some p \<Rightarrow> p (c_name c) \<or> matches_opt p (c_email c) \<or> p (c_phone c)
                   \<or> matches_opt p (c_serviceNumber c))
      \<and> (case st of None \<Rightarrow> True | Some x \<Rightarrow> c_status c = x)
      \<and> (case svc of None \<Rightarrow> True | Some i \<Rightarrow> c_serviceCategory c = i))"

text \<open>
  \<open>Customer.find(query).sort(sort).populate(...)\<close>. A pattern the store refuses, a
  \<open>service\<close> that is not an identifier and an empty \<open>sortBy\<close> (the default applies only
  to an absent one, and the store has no empty path) make the query throw (a 500).
  Among documents with equal keys the order of the store is kept (reversed when
  descending).
\<close>

definition Customer_list ::
  "regexp \<Rightarrow> category list \<Rightarrow> subcategory list \<Rightarrow> customer list \<Rightarrow> list_query \<Rightarrow>
     failure + customer_row list" where
  "Customer_list rx cs subs custs q =
     (let sortBy = (case q_sortBy q of None \<Rightarrow> ''createdAt'' | Some f \<Rightarrow> f);
          sortOrder = (case q_sortOrder q of None \<Rightarrow> ''desc'' | Some x \<Rightarrow> x) in
      if sortBy = [] then Inl ServerError
      else
      case (if present (q_search q) then map_option Some (rx (the_default [] (q_search q))) else Some None) of
        None \<Rightarrow> Inl ServerError
      | Some m \<Rightarrow>
          (case (if present (q_service q)
                 then map_option Some (castObjectId (the_default [] (q_service q))) else Some None) of
             None \<Rightarrow> Inl ServerError
           | Some svc \<Rightarrow>
               let st = (if present (q_status q) then q_status q else None);
                   found = filter (query_holds m st svc) custs;
                   ascending = sort_key (field_key sortBy) found in
               Inr (map (populate_customer cs subs)
                      (if sortOrder = ''desc'' then rev ascending else ascending))))"

section \<open>Examples of stored data\<close>

definition cat1 :: category where
  "cat1 = \<lparr>cat_id = ''65a1b2c3d4e5f60718293a4b'', cat_name = ''Internet'', cat_url = [],
            cat_createdAt = 1000\<rparr>"

definition sub1 :: subcategory where
  "sub1 = \<lparr>sub_id = ''65a1b2c3d4e5f60718293a5c'', sub_name = ''Fibre'',
            sub_category = ''65a1b2c3d4e5f60718293a4b'', sub_description = [],
            sub_createdAt = 2000, sub_updatedAt = 2000\<rparr>"

definition cat_abc :: category where
  "cat_abc = \<lparr>cat_id = ''65a1b2c3d4e5f60718293a4c'', cat_name = ''abc'', cat_url = [],
               cat_createdAt = 1000\<rparr>"

definition cat_plus :: category where
  "cat_plus = \<lparr>cat_id = ''65a1b2c3d4e5f60718293a4d'', cat_name = ''a+b'', cat_url = [],
                cat_createdAt = 1000\<rparr>"

definition cat_new :: category where
  "cat_new = \<lparr>cat_id = ''65a1b2c3d4e5f60718293a4e'', cat_name = ''A+B'', cat_url = [],
               cat_createdAt = 3000\<rparr>"

definition sub_abc :: subcategory where
  "sub_abc = \<lparr>sub_id = ''65a1b2c3d4e5f60718293a5d'', sub_name = ''abc'',
               sub_category = ''65a1b2c3d4e5f60718293a4b'', sub_description = [],
               sub_createdAt = 2000, sub_updatedAt = 2000\<rparr>"

definition sub_plus :: subcategory where
  "sub_plus = \<lparr>sub_id = ''65a1b2c3d4e5f60718293a5e'', sub_name = ''a+b'',
                sub_category = ''65a1b2c3d4e5f60718293a4b'', sub_description = [],
                sub_createdAt = 2000, sub_updatedAt = 2000\<rparr>"

definition sub_new :: subcategory where
  "sub_new = \<lparr>sub_id = ''65a1b2c3d4e5f60718293a5f'', sub_name = ''A+B'',
               sub_category = ''65a1b2c3d4e5f60718293a4b'', sub_description = [],
               sub_createdAt = 3000, sub_updatedAt = 3000\<rparr>"

definition named :: "string \<Rightarrow> category_body" where
  "named n = \<lparr>b_name = Some n, b_url = None\<rparr>"

definition named_in :: "string \<Rightarrow> string \<Rightarrow> subcategory_body" where
  "named_in n c = \<lparr>sb_name = Some n, sb_categoryId = Some c, sb_description = None\<rparr>"

text \<open>
  An environment for the examples. Its conversions are stand-ins that agree with the
  runtime on what the examples convert: the string \<open>abc\<close> is not a number, and a number
  within the range of time values is the date of that many whole milliseconds. No
  example converts another string, or builds an identifier from a number.
\<close>

definition number_dates :: "jsval \<Rightarrow> int option" where
  "number_dates v =
     (case v of
        JNum (Num q) \<Rightarrow>
          if \<bar>q\<bar> \<le> 8640000000000000 then Some (if 0 \<le> q then \<lfloor>q\<rfloor> else \<lceil>q\<rceil>) else None
      | _ \<Rightarrow> None)"

definition env1 :: env where
  "env1 = \<lparr>StringToNumber = (\<lambda>s. NaN), newDate = number_dates, castDate = number_dates,
            ObjectId_of_number = (\<lambda>n. None), now = 5000, newId = ''65a1b2c3d4e5f60718293a6b''\<rparr>"

definition cust1 :: customer where
  "cust1 = \<lparr>c_id = ''65a1b2c3d4e5f60718293a6a'', c_name = ''Asha'', c_dateOfBirth = None,
     c_email = Some ''asha@example.com'', c_phone = ''9876543210'', c_address = ''12 Main Road'',
     c_city = None, c_state = None, c_zipCode = None,
     c_serviceCategory = ''65a1b2c3d4e5f60718293a4b'', c_serviceCategoryName = ''Internet'',
     c_serviceSubCategory = Some ''65a1b2c3d4e5f60718293a5c'', c_serviceSubCategoryName = Some ''Fibre'',
     c_serviceNumber = Some ''SN-555'', c_status = ''Inactive'', c_fees = Some 250,
     c_gstStatus = ''Paid'', c_gstNumber = None, c_deliveryDate = None, c_nextRenewalDate = None,
     c_deliveryStatus = ''Completed'', c_notes = None, c_createdAt = 4000, c_updatedAt = 4000\<rparr>"

definition cust1_noted :: customer where
  "cust1_noted = cust1\<lparr>c_serviceSubCategory := None, c_serviceSubCategoryName := None,
     c_status := ''Active'', c_gstStatus := ''Not Paid'', c_deliveryStatus := ''Pending'',
     c_notes := Some ''x'', c_updatedAt := 5000\<rparr>"

definition only_notes :: "string \<Rightarrow> body" where
  "only_notes s = (\<lambda>f. JUndefined)(''notes'' := JStr s)"

definition body_of :: "(string \<times> jsval) list \<Rightarrow> body" where
  "body_of kvs f = (case map_of kvs f of None \<Rightarrow> JUndefined | Some v \<Rightarrow> v)"

definition new_customer_fields :: "(string \<times> jsval) list" where
  "new_customer_fields = [(''name'', JStr ''Ravi''), (''phone'', JStr ''1234567890''),
     (''address'', JStr ''4 Lake View''), (''serviceCategory'', JStr ''65a1b2c3d4e5f60718293a4b''),
     (''serviceCategoryName'', JStr ''Internet'')]"

definition cust2 :: customer where
  "cust2 = \<lparr>c_id = ''65a1b2c3d4e5f60718293a6b'', c_name = ''Ravi'', c_dateOfBirth = None,
     c_email = None, c_phone = ''1234567890'', c_address = ''4 Lake View'',
     c_city = None, c_state = None, c_zipCode = None,
     c_serviceCategory = ''65a1b2c3d4e5f60718293a4b'', c_serviceCategoryName = ''Internet'',
     c_serviceSubCategory = None, c_serviceSubCategoryName = None,
     c_serviceNumber = None, c_status = ''Active'', c_fees = Some 0,
     c_gstStatus = ''Not Paid'', c_gstNumber = None, c_deliveryDate = None, c_nextRenewalDate = None,
     c_deliveryStatus = ''Pending'', c_notes = None, c_createdAt = 5000, c_updatedAt = 5000\<rparr>"

text \<open>
  The policy of an enumerated field, as a relation between the request's value and the
  stored one: a truthy value is stored as it is and is one of the allowed values; a
  falsy one is replaced by the default.
\<close>

definition enum_policy :: "string list \<Rightarrow> string \<Rightarrow> jsval \<Rightarrow> string \<Rightarrow> bool" where
  "enum_policy allowed dflt v stored =
     (if truthy v then v = JStr stored \<and> stored \<in> set allowed else stored = dflt)"

definition sub_copper :: subcategory where
  "sub_copper = \<lparr>sub_id = ''65a1b2c3d4e5f60718293a5f'', sub_name = ''Copper'',
                  sub_category = ''65a1b2c3d4e5f60718293a4b'', sub_description = [],
                  sub_createdAt = 3000, sub_updatedAt = 3000\<rparr>"

text \<open>
  A string without pattern syntax: as a pattern it stands for itself. The characters
  with a meaning of their own are the twelve that \<open>normal_step\<close> tells apart; a slash,
  a closing bracket and a closing brace without its opening one are literal.
\<close>

definition special_chars :: "char list" where
  "special_chars = [CHR ''^'', CHR ''$'', CHR 0x5C, CHR ''.'', CHR ''*'', CHR ''+'', CHR ''?'',
     CHR ''('', CHR '')'', CHR ''['', CHR ''{'', CHR ''|'']"

definition pattern_free :: "string \<Rightarrow> bool" where
  "pattern_free s = list_all (\<lambda>c. c \<notin> set special_chars) s"

text \<open>
  The selection as the specification words it: \<open>contains_ci needle hay\<close> says that \<open>hay\<close>
  contains \<open>needle\<close> up to letter case, and \<open>selected m q svc\<close> is the conjunction of the
  constraints of the parameters that are present, for a search predicate \<open>m\<close> and the
  identifier \<open>svc\<close> that \<open>service\<close> denotes.
\<close>

definition contains_ci :: "string \<Rightarrow> string \<Rightarrow> bool" where
  "contains_ci needle hay =
     list_ex (\<lambda>i. map toUpperCase (take (length needle) (drop i hay)) = map toUpperCase needle)
       [0..<Suc (length hay)]"

definition selected :: "(string \<Rightarrow> bool) \<Rightarrow> list_query \<Rightarrow> objectid \<Rightarrow> customer \<Rightarrow> bool" where
  "selected m q svc c =
     ((present (q_search q) \<longrightarrow>
         m (c_name c) \<or> matches_opt m (c_email c) \<or> m (c_phone c) \<or> matches_opt m (c_serviceNumber c))
      \<and> (present (q_status q) \<longrightarrow> q_status q = Some (c_status c))
      \<and> (present (q_service q) \<longrightarrow> c_serviceCategory c = svc))"

definition searching :: "string \<Rightarrow> list_query" where
  "searching s = \<lparr>q_search = Some s, q_status = None, q_service = None, q_sortBy = None,
                   q_sortOrder = None\<rparr>"

section \<open>Properties\<close>

lemma castObjectId_example:
  "castObjectId ''65A1B2c3d4e5f60718293a4b'' = Some ''65a1b2c3d4e5f60718293a4b''"
  by code_simp

lemma dropWhile_trimmed:
  "dropWhile P (rev (dropWhile P (rev (dropWhile P (rev (dropWhile P s))))))
     = dropWhile P (rev (dropWhile P s))"
proof -
  define u where "u = dropWhile P s"
  define w where "w = dropWhile P (rev u)"
  have u: "u = rev w @ rev (takeWhile P (rev u))"
    unfolding w_def by (metis rev_append rev_rev_ident takeWhile_dropWhile_id)
  have "dropWhile P (rev w) = rev w"
  proof (cases "w = []")
    case True
    then show ?thesis by simp
  next
    case False
    then have "hd (rev w) = hd u"
      using u by (metis hd_append2 rev_is_Nil_conv)
    moreover have "u \<noteq> []"
      using False w_def by auto
    then have "\<not> P (hd u)"
      unfolding u_def by (rule hd_dropWhile)
    ultimately show ?thesis
      by (simp add: dropWhile_eq_self_iff)
  qed
  moreover have "dropWhile P w = w"
    unfolding w_def by (simp add: dropWhile_eq_self_iff hd_dropWhile)
  ultimately show ?thesis
    unfolding u_def w_def by simp
qed

lemma js_trim_idem [simp]: "js_trim (js_trim s) = js_trim s"
  by (simp add: js_trim_def dropWhile_trimmed)

lemma find_by_id_Some:
  assumes "c \<in> set cs" and "cat_id c = oid"
  obtains c' where "find (\<lambda>c. cat_id c = oid) cs = Some c'" and "cat_id c' = oid"
proof (cases "find (\<lambda>c. cat_id c = oid) cs")
  case None
  with assms show ?thesis by (auto simp: find_None_iff)
next
  case (Some c')
  then have "cat_id c' = oid" by (auto simp: find_Some_iff)
  with Some that show ?thesis by blast
qed

text \<open>
  C6. Deleting a stored Category that at least one SubCategory references fails with
  HasDependents and leaves the store as it was (the Category is still listed);
  deleting a stored Category that no SubCategory references succeeds, and the list of
  categories afterwards holds exactly the other categories, none with that identifier.
\<close>

theorem Category_delete_dependents:
  assumes "castObjectId i = Some oid" and "c \<in> set cs" and "cat_id c = oid"
  shows "((\<exists>s\<in>set subs. sub_category s = oid) \<longrightarrow>
            Category_delete cs subs i = (Inl HasDependents, cs) \<and> c \<in> set (Category_list cs))
       \<and> ((\<forall>s\<in>set subs. sub_category s \<noteq> oid) \<longrightarrow>
            fst (Category_delete cs subs i) = Inr ()
          \<and> (\<forall>x\<in>set (Category_list (snd (Category_delete cs subs i))). cat_id x \<noteq> oid)
          \<and> set (Category_list (snd (Category_delete cs subs i))) = {x \<in> set cs. cat_id x \<noteq> oid})"
proof -
  from assms(2,3) obtain c' where f: "find (\<lambda>c. cat_id c = oid) cs = Some c'"
    and c': "cat_id c' = oid"
    by (rule find_by_id_Some)
  have fb: "Category_findById cs i = Inr (Some c')"
    using assms(1) f by (simp add: Category_findById_def)
  show ?thesis
    using fb c' assms(2)
    by (auto simp: Category_delete_def Category_list_def Let_def filter_empty_conv)
qed

theorem Category_delete_dependents_witness:
  "Category_delete [cat1] [sub1] ''65A1B2c3d4e5f60718293a4b'' = (Inl HasDependents, [cat1])
   \<and> cat1 \<in> set (Category_list [cat1])
   \<and> fst (Category_delete [cat1] [] ''65A1B2c3d4e5f60718293a4b'') = Inr ()
   \<and> set (Category_list (snd (Category_delete [cat1] [] ''65A1B2c3d4e5f60718293a4b''))) = {}"
proof -
  have a: "cat1 \<in> set [cat1]" by simp
  have b: "cat_id cat1 = ''65a1b2c3d4e5f60718293a4b''" by (simp add: cat1_def)
  have s: "\<exists>s\<in>set [sub1]. sub_category s = ''65a1b2c3d4e5f60718293a4b''"
    by (simp add: sub1_def)
  have n: "\<forall>s\<in>set ([] :: subcategory list). sub_category s \<noteq> ''65a1b2c3d4e5f60718293a4b''"
    by simp
  from Category_delete_dependents [OF castObjectId_example a b, of "[sub1]"] s
  have 1: "Category_delete [cat1] [sub1] ''65A1B2c3d4e5f60718293a4b'' = (Inl HasDependents, [cat1])
           \<and> cat1 \<in> set (Category_list [cat1])"
    by blast
  from Category_delete_dependents [OF castObjectId_example a b, of "[]"] n
  have 2: "fst (Category_delete [cat1] [] ''65A1B2c3d4e5f60718293a4b'') = Inr ()
      \<and> set (Category_list (snd (Category_delete [cat1] [] ''65A1B2c3d4e5f60718293a4b'')))
          = {x \<in> set [cat1]. cat_id x \<noteq> ''65a1b2c3d4e5f60718293a4b''}"
    by blast
  have "{x \<in> set [cat1]. cat_id x \<noteq> ''65a1b2c3d4e5f60718293a4b''} = {}"
    using b by auto
  with 1 2 show ?thesis by simp
qed

text \<open>
  C2. The claim: every operation that takes an identifier answers a malformed one
  with InvalidIdentifier before the store is touched. The SubCategory routes and the
  update and delete routes of Customer do; the Category routes and the getById route
  of Customer pass the identifier to \<open>findById\<close> unchecked, and the CastError it throws
  is answered with the 500 of the \<open>catch\<close> block. Here are the routes at the
  identifier \<open>abc\<close>, for any stored data.
\<close>

theorem malformed_identifier_responses:
  "Category_getById cs ''abc'' = Inl ServerError
   \<and> fst (Category_update rx cs ''abc'' (named ''x'')) = Inl ServerError
   \<and> fst (Category_delete cs subs ''abc'') = Inl ServerError
   \<and> Customer_getById cs subs custs ''abc'' = Inl ServerError
   \<and> SubCategory_getById cs subs ''abc'' = Inl InvalidIdentifier
   \<and> fst (SubCategory_delete subs ''abc'') = Inl InvalidIdentifier
   \<and> fst (Customer_update E custs ''abc'' body) = Inl InvalidIdentifier
   \<and> fst (Customer_delete custs ''abc'') = Inl InvalidIdentifier"
  by code_simp

text \<open>
  C4. The claim: creating a Category whose name differs only in letter case from a
  stored one fails with DuplicateName. The lookup interpolates the name into a
  pattern, so for the stored name \<open>a+b\<close> the new name \<open>A+B\<close> is looked up as "one or more
  a, then b", which the stored name does not match: the Category is created and the
  store then holds two names that are equal up to case.
\<close>

theorem Category_create_case_variant:
  "Category_create fragment_RegExp 3000 ''65a1b2c3d4e5f60718293a4e'' [cat_plus] (named ''A+B'')
     = (Inr cat_new, [cat_plus, cat_new])
   \<and> map toUpperCase (cat_name cat_plus) = map toUpperCase (cat_name cat_new)
   \<and> in_fragment ''^A+B$''"
  by code_simp

text \<open>
  C5. The claim: a second SubCategory with the same name under the same category fails
  with DuplicateName. For the name \<open>a+b\<close> the lookup finds nothing, for the reason given
  at C4: the same name again reaches the store, whose unique index refuses it (a 500,
  not DuplicateName), and the name \<open>A+B\<close> is created beside \<open>a+b\<close> in the same category.
\<close>

theorem SubCategory_create_same_name:
  "SubCategory_create fragment_RegExp 3000 ''65a1b2c3d4e5f60718293a5f'' [cat1] [sub_plus]
       (named_in ''a+b'' ''65a1b2c3d4e5f60718293a4b'')
     = (Inl ServerError, [sub_plus])
   \<and> SubCategory_create fragment_RegExp 3000 ''65a1b2c3d4e5f60718293a5f'' [cat1] [sub_plus]
       (named_in ''A+B'' ''65a1b2c3d4e5f60718293a4b'')
     = (Inr (sub_new, Some cat1), [sub_plus, sub_new])
   \<and> map toUpperCase (sub_name sub_plus) = map toUpperCase (sub_name sub_new)
   \<and> sub_category sub_plus = sub_category sub_new
   \<and> in_fragment ''^a+b$'' \<and> in_fragment ''^A+B$''"
  by code_simp

text \<open>
  C10. The duplicate-name lookups of Category and SubCategory take the name as a
  pattern. Creating \<open>a.c\<close> when \<open>abc\<close> is stored is refused as a duplicate although the two
  names differ also up to case, and creating a name that is not a well-formed pattern,
  such as an opening parenthesis, ends in the 500 of the \<open>catch\<close> block rather than in
  a validation result.
\<close>

theorem name_taken_as_pattern:
  "Category_create fragment_RegExp t i [cat_abc] (named ''a.c'') = (Inl DuplicateName, [cat_abc])
   \<and> SubCategory_create fragment_RegExp t i [cat1] [sub_abc]
         (named_in ''a.c'' ''65a1b2c3d4e5f60718293a4b'') = (Inl DuplicateName, [sub_abc])
   \<and> map toUpperCase (cat_name cat_abc) \<noteq> map toUpperCase ''a.c''
   \<and> map toUpperCase (sub_name sub_abc) \<noteq> map toUpperCase ''a.c''
   \<and> Category_create fragment_RegExp t i cs (named ''('') = (Inl ServerError, cs)
   \<and> SubCategory_create fragment_RegExp t i [cat1] subs
         (named_in ''('' ''65a1b2c3d4e5f60718293a4b'') = (Inl ServerError, subs)
   \<and> in_fragment ''^a.c$'' \<and> in_fragment ''^($''"
  by code_simp

subsection \<open>Partial update of a Customer\<close>

lemma validate_notes_only:
  "length (js_trim s) \<le> 2000 \<Longrightarrow>
   Customer_validate t \<lparr>d_name = None, d_email = None, d_phone = None, d_dateOfBirth = None,
      d_address = None, d_city = None, d_state = None, d_zipCode = None, d_serviceCategory = None,
      d_serviceCategoryName = None, d_serviceSubCategory = Some None,
      d_serviceSubCategoryName = Some None, d_serviceNumber = None,
      d_status = Some (JStr ''Active''), d_fees = None, d_gstStatus = Some (JStr ''Not Paid''),
      d_gstNumber = None, d_deliveryDate = None, d_nextRenewalDate = None,
      d_deliveryStatus = Some (JStr ''Pending''),
      d_notes = Some (if s = [] then None else Some (js_trim s)), d_updatedAt = Some t'\<rparr> = []"
  by (simp add: Customer_validate_def required_text_def optional_text_def date_path_def enum_path_def
        status_values_def gstStatus_values_def deliveryStatus_values_def)

lemma updateData_notes_only:
  assumes "\<forall>f. f \<noteq> ''notes'' \<longrightarrow> body f = JUndefined" and "body ''notes'' = JStr s"
  shows "update_updateData E (normalize_subcategory body) =
    Some \<lparr>d_name = None, d_email = None, d_phone = None, d_dateOfBirth = None,
      d_address = None, d_city = None, d_state = None, d_zipCode = None, d_serviceCategory = None,
      d_serviceCategoryName = None, d_serviceSubCategory = Some None,
      d_serviceSubCategoryName = Some None, d_serviceNumber = None,
      d_status = Some (JStr ''Active''), d_fees = None, d_gstStatus = Some (JStr ''Not Paid''),
      d_gstNumber = None, d_deliveryDate = None, d_nextRenewalDate = None,
      d_deliveryStatus = Some (JStr ''Pending''),
      d_notes = Some (if s = [] then None else Some (js_trim s)), d_updatedAt = Some (now E)\<rparr>"
  using assms
  by (simp add: update_updateData_def normalize_subcategory_def trim_if_truthy_def if_defined_def
      ObjectId_if_truthy_def truthy_or_def)

text \<open>
  C1, as the code has it. An update whose payload has only the field \<open>notes\<close>, a string of
  at most 2000 characters once trimmed, on a stored Customer: \<open>notes\<close> becomes the
  trimmed string (\<open>null\<close> for the empty string) and \<open>updatedAt\<close> the time of the update;
  \<open>status\<close>, \<open>gstStatus\<close> and \<open>deliveryStatus\<close> are set to their defaults and
  \<open>serviceSubCategory\<close> and \<open>serviceSubCategoryName\<close> to \<open>null\<close>; every other field of the
  stored record, and every other record, stays as it was. The new \<open>updatedAt\<close> is later
  than the old one when the clock has moved on since.
\<close>

theorem Customer_update_notes_only:
  assumes "\<forall>f. f \<noteq> ''notes'' \<longrightarrow> body f = JUndefined" and "body ''notes'' = JStr s"
    and "length (js_trim s) \<le> 2000"
    and "castObjectId i = Some oid" and "find (\<lambda>c. c_id c = oid) custs = Some c"
  shows "Customer_update E custs i body =
      (Inr (c\<lparr>c_serviceSubCategory := None, c_serviceSubCategoryName := None,
              c_status := ''Active'', c_gstStatus := ''Not Paid'', c_deliveryStatus := ''Pending'',
              c_notes := (if s = [] then None else Some (js_trim s)), c_updatedAt := now E\<rparr>),
       map (\<lambda>x. if c_id x = oid then
             c\<lparr>c_serviceSubCategory := None, c_serviceSubCategoryName := None,
               c_status := ''Active'', c_gstStatus := ''Not Paid'', c_deliveryStatus := ''Pending'',
               c_notes := (if s = [] then None else Some (js_trim s)), c_updatedAt := now E\<rparr>
             else x) custs)
    \<and> (c_updatedAt c < now E \<longrightarrow>
         (\<forall>c'. fst (Customer_update E custs i body) = Inr c' \<longrightarrow> c_updatedAt c < c_updatedAt c'))"
proof -
  have v: "ObjectId_isValid i"
    using assms(4) by (simp add: castObjectId_def split: if_splits)
  have n: "\<not> truthy (body ''serviceSubCategory'')"
    using assms(1) by simp
  have "Customer_update E custs i body =
      (Inr (c\<lparr>c_serviceSubCategory := None, c_serviceSubCategoryName := None,
              c_status := ''Active'', c_gstStatus := ''Not Paid'', c_deliveryStatus := ''Pending'',
              c_notes := (if s = [] then None else Some (js_trim s)), c_updatedAt := now E\<rparr>),
       map (\<lambda>x. if c_id x = oid then
             c\<lparr>c_serviceSubCategory := None, c_serviceSubCategoryName := None,
               c_status := ''Active'', c_gstStatus := ''Not Paid'', c_deliveryStatus := ''Pending'',
               c_notes := (if s = [] then None else Some (js_trim s)), c_updatedAt := now E\<rparr>
             else x) custs)"
    using v n assms(3,4,5)
    by (simp add: Customer_update_def updateData_notes_only[OF assms(1,2)] validate_notes_only
        Customer_castError_def Customer_set_def set_text_def Let_def)
  then show ?thesis by simp
qed

theorem Customer_update_notes_only_witness:
  "Customer_update env1 [cust1] ''65a1b2c3d4e5f60718293a6a'' (only_notes ''x'')
     = (Inr cust1_noted, [cust1_noted])
   \<and> c_updatedAt cust1 < c_updatedAt cust1_noted"
proof -
  have 1: "\<forall>f. f \<noteq> ''notes'' \<longrightarrow> only_notes ''x'' f = JUndefined"
    by (simp add: only_notes_def)
  have 2: "only_notes ''x'' ''notes'' = JStr ''x''"
    by (simp add: only_notes_def)
  have 3: "length (js_trim ''x'') \<le> 2000" by code_simp
  have 4: "castObjectId ''65a1b2c3d4e5f60718293a6a'' = Some ''65a1b2c3d4e5f60718293a6a''"
    by code_simp
  have 5: "find (\<lambda>c. c_id c = ''65a1b2c3d4e5f60718293a6a'') [cust1] = Some cust1" by code_simp
  have 6: "js_trim ''x'' = ''x''" by code_simp
  have 7: "c_id cust1 = ''65a1b2c3d4e5f60718293a6a''" by code_simp
  have 8: "now env1 = 5000" by code_simp
  have 9: "c_updatedAt cust1 < c_updatedAt cust1_noted" by code_simp
  show ?thesis
    using Customer_update_notes_only [OF 1 2 3 4 5, of env1] 9
    by (simp add: 6 7 8 cust1_noted_def)
qed

text \<open>
  The claim C1 itself (every other field unchanged) fails: the stored status
  \<open>Inactive\<close>, the GST status \<open>Paid\<close>, the delivery status \<open>Completed\<close> and the
  subcategory are overwritten by an update that names only \<open>notes\<close>.
\<close>

theorem Customer_update_notes_only_counterexample:
  "fst (Customer_update env1 [cust1] ''65a1b2c3d4e5f60718293a6a'' (only_notes ''x'')) = Inr cust1_noted
   \<and> c_status cust1_noted \<noteq> c_status cust1
   \<and> c_gstStatus cust1_noted \<noteq> c_gstStatus cust1
   \<and> c_deliveryStatus cust1_noted \<noteq> c_deliveryStatus cust1
   \<and> c_serviceSubCategory cust1_noted \<noteq> c_serviceSubCategory cust1
   \<and> c_serviceSubCategoryName cust1_noted \<noteq> c_serviceSubCategoryName cust1"
  by code_simp

subsection \<open>A new Customer from its required fields\<close>

lemma digit_not_whitespace: "is_digit c \<Longrightarrow> \<not> is_whitespace c"
  by (auto simp: is_digit_def is_whitespace_def)

lemma dropWhile_digits: "list_all is_digit p \<Longrightarrow> dropWhile is_whitespace p = p"
  by (cases p) (auto simp: digit_not_whitespace)

lemma ten_digits_trim: "ten_digits p \<Longrightarrow> js_trim p = p"
proof -
  assume "ten_digits p"
  then have d: "list_all is_digit p" by (simp add: ten_digits_def)
  then have "list_all is_digit (rev p)" by (simp add: list_all_iff)
  with d show ?thesis by (simp add: js_trim_def dropWhile_digits)
qed

lemma minimal_create_succeeds:
  assumes "body ''name'' = JStr n" "js_trim n \<noteq> []" "length (js_trim n) \<le> 100"
    and "body ''address'' = JStr a" "js_trim a \<noteq> []" "length (js_trim a) \<le> 500"
    and "body ''serviceCategory'' = JStr sc" "ObjectId_isValid sc"
    and "body ''serviceCategoryName'' = JStr scn" "js_trim scn \<noteq> []"
    and "body ''phone'' = JStr p" "ten_digits p"
    and "\<forall>f. f \<notin> set requiredFields \<longrightarrow> body f = JUndefined"
    and "\<forall>x\<in>set custs. c_id x \<noteq> newId E"
  shows "Customer_create E custs body =
    (Inr ((Customer_blank E)\<lparr>c_name := js_trim n, c_phone := p, c_address := js_trim a,
          c_serviceCategory := map toLowerCase sc, c_serviceCategoryName := js_trim scn,
          c_fees := Some 0\<rparr>),
     custs @ [(Customer_blank E)\<lparr>c_name := js_trim n, c_phone := p, c_address := js_trim a,
          c_serviceCategory := map toLowerCase sc, c_serviceCategoryName := js_trim scn,
          c_fees := Some 0\<rparr>])"
proof -
  have ne: "n \<noteq> []" "a \<noteq> []" "scn \<noteq> []" "sc \<noteq> []" "p \<noteq> []"
    using assms(2,5,8,10,12) by (auto simp: js_trim_def ObjectId_isValid_def ten_digits_def)
  have u: "body ''serviceSubCategory'' = JUndefined" "body ''serviceSubCategoryName'' = JUndefined"
    "body ''email'' = JUndefined" "body ''city'' = JUndefined" "body ''state'' = JUndefined"
    "body ''zipCode'' = JUndefined" "body ''serviceNumber'' = JUndefined" "body ''gstNumber'' = JUndefined"
    "body ''notes'' = JUndefined" "body ''dateOfBirth'' = JUndefined" "body ''status'' = JUndefined"
    "body ''fees'' = JUndefined" "body ''gstStatus'' = JUndefined" "body ''deliveryDate'' = JUndefined"
    "body ''nextRenewalDate'' = JUndefined" "body ''deliveryStatus'' = JUndefined"
    using assms(13) by (simp_all add: requiredFields_def)
  let ?b = "normalize_subcategory body"
  have nb: "?b = body(''serviceSubCategory'' := JNull, ''serviceSubCategoryName'' := JNull)"
    by (simp add: normalize_subcategory_def u)
  have m: "filter (\<lambda>field. \<not> truthy (?b field)) requiredFields = []"
    by (simp add: nb requiredFields_def assms ne)
  have d: "create_customerData E ?b = Some \<lparr>d_name = Some (js_trim n), d_email = Some None, d_phone = Some p,
             d_dateOfBirth = Some NoDate,
             d_address = Some (js_trim a), d_city = Some None, d_state = Some None,
             d_zipCode = Some None, d_serviceCategory = Some (map toLowerCase sc),
             d_serviceCategoryName = Some (js_trim scn),
             d_serviceSubCategory = Some None,
             d_serviceSubCategoryName = Some None,
             d_serviceNumber = Some None,
             d_status = Some (JStr ''Active''),
             d_fees = Some 0,
             d_gstStatus = Some (JStr ''Not Paid''),
             d_gstNumber = Some None,
             d_deliveryDate = Some NoDate,
             d_nextRenewalDate = Some NoDate,
             d_deliveryStatus = Some (JStr ''Pending''),
             d_notes = Some None, d_updatedAt = None\<rparr>"
    by (simp add: create_customerData_def nb assms u ne trim_if_truthy_def ObjectId_if_truthy_def
        castObjectId_def truthy_or_def date_of_def ten_digits_trim)
  have v: "Customer_validate t \<lparr>d_name = Some (js_trim n), d_email = Some None, d_phone = Some p,
             d_dateOfBirth = Some NoDate,
             d_address = Some (js_trim a), d_city = Some None, d_state = Some None,
             d_zipCode = Some None, d_serviceCategory = Some (map toLowerCase sc),
             d_serviceCategoryName = Some (js_trim scn),
             d_serviceSubCategory = Some None,
             d_serviceSubCategoryName = Some None,
             d_serviceNumber = Some None,
             d_status = Some (JStr ''Active''),
             d_fees = Some 0,
             d_gstStatus = Some (JStr ''Not Paid''),
             d_gstNumber = Some None,
             d_deliveryDate = Some NoDate,
             d_nextRenewalDate = Some NoDate,
             d_deliveryStatus = Some (JStr ''Pending''),
             d_notes = Some None, d_updatedAt = None\<rparr> = []" for t
    using assms(2,3,5,6,10,12) ne
    by (simp add: Customer_validate_def required_text_def optional_text_def date_path_def enum_path_def
        status_values_def gstStatus_values_def deliveryStatus_values_def ten_digits_trim)
  have fresh: "\<not> list_ex (\<lambda>x. c_id x = newId E) custs"
    using assms(14) by (simp add: list_ex_iff)
  have ph: "?b ''phone'' = JStr p"
    by (simp add: nb assms(11))
  show ?thesis
    using fresh
    by (simp add: Customer_create_def Let_def m d v u(1) ph assms(12) Customer_set_def
        Customer_blank_def set_text_def ten_digits_trim)
qed

subsection \<open>Enumerated fields and fees\<close>

lemmas path_defs = required_text_def optional_text_def date_path_def enum_path_def

lemma validate_status_iff:
  "''status'' \<in> set (Customer_validate t d) \<longleftrightarrow> (\<exists>x. d_status d = Some x \<and> \<not> enum_ok status_values x)"
  by (auto simp: Customer_validate_def path_defs Let_def split: option.splits date_value.splits if_splits)
     (metis date_value.exhaust)+

lemma validate_gstStatus_iff:
  "''gstStatus'' \<in> set (Customer_validate t d) \<longleftrightarrow> (\<exists>x. d_gstStatus d = Some x \<and> \<not> enum_ok gstStatus_values x)"
  by (auto simp: Customer_validate_def path_defs Let_def split: option.splits date_value.splits if_splits)
     (metis date_value.exhaust)+

lemma validate_deliveryStatus_iff:
  "''deliveryStatus'' \<in> set (Customer_validate t d) \<longleftrightarrow> (\<exists>x. d_deliveryStatus d = Some x \<and> \<not> enum_ok deliveryStatus_values x)"
  by (auto simp: Customer_validate_def path_defs Let_def split: option.splits date_value.splits if_splits)
     (metis date_value.exhaust)+

lemma validate_fees_iff:
  "''fees'' \<in> set (Customer_validate t d) \<longleftrightarrow> (\<exists>q. d_fees d = Some q \<and> q < 0)"
  by (auto simp: Customer_validate_def path_defs Let_def split: option.splits date_value.splits if_splits)
     (metis date_value.exhaust)+

lemma create_customerData_enums:
  assumes "create_customerData E b = Some d"
  shows "d_status d = Some (truthy_or (b ''status'') ''Active'')
       \<and> d_gstStatus d = Some (truthy_or (b ''gstStatus'') ''Not Paid'')
       \<and> d_deliveryStatus d = Some (truthy_or (b ''deliveryStatus'') ''Pending'')
       \<and> d_fees d = Some (or_zero (Number_of E (b ''fees'')))"
  using assms unfolding create_customerData_def by (auto simp: bind_eq_Some_conv)

lemma update_updateData_enums:
  assumes "update_updateData E b = Some d"
  shows "d_status d = Some (truthy_or (b ''status'') ''Active'')
       \<and> d_gstStatus d = Some (truthy_or (b ''gstStatus'') ''Not Paid'')
       \<and> d_deliveryStatus d = Some (truthy_or (b ''deliveryStatus'') ''Pending'')
       \<and> d_fees d = (if b ''fees'' \<noteq> JUndefined then Some (or_zero (Number_of E (b ''fees''))) else None)"
  using assms unfolding update_updateData_def by (auto simp: bind_eq_Some_conv)

lemma enum_stored:
  assumes "enum_ok allowed (truthy_or v dflt)"
  shows "if truthy v then v = JStr (set_enum (Some (truthy_or v dflt)) old)
                        \<and> set_enum (Some (truthy_or v dflt)) old \<in> set allowed
         else set_enum (Some (truthy_or v dflt)) old = dflt"
  using assms by (cases v) (auto simp: truthy_or_def)

lemma Customer_create_cases:
  "(\<exists>e. Customer_create E custs body = (Inl e, custs) \<and>
        (\<forall>errs. e = FormatInvalid errs \<longrightarrow> errs = [''phone'']))
   \<or> (\<exists>d. create_customerData E (normalize_subcategory body) = Some d \<and>
        (if Customer_validate (now E) d \<noteq> []
         then Customer_create E custs body = (Inl (FormatInvalid (Customer_validate (now E) d)), custs)
         else if list_ex (\<lambda>x. c_id x = newId E) custs
         then Customer_create E custs body = (Inl DuplicateKey, custs)
         else Customer_create E custs body =
            (Inr (Customer_set d (Customer_blank E)), custs @ [Customer_set d (Customer_blank E)])))"
proof -
  have i: "c_id (Customer_set d (Customer_blank E)) = newId E" for d
    by (simp add: Customer_set_def Customer_blank_def)
  show ?thesis
    unfolding Customer_create_def Let_def i
    by (cases "create_customerData E (normalize_subcategory body)") auto
qed

lemma Customer_update_cases:
  "(\<exists>e. Customer_update E custs i body = (Inl e, custs) \<and> (\<forall>errs. e \<noteq> FormatInvalid errs))
   \<or> (\<exists>d. update_updateData E (normalize_subcategory body) = Some d \<and>
        (if Customer_validate (now E) d \<noteq> []
         then Customer_update E custs i body = (Inl (FormatInvalid (Customer_validate (now E) d)), custs)
         else \<exists>oid c. castObjectId i = Some oid \<and> find (\<lambda>c. c_id c = oid) custs = Some c \<and>
            Customer_update E custs i body =
            (Inr (Customer_set d c), map (\<lambda>x. if c_id x = oid then Customer_set d c else x) custs)))"
  unfolding Customer_update_def Let_def
  by (cases "update_updateData E (normalize_subcategory body)"; cases "castObjectId i";
      cases "find (\<lambda>c. c_id c = the (castObjectId i)) custs") auto

lemma enum_default_ok:
  "enum_ok status_values (truthy_or v ''Active'') \<longleftrightarrow> \<not> (truthy v \<and> \<not> enum_ok status_values v)"
  "enum_ok gstStatus_values (truthy_or v ''Not Paid'') \<longleftrightarrow> \<not> (truthy v \<and> \<not> enum_ok gstStatus_values v)"
  "enum_ok deliveryStatus_values (truthy_or v ''Pending'') \<longleftrightarrow> \<not> (truthy v \<and> \<not> enum_ok deliveryStatus_values v)"
  by (simp_all add: truthy_or_def status_values_def gstStatus_values_def deliveryStatus_values_def)

lemma stored_policy:
  assumes "Customer_validate t d = []"
    and "d_status d = Some (truthy_or vs ''Active'')"
    and "d_gstStatus d = Some (truthy_or vg ''Not Paid'')"
    and "d_deliveryStatus d = Some (truthy_or vd ''Pending'')"
  shows "enum_policy status_values ''Active'' vs (c_status (Customer_set d c))
       \<and> enum_policy gstStatus_values ''Not Paid'' vg (c_gstStatus (Customer_set d c))
       \<and> enum_policy deliveryStatus_values ''Pending'' vd (c_deliveryStatus (Customer_set d c))
       \<and> (\<forall>q. d_fees d = Some q \<longrightarrow> c_fees (Customer_set d c) = Some q \<and> 0 \<le> q)
       \<and> (d_fees d = None \<longrightarrow> c_fees (Customer_set d c) = c_fees c)"
proof -
  have s: "enum_ok status_values (truthy_or vs ''Active'')"
    using validate_status_iff [of t d] assms(1,2) by auto
  have g: "enum_ok gstStatus_values (truthy_or vg ''Not Paid'')"
    using validate_gstStatus_iff [of t d] assms(1,3) by auto
  have e: "enum_ok deliveryStatus_values (truthy_or vd ''Pending'')"
    using validate_deliveryStatus_iff [of t d] assms(1,4) by auto
  have f: "\<forall>q. d_fees d = Some q \<longrightarrow> 0 \<le> q"
    using validate_fees_iff [of t d] assms(1) by auto
  show ?thesis
    using enum_stored [OF s, of "c_status c"] enum_stored [OF g, of "c_gstStatus c"]
      enum_stored [OF e, of "c_deliveryStatus c"] f assms(2,3,4)
    by (auto simp: Customer_set_def enum_policy_def)
qed

text \<open>
  What an answer of the two routes says about the four fields of the request.
\<close>

lemma answers_follow_policy:
  "(\<forall>c. fst (Customer_create E custs body) = Inr c \<longrightarrow>
       enum_policy status_values ''Active'' (body ''status'') (c_status c)
     \<and> enum_policy gstStatus_values ''Not Paid'' (body ''gstStatus'') (c_gstStatus c)
     \<and> enum_policy deliveryStatus_values ''Pending'' (body ''deliveryStatus'') (c_deliveryStatus c)
     \<and> c_fees c = Some (or_zero (Number_of E (body ''fees'')))
     \<and> 0 \<le> or_zero (Number_of E (body ''fees'')))
   \<and> (\<forall>errs. fst (Customer_create E custs body) = Inl (FormatInvalid errs) \<longrightarrow>
        errs = [''phone''] \<or>
        ((''status'' \<in> set errs \<longleftrightarrow> truthy (body ''status'') \<and> \<not> enum_ok status_values (body ''status''))
       \<and> (''gstStatus'' \<in> set errs \<longleftrightarrow>
             truthy (body ''gstStatus'') \<and> \<not> enum_ok gstStatus_values (body ''gstStatus''))
       \<and> (''deliveryStatus'' \<in> set errs \<longleftrightarrow>
             truthy (body ''deliveryStatus'') \<and> \<not> enum_ok deliveryStatus_values (body ''deliveryStatus''))
       \<and> (''fees'' \<in> set errs \<longleftrightarrow> or_zero (Number_of E (body ''fees'')) < 0)))
   \<and> (\<forall>c. fst (Customer_update E custs i body) = Inr c \<longrightarrow>
       enum_policy status_values ''Active'' (body ''status'') (c_status c)
     \<and> enum_policy gstStatus_values ''Not Paid'' (body ''gstStatus'') (c_gstStatus c)
     \<and> enum_policy deliveryStatus_values ''Pending'' (body ''deliveryStatus'') (c_deliveryStatus c)
     \<and> (if body ''fees'' \<noteq> JUndefined
         then c_fees c = Some (or_zero (Number_of E (body ''fees'')))
              \<and> 0 \<le> or_zero (Number_of E (body ''fees''))
         else \<exists>c0\<in>set custs. c_id c0 = c_id c \<and> c_fees c = c_fees c0))
   \<and> (\<forall>errs. fst (Customer_update E custs i body) = Inl (FormatInvalid errs) \<longrightarrow>
        (''status'' \<in> set errs \<longleftrightarrow> truthy (body ''status'') \<and> \<not> enum_ok status_values (body ''status''))
       \<and> (''gstStatus'' \<in> set errs \<longleftrightarrow>
             truthy (body ''gstStatus'') \<and> \<not> enum_ok gstStatus_values (body ''gstStatus''))
       \<and> (''deliveryStatus'' \<in> set errs \<longleftrightarrow>
             truthy (body ''deliveryStatus'') \<and> \<not> enum_ok deliveryStatus_values (body ''deliveryStatus''))
       \<and> (''fees'' \<in> set errs \<longleftrightarrow>
             body ''fees'' \<noteq> JUndefined \<and> or_zero (Number_of E (body ''fees'')) < 0))"
proof -
  let ?b = "normalize_subcategory body"
  have nb: "?b ''status'' = body ''status''" "?b ''gstStatus'' = body ''gstStatus''"
    "?b ''deliveryStatus'' = body ''deliveryStatus''" "?b ''fees'' = body ''fees''"
    by (simp_all add: normalize_subcategory_def)
  have c1: "\<forall>c. fst (Customer_create E custs body) = Inr c \<longrightarrow>
       enum_policy status_values ''Active'' (body ''status'') (c_status c)
     \<and> enum_policy gstStatus_values ''Not Paid'' (body ''gstStatus'') (c_gstStatus c)
     \<and> enum_policy deliveryStatus_values ''Pending'' (body ''deliveryStatus'') (c_deliveryStatus c)
     \<and> c_fees c = Some (or_zero (Number_of E (body ''fees'')))
     \<and> 0 \<le> or_zero (Number_of E (body ''fees''))"
  proof (intro allI impI)
    fix c assume ok: "fst (Customer_create E custs body) = Inr c"
    with Customer_create_cases [of E custs body]
    obtain d where d: "create_customerData E ?b = Some d" "Customer_validate (now E) d = []"
      "c = Customer_set d (Customer_blank E)"
      by (auto split: if_splits)
    note en = create_customerData_enums [OF d(1), unfolded nb]
    from stored_policy [OF d(2), of "body ''status''" "body ''gstStatus''" "body ''deliveryStatus''"
        "Customer_blank E"] en d(3)
    show "enum_policy status_values ''Active'' (body ''status'') (c_status c)
     \<and> enum_policy gstStatus_values ''Not Paid'' (body ''gstStatus'') (c_gstStatus c)
     \<and> enum_policy deliveryStatus_values ''Pending'' (body ''deliveryStatus'') (c_deliveryStatus c)
     \<and> c_fees c = Some (or_zero (Number_of E (body ''fees'')))
     \<and> 0 \<le> or_zero (Number_of E (body ''fees''))"
      by simp
  qed
  have c2: "\<forall>errs. fst (Customer_create E custs body) = Inl (FormatInvalid errs) \<longrightarrow>
        errs = [''phone''] \<or>
        ((''status'' \<in> set errs \<longleftrightarrow> truthy (body ''status'') \<and> \<not> enum_ok status_values (body ''status''))
       \<and> (''gstStatus'' \<in> set errs \<longleftrightarrow>
             truthy (body ''gstStatus'') \<and> \<not> enum_ok gstStatus_values (body ''gstStatus''))
       \<and> (''deliveryStatus'' \<in> set errs \<longleftrightarrow>
             truthy (body ''deliveryStatus'') \<and> \<not> enum_ok deliveryStatus_values (body ''deliveryStatus''))
       \<and> (''fees'' \<in> set errs \<longleftrightarrow> or_zero (Number_of E (body ''fees'')) < 0))"
  proof (intro allI impI)
    fix errs assume bad: "fst (Customer_create E custs body) = Inl (FormatInvalid errs)"
    show "errs = [''phone''] \<or>
        ((''status'' \<in> set errs \<longleftrightarrow> truthy (body ''status'') \<and> \<not> enum_ok status_values (body ''status''))
       \<and> (''gstStatus'' \<in> set errs \<longleftrightarrow>
             truthy (body ''gstStatus'') \<and> \<not> enum_ok gstStatus_values (body ''gstStatus''))
       \<and> (''deliveryStatus'' \<in> set errs \<longleftrightarrow>
             truthy (body ''deliveryStatus'') \<and> \<not> enum_ok deliveryStatus_values (body ''deliveryStatus''))
       \<and> (''fees'' \<in> set errs \<longleftrightarrow> or_zero (Number_of E (body ''fees'')) < 0))"
    proof (cases "errs = [''phone'']")
      case True
      then show ?thesis by simp
    next
      case False
      with bad Customer_create_cases [of E custs body]
      obtain d where d: "create_customerData E ?b = Some d" "errs = Customer_validate (now E) d"
        by (auto split: if_splits)
      note en = create_customerData_enums [OF d(1), unfolded nb]
      show ?thesis
        using en by (simp add: d(2) validate_status_iff validate_gstStatus_iff
            validate_deliveryStatus_iff validate_fees_iff enum_default_ok)
    qed
  qed
  have u1: "\<forall>c. fst (Customer_update E custs i body) = Inr c \<longrightarrow>
       enum_policy status_values ''Active'' (body ''status'') (c_status c)
     \<and> enum_policy gstStatus_values ''Not Paid'' (body ''gstStatus'') (c_gstStatus c)
     \<and> enum_policy deliveryStatus_values ''Pending'' (body ''deliveryStatus'') (c_deliveryStatus c)
     \<and> (if body ''fees'' \<noteq> JUndefined
         then c_fees c = Some (or_zero (Number_of E (body ''fees'')))
              \<and> 0 \<le> or_zero (Number_of E (body ''fees''))
         else \<exists>c0\<in>set custs. c_id c0 = c_id c \<and> c_fees c = c_fees c0)"
  proof (intro allI impI)
    fix c assume ok: "fst (Customer_update E custs i body) = Inr c"
    with Customer_update_cases [of E custs i body]
    obtain d oid c0 where d: "update_updateData E ?b = Some d" "Customer_validate (now E) d = []"
      "find (\<lambda>c. c_id c = oid) custs = Some c0" "c = Customer_set d c0"
      by (auto split: if_splits)
    note en = update_updateData_enums [OF d(1), unfolded nb]
    have c0: "c0 \<in> set custs" "c_id c0 = c_id c"
      using d(3,4) by (auto simp: find_Some_iff Customer_set_def)
    from stored_policy [OF d(2), of "body ''status''" "body ''gstStatus''" "body ''deliveryStatus''" c0]
      en d(4) c0
    show "enum_policy status_values ''Active'' (body ''status'') (c_status c)
     \<and> enum_policy gstStatus_values ''Not Paid'' (body ''gstStatus'') (c_gstStatus c)
     \<and> enum_policy deliveryStatus_values ''Pending'' (body ''deliveryStatus'') (c_deliveryStatus c)
     \<and> (if body ''fees'' \<noteq> JUndefined
         then c_fees c = Some (or_zero (Number_of E (body ''fees'')))
              \<and> 0 \<le> or_zero (Number_of E (body ''fees''))
         else \<exists>c0\<in>set custs. c_id c0 = c_id c \<and> c_fees c = c_fees c0)"
      by (auto split: if_splits)
  qed
  have u2: "\<forall>errs. fst (Customer_update E custs i body) = Inl (FormatInvalid errs) \<longrightarrow>
        (''status'' \<in> set errs \<longleftrightarrow> truthy (body ''status'') \<and> \<not> enum_ok status_values (body ''status''))
       \<and> (''gstStatus'' \<in> set errs \<longleftrightarrow>
             truthy (body ''gstStatus'') \<and> \<not> enum_ok gstStatus_values (body ''gstStatus''))
       \<and> (''deliveryStatus'' \<in> set errs \<longleftrightarrow>
             truthy (body ''deliveryStatus'') \<and> \<not> enum_ok deliveryStatus_values (body ''deliveryStatus''))
       \<and> (''fees'' \<in> set errs \<longleftrightarrow>
             body ''fees'' \<noteq> JUndefined \<and> or_zero (Number_of E (body ''fees'')) < 0)"
  proof (intro allI impI)
    fix errs assume bad: "fst (Customer_update E custs i body) = Inl (FormatInvalid errs)"
    with Customer_update_cases [of E custs i body]
    obtain d where d: "update_updateData E ?b = Some d" "errs = Customer_validate (now E) d"
      by (auto split: if_splits)
    note en = update_updateData_enums [OF d(1), unfolded nb]
    show "(''status'' \<in> set errs \<longleftrightarrow> truthy (body ''status'') \<and> \<not> enum_ok status_values (body ''status''))
       \<and> (''gstStatus'' \<in> set errs \<longleftrightarrow>
             truthy (body ''gstStatus'') \<and> \<not> enum_ok gstStatus_values (body ''gstStatus''))
       \<and> (''deliveryStatus'' \<in> set errs \<longleftrightarrow>
             truthy (body ''deliveryStatus'') \<and> \<not> enum_ok deliveryStatus_values (body ''deliveryStatus''))
       \<and> (''fees'' \<in> set errs \<longleftrightarrow>
             body ''fees'' \<noteq> JUndefined \<and> or_zero (Number_of E (body ''fees'')) < 0)"
      using en by (simp add: d(2) validate_status_iff validate_gstStatus_iff
          validate_deliveryStatus_iff validate_fees_iff enum_default_ok)
  qed
  from c1 c2 u1 u2 show ?thesis by blast
qed

text \<open>
  The routes read \<open>status\<close>, \<open>gstStatus\<close>, \<open>deliveryStatus\<close> and \<open>fees\<close> only through
  \<open>v || default\<close> and \<open>Number(v) || 0\<close> (and, on an update, through \<open>fees !== undefined\<close>):
  two requests that agree on these and on every other field get the same answer.
\<close>

lemma Customer_create_cong:
  assumes o: "\<And>f. f \<notin> {''status'', ''gstStatus'', ''deliveryStatus'', ''fees''} \<Longrightarrow> b f = b' f"
    and s: "truthy_or (b ''status'') ''Active'' = truthy_or (b' ''status'') ''Active''"
    and g: "truthy_or (b ''gstStatus'') ''Not Paid'' = truthy_or (b' ''gstStatus'') ''Not Paid''"
    and d: "truthy_or (b ''deliveryStatus'') ''Pending'' = truthy_or (b' ''deliveryStatus'') ''Pending''"
    and f: "or_zero (Number_of E (b ''fees'')) = or_zero (Number_of E (b' ''fees''))"
  shows "Customer_create E custs b = Customer_create E custs b'"
proof -
  have sub: "b ''serviceSubCategory'' = b' ''serviceSubCategory''"
    using o by simp
  have n: "normalize_subcategory b k = normalize_subcategory b' k"
    if "k \<notin> {''status'', ''gstStatus'', ''deliveryStatus'', ''fees''}" for k
    using o [OF that] sub by (simp add: normalize_subcategory_def)
  have p: "normalize_subcategory b ''status'' = b ''status''"
    "normalize_subcategory b ''gstStatus'' = b ''gstStatus''"
    "normalize_subcategory b ''deliveryStatus'' = b ''deliveryStatus''"
    "normalize_subcategory b ''fees'' = b ''fees''"
    "normalize_subcategory b' ''status'' = b' ''status''"
    "normalize_subcategory b' ''gstStatus'' = b' ''gstStatus''"
    "normalize_subcategory b' ''deliveryStatus'' = b' ''deliveryStatus''"
    "normalize_subcategory b' ''fees'' = b' ''fees''"
    by (simp_all add: normalize_subcategory_def)
  have r: "filter (\<lambda>field. \<not> truthy (normalize_subcategory b field)) requiredFields
         = filter (\<lambda>field. \<not> truthy (normalize_subcategory b' field)) requiredFields"
    by (simp add: requiredFields_def n)
  have c: "create_customerData E (normalize_subcategory b) = create_customerData E (normalize_subcategory b')"
    unfolding create_customerData_def by (simp add: n p s g d f)
  have ph: "normalize_subcategory b ''phone'' = normalize_subcategory b' ''phone''"
    by (simp add: n)
  show ?thesis
    unfolding Customer_create_def Let_def r c ph sub by (rule refl)
qed

lemma Customer_update_cong:
  assumes o: "\<And>f. f \<notin> {''status'', ''gstStatus'', ''deliveryStatus'', ''fees''} \<Longrightarrow> b f = b' f"
    and s: "truthy_or (b ''status'') ''Active'' = truthy_or (b' ''status'') ''Active''"
    and g: "truthy_or (b ''gstStatus'') ''Not Paid'' = truthy_or (b' ''gstStatus'') ''Not Paid''"
    and d: "truthy_or (b ''deliveryStatus'') ''Pending'' = truthy_or (b' ''deliveryStatus'') ''Pending''"
    and f: "or_zero (Number_of E (b ''fees'')) = or_zero (Number_of E (b' ''fees''))"
    and u: "(b ''fees'' = JUndefined) = (b' ''fees'' = JUndefined)"
  shows "Customer_update E custs i b = Customer_update E custs i b'"
proof -
  have sub: "b ''serviceSubCategory'' = b' ''serviceSubCategory''"
    using o by simp
  have n: "normalize_subcategory b k = normalize_subcategory b' k"
    if "k \<notin> {''status'', ''gstStatus'', ''deliveryStatus'', ''fees''}" for k
    using o [OF that] sub by (simp add: normalize_subcategory_def)
  have p: "normalize_subcategory b ''status'' = b ''status''"
    "normalize_subcategory b ''gstStatus'' = b ''gstStatus''"
    "normalize_subcategory b ''deliveryStatus'' = b ''deliveryStatus''"
    "normalize_subcategory b ''fees'' = b ''fees''"
    "normalize_subcategory b' ''status'' = b' ''status''"
    "normalize_subcategory b' ''gstStatus'' = b' ''gstStatus''"
    "normalize_subcategory b' ''deliveryStatus'' = b' ''deliveryStatus''"
    "normalize_subcategory b' ''fees'' = b' ''fees''"
    by (simp_all add: normalize_subcategory_def)
  have c: "update_updateData E (normalize_subcategory b) = update_updateData E (normalize_subcategory b')"
    unfolding update_updateData_def by (simp add: n p s g d f u)
  show ?thesis
    unfolding Customer_update_def Let_def c sub by (rule refl)
qed

lemma falsy_as_default:
  assumes "\<not> truthy v"
  shows "Customer_create E custs (body(''status'' := v))
           = Customer_create E custs (body(''status'' := JStr ''Active''))
       \<and> Customer_create E custs (body(''gstStatus'' := v))
           = Customer_create E custs (body(''gstStatus'' := JStr ''Not Paid''))
       \<and> Customer_create E custs (body(''deliveryStatus'' := v))
           = Customer_create E custs (body(''deliveryStatus'' := JStr ''Pending''))
       \<and> Customer_update E custs i (body(''status'' := v))
           = Customer_update E custs i (body(''status'' := JStr ''Active''))
       \<and> Customer_update E custs i (body(''gstStatus'' := v))
           = Customer_update E custs i (body(''gstStatus'' := JStr ''Not Paid''))
       \<and> Customer_update E custs i (body(''deliveryStatus'' := v))
           = Customer_update E custs i (body(''deliveryStatus'' := JStr ''Pending''))"
  using assms
  by (auto intro!: Customer_create_cong Customer_update_cong simp: truthy_or_def)

lemma no_number_as_zero:
  assumes "or_zero (Number_of E v) = 0"
  shows "Customer_create E custs (body(''fees'' := v))
           = Customer_create E custs (body(''fees'' := JNum (Num 0)))
       \<and> (v \<noteq> JUndefined \<longrightarrow> Customer_update E custs i (body(''fees'' := v))
           = Customer_update E custs i (body(''fees'' := JNum (Num 0))))"
  using assms
  by (auto intro!: Customer_create_cong Customer_update_cong simp: truthy_or_def split: if_splits)

lemma create_with_defaults:
  assumes "body ''name'' = JStr n" "js_trim n \<noteq> []" "length (js_trim n) \<le> 100"
    and "body ''address'' = JStr a" "js_trim a \<noteq> []" "length (js_trim a) \<le> 500"
    and "body ''serviceCategory'' = JStr sc" "ObjectId_isValid sc"
    and "body ''serviceCategoryName'' = JStr scn" "js_trim scn \<noteq> []"
    and "body ''phone'' = JStr p" "ten_digits p"
    and "\<forall>f. f \<notin> set requiredFields \<union> {''status'', ''gstStatus'', ''deliveryStatus'', ''fees''}
           \<longrightarrow> body f = JUndefined"
    and "\<not> truthy (body ''status'')" "\<not> truthy (body ''gstStatus'')"
      "\<not> truthy (body ''deliveryStatus'')"
    and "or_zero (Number_of E (body ''fees'')) = 0"
    and "\<forall>x\<in>set custs. c_id x \<noteq> newId E"
  shows "Customer_create E custs body =
    (Inr ((Customer_blank E)\<lparr>c_name := js_trim n, c_phone := p, c_address := js_trim a,
          c_serviceCategory := map toLowerCase sc, c_serviceCategoryName := js_trim scn,
          c_status := ''Active'', c_fees := Some 0, c_gstStatus := ''Not Paid'',
          c_deliveryStatus := ''Pending''\<rparr>),
     custs @ [(Customer_blank E)\<lparr>c_name := js_trim n, c_phone := p, c_address := js_trim a,
          c_serviceCategory := map toLowerCase sc, c_serviceCategoryName := js_trim scn,
          c_status := ''Active'', c_fees := Some 0, c_gstStatus := ''Not Paid'',
          c_deliveryStatus := ''Pending''\<rparr>])"
proof -
  define body0 where "body0 = body(''status'' := JUndefined, ''gstStatus'' := JUndefined,
    ''deliveryStatus'' := JUndefined, ''fees'' := JUndefined)"
  have "Customer_create E custs body = Customer_create E custs body0"
    by (rule Customer_create_cong) (simp_all add: body0_def truthy_or_def assms)
  also have "\<dots> =
    (Inr ((Customer_blank E)\<lparr>c_name := js_trim n, c_phone := p, c_address := js_trim a,
          c_serviceCategory := map toLowerCase sc, c_serviceCategoryName := js_trim scn,
          c_fees := Some 0\<rparr>),
     custs @ [(Customer_blank E)\<lparr>c_name := js_trim n, c_phone := p, c_address := js_trim a,
          c_serviceCategory := map toLowerCase sc, c_serviceCategoryName := js_trim scn,
          c_fees := Some 0\<rparr>])"
    using assms
    by (intro minimal_create_succeeds [of body0 n a sc scn p custs E])
       (simp_all add: body0_def requiredFields_def)
  finally show ?thesis
    by (simp add: Customer_blank_def)
qed

lemma update_with_defaults:
  assumes "\<forall>f. f \<notin> {''status'', ''gstStatus'', ''deliveryStatus'', ''fees''} \<longrightarrow> body f = JUndefined"
    and "\<not> truthy (body ''status'')" "\<not> truthy (body ''gstStatus'')"
      "\<not> truthy (body ''deliveryStatus'')"
    and "or_zero (Number_of E (body ''fees'')) = 0"
    and "castObjectId i = Some oid" and "find (\<lambda>c. c_id c = oid) custs = Some c"
  shows "Customer_update E custs i body =
      (Inr (c\<lparr>c_serviceSubCategory := None, c_serviceSubCategoryName := None,
              c_status := ''Active'', c_gstStatus := ''Not Paid'', c_deliveryStatus := ''Pending'',
              c_fees := (if body ''fees'' = JUndefined then c_fees c else Some 0),
              c_updatedAt := now E\<rparr>),
       map (\<lambda>x. if c_id x = oid then
             c\<lparr>c_serviceSubCategory := None, c_serviceSubCategoryName := None,
               c_status := ''Active'', c_gstStatus := ''Not Paid'', c_deliveryStatus := ''Pending'',
               c_fees := (if body ''fees'' = JUndefined then c_fees c else Some 0),
               c_updatedAt := now E\<rparr>
             else x) custs)"
proof -
  have v: "ObjectId_isValid i"
    using assms(6) by (simp add: castObjectId_def split: if_splits)
  have n: "\<not> truthy (body ''serviceSubCategory'')"
    using assms(1) by simp
  have d: "update_updateData E (normalize_subcategory body) =
    Some \<lparr>d_name = None, d_email = None, d_phone = None, d_dateOfBirth = None,
      d_address = None, d_city = None, d_state = None, d_zipCode = None, d_serviceCategory = None,
      d_serviceCategoryName = None, d_serviceSubCategory = Some None,
      d_serviceSubCategoryName = Some None, d_serviceNumber = None,
      d_status = Some (JStr ''Active''),
      d_fees = (if body ''fees'' = JUndefined then None else Some 0),
      d_gstStatus = Some (JStr ''Not Paid''),
      d_gstNumber = None, d_deliveryDate = None, d_nextRenewalDate = None,
      d_deliveryStatus = Some (JStr ''Pending''),
      d_notes = None, d_updatedAt = Some (now E)\<rparr>"
    using assms(1-5)
    by (simp add: update_updateData_def normalize_subcategory_def trim_if_truthy_def if_defined_def
        ObjectId_if_truthy_def truthy_or_def)
  have w: "Customer_validate t \<lparr>d_name = None, d_email = None, d_phone = None, d_dateOfBirth = None,
      d_address = None, d_city = None, d_state = None, d_zipCode = None, d_serviceCategory = None,
      d_serviceCategoryName = None, d_serviceSubCategory = Some None,
      d_serviceSubCategoryName = Some None, d_serviceNumber = None,
      d_status = Some (JStr ''Active''),
      d_fees = (if body ''fees'' = JUndefined then None else Some 0),
      d_gstStatus = Some (JStr ''Not Paid''),
      d_gstNumber = None, d_deliveryDate = None, d_nextRenewalDate = None,
      d_deliveryStatus = Some (JStr ''Pending''),
      d_notes = None, d_updatedAt = Some t'\<rparr> = []" for t t'
    by (simp add: Customer_validate_def required_text_def optional_text_def date_path_def enum_path_def
        status_values_def gstStatus_values_def deliveryStatus_values_def)
  show ?thesis
    using v n assms(6,7)
    by (simp add: Customer_update_def d w Customer_castError_def Customer_set_def set_text_def Let_def)
qed

text \<open>
  A value that the validators refuse: the request does not succeed, and nothing is
  stored.
\<close>

lemma create_rejects:
  assumes "(truthy (body ''status'') \<and> \<not> enum_ok status_values (body ''status''))
         \<or> (truthy (body ''gstStatus'') \<and> \<not> enum_ok gstStatus_values (body ''gstStatus''))
         \<or> (truthy (body ''deliveryStatus'') \<and> \<not> enum_ok deliveryStatus_values (body ''deliveryStatus''))
         \<or> or_zero (Number_of E (body ''fees'')) < 0"
  shows "\<exists>e. Customer_create E custs body = (Inl e, custs)"
proof -
  let ?b = "normalize_subcategory body"
  have nb: "?b ''status'' = body ''status''" "?b ''gstStatus'' = body ''gstStatus''"
    "?b ''deliveryStatus'' = body ''deliveryStatus''" "?b ''fees'' = body ''fees''"
    by (simp_all add: normalize_subcategory_def)
  from Customer_create_cases [of E custs body] show ?thesis
  proof
    assume "\<exists>e. Customer_create E custs body = (Inl e, custs) \<and>
        (\<forall>errs. e = FormatInvalid errs \<longrightarrow> errs = [''phone''])"
    then show ?thesis by blast
  next
    assume "\<exists>d. create_customerData E ?b = Some d \<and>
        (if Customer_validate (now E) d \<noteq> []
         then Customer_create E custs body = (Inl (FormatInvalid (Customer_validate (now E) d)), custs)
         else if list_ex (\<lambda>x. c_id x = newId E) custs
         then Customer_create E custs body = (Inl DuplicateKey, custs)
         else Customer_create E custs body =
            (Inr (Customer_set d (Customer_blank E)), custs @ [Customer_set d (Customer_blank E)]))"
    then obtain d where d: "create_customerData E ?b = Some d"
      and r: "if Customer_validate (now E) d \<noteq> []
         then Customer_create E custs body = (Inl (FormatInvalid (Customer_validate (now E) d)), custs)
         else if list_ex (\<lambda>x. c_id x = newId E) custs
         then Customer_create E custs body = (Inl DuplicateKey, custs)
         else Customer_create E custs body =
            (Inr (Customer_set d (Customer_blank E)), custs @ [Customer_set d (Customer_blank E)])"
      by blast
    note en = create_customerData_enums [OF d, unfolded nb]
    have "''status'' \<in> set (Customer_validate (now E) d)
        \<or> ''gstStatus'' \<in> set (Customer_validate (now E) d)
        \<or> ''deliveryStatus'' \<in> set (Customer_validate (now E) d)
        \<or> ''fees'' \<in> set (Customer_validate (now E) d)"
      using assms en
      by (simp add: validate_status_iff validate_gstStatus_iff validate_deliveryStatus_iff
          validate_fees_iff enum_default_ok)
    then have "Customer_validate (now E) d \<noteq> []" by auto
    with r show ?thesis by simp
  qed
qed

lemma update_rejects:
  assumes "(truthy (body ''status'') \<and> \<not> enum_ok status_values (body ''status''))
         \<or> (truthy (body ''gstStatus'') \<and> \<not> enum_ok gstStatus_values (body ''gstStatus''))
         \<or> (truthy (body ''deliveryStatus'') \<and> \<not> enum_ok deliveryStatus_values (body ''deliveryStatus''))
         \<or> (body ''fees'' \<noteq> JUndefined \<and> or_zero (Number_of E (body ''fees'')) < 0)"
  shows "\<exists>e. Customer_update E custs i body = (Inl e, custs)"
proof -
  let ?b = "normalize_subcategory body"
  have nb: "?b ''status'' = body ''status''" "?b ''gstStatus'' = body ''gstStatus''"
    "?b ''deliveryStatus'' = body ''deliveryStatus''" "?b ''fees'' = body ''fees''"
    by (simp_all add: normalize_subcategory_def)
  from Customer_update_cases [of E custs i body] show ?thesis
  proof
    assume "\<exists>e. Customer_update E custs i body = (Inl e, custs) \<and> (\<forall>errs. e \<noteq> FormatInvalid errs)"
    then show ?thesis by blast
  next
    assume "\<exists>d. update_updateData E ?b = Some d \<and>
        (if Customer_validate (now E) d \<noteq> []
         then Customer_update E custs i body = (Inl (FormatInvalid (Customer_validate (now E) d)), custs)
         else \<exists>oid c. castObjectId i = Some oid \<and> find (\<lambda>c. c_id c = oid) custs = Some c \<and>
            Customer_update E custs i body =
            (Inr (Customer_set d c), map (\<lambda>x. if c_id x = oid then Customer_set d c else x) custs))"
    then obtain d where d: "update_updateData E ?b = Some d"
      and r: "Customer_validate (now E) d \<noteq> [] \<Longrightarrow>
         Customer_update E custs i body = (Inl (FormatInvalid (Customer_validate (now E) d)), custs)"
      by (auto split: if_splits)
    note en = update_updateData_enums [OF d, unfolded nb]
    have "''status'' \<in> set (Customer_validate (now E) d)
        \<or> ''gstStatus'' \<in> set (Customer_validate (now E) d)
        \<or> ''deliveryStatus'' \<in> set (Customer_validate (now E) d)
        \<or> ''fees'' \<in> set (Customer_validate (now E) d)"
      using assms en
      by (auto simp: validate_status_iff validate_gstStatus_iff validate_deliveryStatus_iff
          validate_fees_iff enum_default_ok)
    then have "Customer_validate (now E) d \<noteq> []" by auto
    with r show ?thesis by blast
  qed
qed

text \<open>
  A request that succeeds, with one of the four fields replaced by a value that the
  validators refuse: the answer is FormatInvalid on that field alone.
\<close>

lemma create_customerData_upd:
  assumes "create_customerData E b = Some d"
  shows "create_customerData E (b(''status'' := v)) = Some (d\<lparr>d_status := Some (truthy_or v ''Active'')\<rparr>)"
    and "create_customerData E (b(''gstStatus'' := v)) = Some (d\<lparr>d_gstStatus := Some (truthy_or v ''Not Paid'')\<rparr>)"
    and "create_customerData E (b(''deliveryStatus'' := v))
           = Some (d\<lparr>d_deliveryStatus := Some (truthy_or v ''Pending'')\<rparr>)"
    and "create_customerData E (b(''fees'' := v)) = Some (d\<lparr>d_fees := Some (or_zero (Number_of E v))\<rparr>)"
  using assms unfolding create_customerData_def by (auto simp: bind_eq_Some_conv)

lemma update_updateData_upd:
  assumes "update_updateData E b = Some d"
  shows "update_updateData E (b(''status'' := v)) = Some (d\<lparr>d_status := Some (truthy_or v ''Active'')\<rparr>)"
    and "update_updateData E (b(''gstStatus'' := v)) = Some (d\<lparr>d_gstStatus := Some (truthy_or v ''Not Paid'')\<rparr>)"
    and "update_updateData E (b(''deliveryStatus'' := v))
           = Some (d\<lparr>d_deliveryStatus := Some (truthy_or v ''Pending'')\<rparr>)"
    and "v \<noteq> JUndefined \<Longrightarrow>
         update_updateData E (b(''fees'' := v)) = Some (d\<lparr>d_fees := Some (or_zero (Number_of E v))\<rparr>)"
  using assms unfolding update_updateData_def by (auto simp: bind_eq_Some_conv)

lemma validate_one_path:
  assumes "Customer_validate t d = []"
  shows "\<not> enum_ok status_values v \<Longrightarrow> Customer_validate t (d\<lparr>d_status := Some v\<rparr>) = [''status'']"
    and "\<not> enum_ok gstStatus_values v \<Longrightarrow> Customer_validate t (d\<lparr>d_gstStatus := Some v\<rparr>) = [''gstStatus'']"
    and "\<not> enum_ok deliveryStatus_values v \<Longrightarrow>
           Customer_validate t (d\<lparr>d_deliveryStatus := Some v\<rparr>) = [''deliveryStatus'']"
    and "q < 0 \<Longrightarrow> Customer_validate t (d\<lparr>d_fees := Some q\<rparr>) = [''fees'']"
  using assms by (simp_all add: Customer_validate_def enum_path_def)

lemma normalize_other:
  "k \<noteq> ''serviceSubCategory'' \<Longrightarrow> k \<noteq> ''serviceSubCategoryName'' \<Longrightarrow>
   normalize_subcategory (body(k := v)) = (normalize_subcategory body)(k := v)"
  by (auto simp: normalize_subcategory_def)

lemma Customer_create_passed:
  assumes "Customer_create E custs body = (Inr c, custs')"
  shows "\<not> (truthy (body ''serviceSubCategory'') \<and> \<not> ObjectId_isValid_val (body ''serviceSubCategory''))
    \<and> filter (\<lambda>field. \<not> truthy (normalize_subcategory body field)) requiredFields = []
    \<and> phoneRegex_test (normalize_subcategory body ''phone'')
    \<and> (\<exists>d. create_customerData E (normalize_subcategory body) = Some d
          \<and> Customer_validate (now E) d = [])"
  using assms unfolding Customer_create_def Let_def
  by (cases "create_customerData E (normalize_subcategory body)") (auto split: if_splits)

lemma Customer_update_passed:
  assumes "Customer_update E custs i body = (Inr c, custs')"
  shows "ObjectId_isValid i
    \<and> \<not> (truthy (body ''serviceSubCategory'') \<and> \<not> ObjectId_isValid_val (body ''serviceSubCategory''))
    \<and> (\<exists>d. update_updateData E (normalize_subcategory body) = Some d
          \<and> \<not> Customer_castError d \<and> Customer_validate (now E) d = [])"
  using assms unfolding Customer_update_def Let_def
  by (cases "update_updateData E (normalize_subcategory body)") (auto split: if_splits)

lemma create_refuses:
  assumes ok: "Customer_create E custs body = (Inr c, custs')"
  shows "truthy v \<Longrightarrow> \<not> enum_ok status_values v \<Longrightarrow>
           Customer_create E custs (body(''status'' := v)) = (Inl (FormatInvalid [''status'']), custs)"
    and "truthy v \<Longrightarrow> \<not> enum_ok gstStatus_values v \<Longrightarrow>
           Customer_create E custs (body(''gstStatus'' := v)) = (Inl (FormatInvalid [''gstStatus'']), custs)"
    and "truthy v \<Longrightarrow> \<not> enum_ok deliveryStatus_values v \<Longrightarrow>
           Customer_create E custs (body(''deliveryStatus'' := v))
             = (Inl (FormatInvalid [''deliveryStatus'']), custs)"
    and "or_zero (Number_of E v) < 0 \<Longrightarrow>
           Customer_create E custs (body(''fees'' := v)) = (Inl (FormatInvalid [''fees'']), custs)"
proof -
  let ?b = "normalize_subcategory body"
  from Customer_create_passed [OF ok] obtain d where
    g: "\<not> (truthy (body ''serviceSubCategory'') \<and> \<not> ObjectId_isValid_val (body ''serviceSubCategory''))"
    and m: "filter (\<lambda>field. \<not> truthy (?b field)) requiredFields = []"
    and p: "phoneRegex_test (?b ''phone'')"
    and d: "create_customerData E ?b = Some d" "Customer_validate (now E) d = []"
    by blast
  have m': "filter (\<lambda>field. \<not> truthy ((?b(k := x)) field)) requiredFields = []"
    if "k \<notin> set requiredFields" for k x
    using m that by (auto simp: filter_empty_conv)
  have r: "Customer_create E custs (body(k := x)) = (Inl (FormatInvalid [k]), custs)"
    if "k \<in> {''status'', ''gstStatus'', ''deliveryStatus'', ''fees''}"
      and "create_customerData E (?b(k := x)) = Some d'"
      and "Customer_validate (now E) d' = [k]" for k x d'
  proof -
    have k: "k \<noteq> ''serviceSubCategory''" "k \<noteq> ''serviceSubCategoryName''" "k \<noteq> ''phone''"
      "k \<notin> set requiredFields"
      using that(1) by (auto simp: requiredFields_def)
    have s: "(body(k := x)) ''serviceSubCategory'' = body ''serviceSubCategory''"
      "(?b(k := x)) ''phone'' = ?b ''phone''"
      using k by simp_all
    show ?thesis
      using g p
      by (simp add: Customer_create_def normalize_other [OF k(1,2)] m' [OF k(4)] that(2,3) s Let_def
            del: fun_upd_apply)
  qed
  show "truthy v \<Longrightarrow> \<not> enum_ok status_values v \<Longrightarrow>
           Customer_create E custs (body(''status'' := v)) = (Inl (FormatInvalid [''status'']), custs)"
    using create_customerData_upd(1) [OF d(1), of v] validate_one_path(1) [OF d(2), of v]
    by (intro r) (simp_all add: truthy_or_def)
  show "truthy v \<Longrightarrow> \<not> enum_ok gstStatus_values v \<Longrightarrow>
           Customer_create E custs (body(''gstStatus'' := v)) = (Inl (FormatInvalid [''gstStatus'']), custs)"
    using create_customerData_upd(2) [OF d(1), of v] validate_one_path(2) [OF d(2), of v]
    by (intro r) (simp_all add: truthy_or_def)
  show "truthy v \<Longrightarrow> \<not> enum_ok deliveryStatus_values v \<Longrightarrow>
           Customer_create E custs (body(''deliveryStatus'' := v))
             = (Inl (FormatInvalid [''deliveryStatus'']), custs)"
    using create_customerData_upd(3) [OF d(1), of v] validate_one_path(3) [OF d(2), of v]
    by (intro r) (simp_all add: truthy_or_def)
  show "or_zero (Number_of E v) < 0 \<Longrightarrow>
           Customer_create E custs (body(''fees'' := v)) = (Inl (FormatInvalid [''fees'']), custs)"
    using create_customerData_upd(4) [OF d(1), of v] validate_one_path(4) [OF d(2), of "or_zero (Number_of E v)"]
    by (intro r) simp_all
qed

lemma update_refuses:
  assumes ok: "Customer_update E custs i body = (Inr c, custs')"
  shows "truthy v \<Longrightarrow> \<not> enum_ok status_values v \<Longrightarrow>
           Customer_update E custs i (body(''status'' := v)) = (Inl (FormatInvalid [''status'']), custs)"
    and "truthy v \<Longrightarrow> \<not> enum_ok gstStatus_values v \<Longrightarrow>
           Customer_update E custs i (body(''gstStatus'' := v)) = (Inl (FormatInvalid [''gstStatus'']), custs)"
    and "truthy v \<Longrightarrow> \<not> enum_ok deliveryStatus_values v \<Longrightarrow>
           Customer_update E custs i (body(''deliveryStatus'' := v))
             = (Inl (FormatInvalid [''deliveryStatus'']), custs)"
    and "or_zero (Number_of E v) < 0 \<Longrightarrow>
           Customer_update E custs i (body(''fees'' := v)) = (Inl (FormatInvalid [''fees'']), custs)"
proof -
  let ?b = "normalize_subcategory body"
  from Customer_update_passed [OF ok] obtain d where
    i: "ObjectId_isValid i"
    and g: "\<not> (truthy (body ''serviceSubCategory'') \<and> \<not> ObjectId_isValid_val (body ''serviceSubCategory''))"
    and d: "update_updateData E ?b = Some d" "\<not> Customer_castError d" "Customer_validate (now E) d = []"
    by blast
  have r: "Customer_update E custs i (body(k := x)) = (Inl (FormatInvalid [k]), custs)"
    if "k \<in> {''status'', ''gstStatus'', ''deliveryStatus'', ''fees''}"
      and "update_updateData E (?b(k := x)) = Some d'"
      and "\<not> Customer_castError d'"
      and "Customer_validate (now E) d' = [k]" for k x d'
  proof -
    have k: "k \<noteq> ''serviceSubCategory''" "k \<noteq> ''serviceSubCategoryName''"
      using that(1) by auto
    have s: "(body(k := x)) ''serviceSubCategory'' = body ''serviceSubCategory''"
      using k by simp
    show ?thesis
      using g i that(3)
      by (simp add: Customer_update_def normalize_other [OF k(1,2)] that(2,4) s Let_def
            del: fun_upd_apply)
  qed
  have u: "v \<noteq> JUndefined" if "or_zero (Number_of E v) < 0"
    using that by (cases v) auto
  show "truthy v \<Longrightarrow> \<not> enum_ok status_values v \<Longrightarrow>
           Customer_update E custs i (body(''status'' := v)) = (Inl (FormatInvalid [''status'']), custs)"
    using update_updateData_upd(1) [OF d(1), of v] validate_one_path(1) [OF d(3), of v] d(2)
    by (intro r) (simp_all add: truthy_or_def Customer_castError_def)
  show "truthy v \<Longrightarrow> \<not> enum_ok gstStatus_values v \<Longrightarrow>
           Customer_update E custs i (body(''gstStatus'' := v)) = (Inl (FormatInvalid [''gstStatus'']), custs)"
    using update_updateData_upd(2) [OF d(1), of v] validate_one_path(2) [OF d(3), of v] d(2)
    by (intro r) (simp_all add: truthy_or_def Customer_castError_def)
  show "truthy v \<Longrightarrow> \<not> enum_ok deliveryStatus_values v \<Longrightarrow>
           Customer_update E custs i (body(''deliveryStatus'' := v))
             = (Inl (FormatInvalid [''deliveryStatus'']), custs)"
    using update_updateData_upd(3) [OF d(1), of v] validate_one_path(3) [OF d(3), of v] d(2)
    by (intro r) (simp_all add: truthy_or_def Customer_castError_def)
  show "or_zero (Number_of E v) < 0 \<Longrightarrow>
           Customer_update E custs i (body(''fees'' := v)) = (Inl (FormatInvalid [''fees'']), custs)"
    using update_updateData_upd(4) [OF d(1), of v] validate_one_path(4) [OF d(3), of "or_zero (Number_of E v)"]
      d(2) u
    by (intro r) (simp_all add: Customer_castError_def)
qed

text \<open>
  C3, as the code has it, for the create and the update route.
  \<^item> An absent or empty (falsy) value of an enumerated field is the same request as
    one with the default of the field (\<open>Active\<close>, \<open>Not Paid\<close>, \<open>Pending\<close>), and a \<open>fees\<close>
    whose number is \<open>NaN\<close> or zero is the same request as one with \<open>fees\<close> 0 (on an
    update, when \<open>fees\<close> is there): such a value causes no error of its own.
  \<^item> A create with valid required fields, falsy enumerated fields, such a \<open>fees\<close> and
    nothing else succeeds and stores the defaults and \<open>fees\<close> 0. An update of a stored
    Customer with nothing but falsy enumerated fields and such a \<open>fees\<close> succeeds and
    stores the defaults, and \<open>fees\<close> 0 or, without \<open>fees\<close> in the request, the stored
    \<open>fees\<close>.
  \<^item> A request with an enumerated field that is there and out of its set, or with a
    negative \<open>fees\<close>, does not succeed and stores nothing; when a request succeeds, the
    same request with such a value in one of the four fields is answered with
    FormatInvalid on that field.
  \<^item> Whenever the operation succeeds, each enumerated field holds the request's value,
    which is then in the set, or the default for a falsy one, and \<open>fees\<close> holds
    \<open>Number(fees) || 0\<close>, which is then not negative. Whenever it answers FormatInvalid
    from the schema's validators, the answer names an enumerated field exactly when the
    request's value is there and out of the set, and \<open>fees\<close> exactly when it is negative.
\<close>

theorem enumerated_and_fees_policy:
  "(\<not> truthy v \<longrightarrow>
       Customer_create E custs (body(''status'' := v))
         = Customer_create E custs (body(''status'' := JStr ''Active''))
     \<and> Customer_create E custs (body(''gstStatus'' := v))
         = Customer_create E custs (body(''gstStatus'' := JStr ''Not Paid''))
     \<and> Customer_create E custs (body(''deliveryStatus'' := v))
         = Customer_create E custs (body(''deliveryStatus'' := JStr ''Pending''))
     \<and> Customer_update E custs i (body(''status'' := v))
         = Customer_update E custs i (body(''status'' := JStr ''Active''))
     \<and> Customer_update E custs i (body(''gstStatus'' := v))
         = Customer_update E custs i (body(''gstStatus'' := JStr ''Not Paid''))
     \<and> Customer_update E custs i (body(''deliveryStatus'' := v))
         = Customer_update E custs i (body(''deliveryStatus'' := JStr ''Pending'')))
   \<and> (or_zero (Number_of E v) = 0 \<longrightarrow>
       Customer_create E custs (body(''fees'' := v))
         = Customer_create E custs (body(''fees'' := JNum (Num 0)))
     \<and> (v \<noteq> JUndefined \<longrightarrow>
          Customer_update E custs i (body(''fees'' := v))
            = Customer_update E custs i (body(''fees'' := JNum (Num 0)))))
   \<and> (body ''name'' = JStr n \<and> js_trim n \<noteq> [] \<and> length (js_trim n) \<le> 100
      \<and> body ''address'' = JStr a \<and> js_trim a \<noteq> [] \<and> length (js_trim a) \<le> 500
      \<and> body ''serviceCategory'' = JStr sc \<and> ObjectId_isValid sc
      \<and> body ''serviceCategoryName'' = JStr scn \<and> js_trim scn \<noteq> []
      \<and> body ''phone'' = JStr p \<and> ten_digits p
      \<and> (\<forall>f. f \<notin> set requiredFields \<union> {''status'', ''gstStatus'', ''deliveryStatus'', ''fees''}
             \<longrightarrow> body f = JUndefined)
      \<and> \<not> truthy (body ''status'') \<and> \<not> truthy (body ''gstStatus'')
      \<and> \<not> truthy (body ''deliveryStatus'')
      \<and> or_zero (Number_of E (body ''fees'')) = 0
      \<and> (\<forall>x\<in>set custs. c_id x \<noteq> newId E)
    \<longrightarrow> Customer_create E custs body =
        (Inr ((Customer_blank E)\<lparr>c_name := js_trim n, c_phone := p, c_address := js_trim a,
              c_serviceCategory := map toLowerCase sc, c_serviceCategoryName := js_trim scn,
              c_status := ''Active'', c_fees := Some 0, c_gstStatus := ''Not Paid'',
              c_deliveryStatus := ''Pending''\<rparr>),
         custs @ [(Customer_blank E)\<lparr>c_name := js_trim n, c_phone := p, c_address := js_trim a,
              c_serviceCategory := map toLowerCase sc, c_serviceCategoryName := js_trim scn,
              c_status := ''Active'', c_fees := Some 0, c_gstStatus := ''Not Paid'',
              c_deliveryStatus := ''Pending''\<rparr>]))
   \<and> ((\<forall>f. f \<notin> {''status'', ''gstStatus'', ''deliveryStatus'', ''fees''} \<longrightarrow> body f = JUndefined)
      \<and> \<not> truthy (body ''status'') \<and> \<not> truthy (body ''gstStatus'')
      \<and> \<not> truthy (body ''deliveryStatus'')
      \<and> or_zero (Number_of E (body ''fees'')) = 0
      \<and> castObjectId i = Some oid \<and> find (\<lambda>c. c_id c = oid) custs = Some c
    \<longrightarrow> Customer_update E custs i body =
        (Inr (c\<lparr>c_serviceSubCategory := None, c_serviceSubCategoryName := None,
                c_status := ''Active'', c_gstStatus := ''Not Paid'', c_deliveryStatus := ''Pending'',
                c_fees := (if body ''fees'' = JUndefined then c_fees c else Some 0),
                c_updatedAt := now E\<rparr>),
         map (\<lambda>x. if c_id x = oid then
               c\<lparr>c_serviceSubCategory := None, c_serviceSubCategoryName := None,
                 c_status := ''Active'', c_gstStatus := ''Not Paid'', c_deliveryStatus := ''Pending'',
                 c_fees := (if body ''fees'' = JUndefined then c_fees c else Some 0),
                 c_updatedAt := now E\<rparr>
               else x) custs))
   \<and> ((truthy (body ''status'') \<and> \<not> enum_ok status_values (body ''status''))
        \<or> (truthy (body ''gstStatus'') \<and> \<not> enum_ok gstStatus_values (body ''gstStatus''))
        \<or> (truthy (body ''deliveryStatus'') \<and> \<not> enum_ok deliveryStatus_values (body ''deliveryStatus''))
        \<or> or_zero (Number_of E (body ''fees'')) < 0
    \<longrightarrow> (\<exists>e. Customer_create E custs body = (Inl e, custs)))
   \<and> ((truthy (body ''status'') \<and> \<not> enum_ok status_values (body ''status''))
        \<or> (truthy (body ''gstStatus'') \<and> \<not> enum_ok gstStatus_values (body ''gstStatus''))
        \<or> (truthy (body ''deliveryStatus'') \<and> \<not> enum_ok deliveryStatus_values (body ''deliveryStatus''))
        \<or> (body ''fees'' \<noteq> JUndefined \<and> or_zero (Number_of E (body ''fees'')) < 0)
    \<longrightarrow> (\<exists>e. Customer_update E custs i body = (Inl e, custs)))
   \<and> ((\<exists>c' custs'. Customer_create E custs body = (Inr c', custs')) \<longrightarrow>
        (truthy v \<and> \<not> enum_ok status_values v \<longrightarrow>
           Customer_create E custs (body(''status'' := v)) = (Inl (FormatInvalid [''status'']), custs))
      \<and> (truthy v \<and> \<not> enum_ok gstStatus_values v \<longrightarrow>
           Customer_create E custs (body(''gstStatus'' := v)) = (Inl (FormatInvalid [''gstStatus'']), custs))
      \<and> (truthy v \<and> \<not> enum_ok deliveryStatus_values v \<longrightarrow>
           Customer_create E custs (body(''deliveryStatus'' := v))
             = (Inl (FormatInvalid [''deliveryStatus'']), custs))
      \<and> (or_zero (Number_of E v) < 0 \<longrightarrow>
           Customer_create E custs (body(''fees'' := v)) = (Inl (FormatInvalid [''fees'']), custs)))
   \<and> ((\<exists>c' custs'. Customer_update E custs i body = (Inr c', custs')) \<longrightarrow>
        (truthy v \<and> \<not> enum_ok status_values v \<longrightarrow>
           Customer_update E custs i (body(''status'' := v)) = (Inl (FormatInvalid [''status'']), custs))
      \<and> (truthy v \<and> \<not> enum_ok gstStatus_values v \<longrightarrow>
           Customer_update E custs i (body(''gstStatus'' := v)) = (Inl (FormatInvalid [''gstStatus'']), custs))
      \<and> (truthy v \<and> \<not> enum_ok deliveryStatus_values v \<longrightarrow>
           Customer_update E custs i (body(''deliveryStatus'' := v))
             = (Inl (FormatInvalid [''deliveryStatus'']), custs))
      \<and> (or_zero (Number_of E v) < 0 \<longrightarrow>
           Customer_update E custs i (body(''fees'' := v)) = (Inl (FormatInvalid [''fees'']), custs)))
   \<and> (\<forall>c. fst (Customer_create E custs body) = Inr c \<longrightarrow>
       enum_policy status_values ''Active'' (body ''status'') (c_status c)
     \<and> enum_policy gstStatus_values ''Not Paid'' (body ''gstStatus'') (c_gstStatus c)
     \<and> enum_policy deliveryStatus_values ''Pending'' (body ''deliveryStatus'') (c_deliveryStatus c)
     \<and> c_fees c = Some (or_zero (Number_of E (body ''fees'')))
     \<and> 0 \<le> or_zero (Number_of E (body ''fees'')))
   \<and> (\<forall>errs. fst (Customer_create E custs body) = Inl (FormatInvalid errs) \<longrightarrow>
        errs = [''phone''] \<or>
        ((''status'' \<in> set errs \<longleftrightarrow> truthy (body ''status'') \<and> \<not> enum_ok status_values (body ''status''))
       \<and> (''gstStatus'' \<in> set errs \<longleftrightarrow>
             truthy (body ''gstStatus'') \<and> \<not> enum_ok gstStatus_values (body ''gstStatus''))
       \<and> (''deliveryStatus'' \<in> set errs \<longleftrightarrow>
             truthy (body ''deliveryStatus'') \<and> \<not> enum_ok deliveryStatus_values (body ''deliveryStatus''))
       \<and> (''fees'' \<in> set errs \<longleftrightarrow> or_zero (Number_of E (body ''fees'')) < 0)))
   \<and> (\<forall>c. fst (Customer_update E custs i body) = Inr c \<longrightarrow>
       enum_policy status_values ''Active'' (body ''status'') (c_status c)
     \<and> enum_policy gstStatus_values ''Not Paid'' (body ''gstStatus'') (c_gstStatus c)
     \<and> enum_policy deliveryStatus_values ''Pending'' (body ''deliveryStatus'') (c_deliveryStatus c)
     \<and> (if body ''fees'' \<noteq> JUndefined
         then c_fees c = Some (or_zero (Number_of E (body ''fees'')))
              \<and> 0 \<le> or_zero (Number_of E (body ''fees''))
         else \<exists>c0\<in>set custs. c_id c0 = c_id c \<and> c_fees c = c_fees c0))
   \<and> (\<forall>errs. fst (Customer_update E custs i body) = Inl (FormatInvalid errs) \<longrightarrow>
        (''status'' \<in> set errs \<longleftrightarrow> truthy (body ''status'') \<and> \<not> enum_ok status_values (body ''status''))
       \<and> (''gstStatus'' \<in> set errs \<longleftrightarrow>
             truthy (body ''gstStatus'') \<and> \<not> enum_ok gstStatus_values (body ''gstStatus''))
       \<and> (''deliveryStatus'' \<in> set errs \<longleftrightarrow>
             truthy (body ''deliveryStatus'') \<and> \<not> enum_ok deliveryStatus_values (body ''deliveryStatus''))
       \<and> (''fees'' \<in> set errs \<longleftrightarrow>
             body ''fees'' \<noteq> JUndefined \<and> or_zero (Number_of E (body ''fees'')) < 0))"
proof -
  have a: "\<not> truthy v \<longrightarrow>
       Customer_create E custs (body(''status'' := v))
         = Customer_create E custs (body(''status'' := JStr ''Active''))
     \<and> Customer_create E custs (body(''gstStatus'' := v))
         = Customer_create E custs (body(''gstStatus'' := JStr ''Not Paid''))
     \<and> Customer_create E custs (body(''deliveryStatus'' := v))
         = Customer_create E custs (body(''deliveryStatus'' := JStr ''Pending''))
     \<and> Customer_update E custs i (body(''status'' := v))
         = Customer_update E custs i (body(''status'' := JStr ''Active''))
     \<and> Customer_update E custs i (body(''gstStatus'' := v))
         = Customer_update E custs i (body(''gstStatus'' := JStr ''Not Paid''))
     \<and> Customer_update E custs i (body(''deliveryStatus'' := v))
         = Customer_update E custs i (body(''deliveryStatus'' := JStr ''Pending''))"
    using falsy_as_default [of v E custs body i] by blast
  have b: "or_zero (Number_of E v) = 0 \<longrightarrow>
       Customer_create E custs (body(''fees'' := v))
         = Customer_create E custs (body(''fees'' := JNum (Num 0)))
     \<and> (v \<noteq> JUndefined \<longrightarrow>
          Customer_update E custs i (body(''fees'' := v))
            = Customer_update E custs i (body(''fees'' := JNum (Num 0))))"
    using no_number_as_zero [of E v custs body i] by blast
  have c: "body ''name'' = JStr n \<and> js_trim n \<noteq> [] \<and> length (js_trim n) \<le> 100
      \<and> body ''address'' = JStr a \<and> js_trim a \<noteq> [] \<and> length (js_trim a) \<le> 500
      \<and> body ''serviceCategory'' = JStr sc \<and> ObjectId_isValid sc
      \<and> body ''serviceCategoryName'' = JStr scn \<and> js_trim scn \<noteq> []
      \<and> body ''phone'' = JStr p \<and> ten_digits p
      \<and> (\<forall>f. f \<notin> set requiredFields \<union> {''status'', ''gstStatus'', ''deliveryStatus'', ''fees''}
             \<longrightarrow> body f = JUndefined)
      \<and> \<not> truthy (body ''status'') \<and> \<not> truthy (body ''gstStatus'')
      \<and> \<not> truthy (body ''deliveryStatus'')
      \<and> or_zero (Number_of E (body ''fees'')) = 0
      \<and> (\<forall>x\<in>set custs. c_id x \<noteq> newId E)
    \<longrightarrow> Customer_create E custs body =
        (Inr ((Customer_blank E)\<lparr>c_name := js_trim n, c_phone := p, c_address := js_trim a,
              c_serviceCategory := map toLowerCase sc, c_serviceCategoryName := js_trim scn,
              c_status := ''Active'', c_fees := Some 0, c_gstStatus := ''Not Paid'',
              c_deliveryStatus := ''Pending''\<rparr>),
         custs @ [(Customer_blank E)\<lparr>c_name := js_trim n, c_phone := p, c_address := js_trim a,
              c_serviceCategory := map toLowerCase sc, c_serviceCategoryName := js_trim scn,
              c_status := ''Active'', c_fees := Some 0, c_gstStatus := ''Not Paid'',
              c_deliveryStatus := ''Pending''\<rparr>])"
    using create_with_defaults [of body n a sc scn p E custs] by blast
  have d: "(\<forall>f. f \<notin> {''status'', ''gstStatus'', ''deliveryStatus'', ''fees''} \<longrightarrow> body f = JUndefined)
      \<and> \<not> truthy (body ''status'') \<and> \<not> truthy (body ''gstStatus'')
      \<and> \<not> truthy (body ''deliveryStatus'')
      \<and> or_zero (Number_of E (body ''fees'')) = 0
      \<and> castObjectId i = Some oid \<and> find (\<lambda>c. c_id c = oid) custs = Some c
    \<longrightarrow> Customer_update E custs i body =
        (Inr (c\<lparr>c_serviceSubCategory := None, c_serviceSubCategoryName := None,
                c_status := ''Active'', c_gstStatus := ''Not Paid'', c_deliveryStatus := ''Pending'',
                c_fees := (if body ''fees'' = JUndefined then c_fees c else Some 0),
                c_updatedAt := now E\<rparr>),
         map (\<lambda>x. if c_id x = oid then
               c\<lparr>c_serviceSubCategory := None, c_serviceSubCategoryName := None,
                 c_status := ''Active'', c_gstStatus := ''Not Paid'', c_deliveryStatus := ''Pending'',
                 c_fees := (if body ''fees'' = JUndefined then c_fees c else Some 0),
                 c_updatedAt := now E\<rparr>
               else x) custs)"
    using update_with_defaults [of body E i oid custs c] by blast
  have e1: "(truthy (body ''status'') \<and> \<not> enum_ok status_values (body ''status''))
        \<or> (truthy (body ''gstStatus'') \<and> \<not> enum_ok gstStatus_values (body ''gstStatus''))
        \<or> (truthy (body ''deliveryStatus'') \<and> \<not> enum_ok deliveryStatus_values (body ''deliveryStatus''))
        \<or> or_zero (Number_of E (body ''fees'')) < 0
    \<longrightarrow> (\<exists>e. Customer_create E custs body = (Inl e, custs))"
    using create_rejects [of body E custs] by blast
  have e2: "(truthy (body ''status'') \<and> \<not> enum_ok status_values (body ''status''))
        \<or> (truthy (body ''gstStatus'') \<and> \<not> enum_ok gstStatus_values (body ''gstStatus''))
        \<or> (truthy (body ''deliveryStatus'') \<and> \<not> enum_ok deliveryStatus_values (body ''deliveryStatus''))
        \<or> (body ''fees'' \<noteq> JUndefined \<and> or_zero (Number_of E (body ''fees'')) < 0)
    \<longrightarrow> (\<exists>e. Customer_update E custs i body = (Inl e, custs))"
    using update_rejects [of body E custs i] by blast
  have f1: "(\<exists>c' custs'. Customer_create E custs body = (Inr c', custs')) \<longrightarrow>
        (truthy v \<and> \<not> enum_ok status_values v \<longrightarrow>
           Customer_create E custs (body(''status'' := v)) = (Inl (FormatInvalid [''status'']), custs))
      \<and> (truthy v \<and> \<not> enum_ok gstStatus_values v \<longrightarrow>
           Customer_create E custs (body(''gstStatus'' := v)) = (Inl (FormatInvalid [''gstStatus'']), custs))
      \<and> (truthy v \<and> \<not> enum_ok deliveryStatus_values v \<longrightarrow>
           Customer_create E custs (body(''deliveryStatus'' := v))
             = (Inl (FormatInvalid [''deliveryStatus'']), custs))
      \<and> (or_zero (Number_of E v) < 0 \<longrightarrow>
           Customer_create E custs (body(''fees'' := v)) = (Inl (FormatInvalid [''fees'']), custs))"
  proof
    assume "\<exists>c' custs'. Customer_create E custs body = (Inr c', custs')"
    then obtain c' custs' where ok: "Customer_create E custs body = (Inr c', custs')"
      by blast
    show "(truthy v \<and> \<not> enum_ok status_values v \<longrightarrow>
           Customer_create E custs (body(''status'' := v)) = (Inl (FormatInvalid [''status'']), custs))
      \<and> (truthy v \<and> \<not> enum_ok gstStatus_values v \<longrightarrow>
           Customer_create E custs (body(''gstStatus'' := v)) = (Inl (FormatInvalid [''gstStatus'']), custs))
      \<and> (truthy v \<and> \<not> enum_ok deliveryStatus_values v \<longrightarrow>
           Customer_create E custs (body(''deliveryStatus'' := v))
             = (Inl (FormatInvalid [''deliveryStatus'']), custs))
      \<and> (or_zero (Number_of E v) < 0 \<longrightarrow>
           Customer_create E custs (body(''fees'' := v)) = (Inl (FormatInvalid [''fees'']), custs))"
      using create_refuses [OF ok, of v] by blast
  qed
  have f2: "(\<exists>c' custs'. Customer_update E custs i body = (Inr c', custs')) \<longrightarrow>
        (truthy v \<and> \<not> enum_ok status_values v \<longrightarrow>
           Customer_update E custs i (body(''status'' := v)) = (Inl (FormatInvalid [''status'']), custs))
      \<and> (truthy v \<and> \<not> enum_ok gstStatus_values v \<longrightarrow>
           Customer_update E custs i (body(''gstStatus'' := v)) = (Inl (FormatInvalid [''gstStatus'']), custs))
      \<and> (truthy v \<and> \<not> enum_ok deliveryStatus_values v \<longrightarrow>
           Customer_update E custs i (body(''deliveryStatus'' := v))
             = (Inl (FormatInvalid [''deliveryStatus'']), custs))
      \<and> (or_zero (Number_of E v) < 0 \<longrightarrow>
           Customer_update E custs i (body(''fees'' := v)) = (Inl (FormatInvalid [''fees'']), custs))"
  proof
    assume "\<exists>c' custs'. Customer_update E custs i body = (Inr c', custs')"
    then obtain c' custs' where ok: "Customer_update E custs i body = (Inr c', custs')"
      by blast
    show "(truthy v \<and> \<not> enum_ok status_values v \<longrightarrow>
           Customer_update E custs i (body(''status'' := v)) = (Inl (FormatInvalid [''status'']), custs))
      \<and> (truthy v \<and> \<not> enum_ok gstStatus_values v \<longrightarrow>
           Customer_update E custs i (body(''gstStatus'' := v)) = (Inl (FormatInvalid [''gstStatus'']), custs))
      \<and> (truthy v \<and> \<not> enum_ok deliveryStatus_values v \<longrightarrow>
           Customer_update E custs i (body(''deliveryStatus'' := v))
             = (Inl (FormatInvalid [''deliveryStatus'']), custs))
      \<and> (or_zero (Number_of E v) < 0 \<longrightarrow>
           Customer_update E custs i (body(''fees'' := v)) = (Inl (FormatInvalid [''fees'']), custs))"
      using update_refuses [OF ok, of v] by blast
  qed
  note o = answers_follow_policy [of E custs body i]
  from a b c d e1 e2 f1 f2 o show ?thesis
    by - ((rule conjI, assumption)+, assumption)
qed

theorem enumerated_and_fees_policy_witness:
  "Customer_create env1 [cust1]
       (body_of (new_customer_fields @ [(''fees'', JStr ''abc''), (''status'', JStr [])]))
     = (Inr cust2, [cust1, cust2])
   \<and> c_status cust2 = ''Active'' \<and> c_fees cust2 = Some 0
   \<and> Customer_create env1 [cust1] ((body_of new_customer_fields)(''status'' := JStr ''Bogus''))
     = (Inl (FormatInvalid [''status'']), [cust1])
   \<and> Customer_update env1 [cust1] ''65a1b2c3d4e5f60718293a6a''
       (body_of [(''gstStatus'', JNull), (''fees'', JStr ''abc'')])
     = (Inr (cust1\<lparr>c_serviceSubCategory := None, c_serviceSubCategoryName := None,
                c_status := ''Active'', c_gstStatus := ''Not Paid'', c_deliveryStatus := ''Pending'',
                c_fees := Some 0, c_updatedAt := 5000\<rparr>),
        [cust1\<lparr>c_serviceSubCategory := None, c_serviceSubCategoryName := None,
                c_status := ''Active'', c_gstStatus := ''Not Paid'', c_deliveryStatus := ''Pending'',
                c_fees := Some 0, c_updatedAt := 5000\<rparr>])"
proof -
  let ?b1 = "body_of (new_customer_fields @ [(''fees'', JStr ''abc''), (''status'', JStr [])])"
  let ?b2 = "body_of new_customer_fields"
  let ?b3 = "body_of [(''gstStatus'', JNull), (''fees'', JStr ''abc'')]"
  have 1: "?b1 ''name'' = JStr ''Ravi''" "?b1 ''address'' = JStr ''4 Lake View''"
    "?b1 ''serviceCategory'' = JStr ''65a1b2c3d4e5f60718293a4b''"
    "?b1 ''serviceCategoryName'' = JStr ''Internet''" "?b1 ''phone'' = JStr ''1234567890''"
    by code_simp+
  have 2: "js_trim ''Ravi'' = ''Ravi''" "js_trim ''4 Lake View'' = ''4 Lake View''"
    "js_trim ''Internet'' = ''Internet''" "ten_digits ''1234567890''"
    "ObjectId_isValid ''65a1b2c3d4e5f60718293a4b''"
    by code_simp+
  have 3: "\<forall>f. f \<notin> set requiredFields \<union> {''status'', ''gstStatus'', ''deliveryStatus'', ''fees''}
             \<longrightarrow> ?b1 f = JUndefined"
    by (simp add: body_of_def new_customer_fields_def requiredFields_def)
  have 4: "\<not> truthy (?b1 ''status'')" "\<not> truthy (?b1 ''gstStatus'')"
    "\<not> truthy (?b1 ''deliveryStatus'')" "or_zero (Number_of env1 (?b1 ''fees'')) = 0"
    by code_simp+
  have 5: "\<forall>x\<in>set [cust1]. c_id x \<noteq> newId env1" by code_simp
  have 6: "(Customer_blank env1)\<lparr>c_name := ''Ravi'', c_phone := ''1234567890'',
      c_address := ''4 Lake View'', c_serviceCategory := map toLowerCase ''65a1b2c3d4e5f60718293a4b'',
      c_serviceCategoryName := ''Internet'', c_status := ''Active'', c_fees := Some 0,
      c_gstStatus := ''Not Paid'', c_deliveryStatus := ''Pending''\<rparr> = cust2"
    by code_simp
  note t1 = enumerated_and_fees_policy [where body = ?b1 and n = "''Ravi''" and a = "''4 Lake View''"
      and sc = "''65a1b2c3d4e5f60718293a4b''" and scn = "''Internet''" and p = "''1234567890''"
      and custs = "[cust1]" and E = env1, THEN conjunct2, THEN conjunct2, THEN conjunct1]
  from t1 1 2 3 4 5
  have "Customer_create env1 [cust1] ?b1 =
        (Inr ((Customer_blank env1)\<lparr>c_name := ''Ravi'', c_phone := ''1234567890'',
              c_address := ''4 Lake View'',
              c_serviceCategory := map toLowerCase ''65a1b2c3d4e5f60718293a4b'',
              c_serviceCategoryName := ''Internet'', c_status := ''Active'', c_fees := Some 0,
              c_gstStatus := ''Not Paid'', c_deliveryStatus := ''Pending''\<rparr>),
         [cust1] @ [(Customer_blank env1)\<lparr>c_name := ''Ravi'', c_phone := ''1234567890'',
              c_address := ''4 Lake View'',
              c_serviceCategory := map toLowerCase ''65a1b2c3d4e5f60718293a4b'',
              c_serviceCategoryName := ''Internet'', c_status := ''Active'', c_fees := Some 0,
              c_gstStatus := ''Not Paid'', c_deliveryStatus := ''Pending''\<rparr>])"
    by simp
  then have ok: "Customer_create env1 [cust1] ?b1 = (Inr cust2, [cust1, cust2])"
    unfolding 6 by simp
  have "Customer_create env1 [cust1] ?b2 = (Inr cust2, [cust1, cust2])"
    by code_simp
  then have 7: "\<exists>c' custs'. Customer_create env1 [cust1] ?b2 = (Inr c', custs')"
    by blast
  have 8: "truthy (JStr ''Bogus'')" "\<not> enum_ok status_values (JStr ''Bogus'')"
    by code_simp+
  note t2 = enumerated_and_fees_policy [where body = ?b2 and v = "JStr ''Bogus''"
      and custs = "[cust1]" and E = env1, THEN conjunct2, THEN conjunct2, THEN conjunct2,
      THEN conjunct2, THEN conjunct2, THEN conjunct2, THEN conjunct1]
  from t2 7 8
  have bad: "Customer_create env1 [cust1] (?b2(''status'' := JStr ''Bogus''))
     = (Inl (FormatInvalid [''status'']), [cust1])"
    by blast
  have 9: "\<forall>f. f \<notin> {''status'', ''gstStatus'', ''deliveryStatus'', ''fees''} \<longrightarrow> ?b3 f = JUndefined"
    by (simp add: body_of_def)
  have 10: "\<not> truthy (?b3 ''status'')" "\<not> truthy (?b3 ''gstStatus'')"
    "\<not> truthy (?b3 ''deliveryStatus'')" "or_zero (Number_of env1 (?b3 ''fees'')) = 0"
    "castObjectId ''65a1b2c3d4e5f60718293a6a'' = Some ''65a1b2c3d4e5f60718293a6a''"
    "find (\<lambda>c. c_id c = ''65a1b2c3d4e5f60718293a6a'') [cust1] = Some cust1"
    by code_simp+
  have 11: "?b3 ''fees'' \<noteq> JUndefined" "now env1 = 5000" "c_id cust1 = ''65a1b2c3d4e5f60718293a6a''"
    by code_simp+
  note t3 = enumerated_and_fees_policy [where body = ?b3 and i = "''65a1b2c3d4e5f60718293a6a''"
      and oid = "''65a1b2c3d4e5f60718293a6a''" and c = cust1
      and custs = "[cust1]" and E = env1, THEN conjunct2, THEN conjunct2, THEN conjunct2,
      THEN conjunct1]
  from t3 9 10
  have "Customer_update env1 [cust1] ''65a1b2c3d4e5f60718293a6a'' ?b3 =
        (Inr (cust1\<lparr>c_serviceSubCategory := None, c_serviceSubCategoryName := None,
                c_status := ''Active'', c_gstStatus := ''Not Paid'', c_deliveryStatus := ''Pending'',
                c_fees := (if ?b3 ''fees'' = JUndefined then c_fees cust1 else Some 0),
                c_updatedAt := now env1\<rparr>),
         map (\<lambda>x. if c_id x = ''65a1b2c3d4e5f60718293a6a'' then
               cust1\<lparr>c_serviceSubCategory := None, c_serviceSubCategoryName := None,
                 c_status := ''Active'', c_gstStatus := ''Not Paid'', c_deliveryStatus := ''Pending'',
                 c_fees := (if ?b3 ''fees'' = JUndefined then c_fees cust1 else Some 0),
                 c_updatedAt := now env1\<rparr>
               else x) [cust1])"
    by blast
  then have upd: "Customer_update env1 [cust1] ''65a1b2c3d4e5f60718293a6a'' ?b3
     = (Inr (cust1\<lparr>c_serviceSubCategory := None, c_serviceSubCategoryName := None,
                c_status := ''Active'', c_gstStatus := ''Not Paid'', c_deliveryStatus := ''Pending'',
                c_fees := Some 0, c_updatedAt := 5000\<rparr>),
        [cust1\<lparr>c_serviceSubCategory := None, c_serviceSubCategoryName := None,
                c_status := ''Active'', c_gstStatus := ''Not Paid'', c_deliveryStatus := ''Pending'',
                c_fees := Some 0, c_updatedAt := 5000\<rparr>])"
    by (simp add: 11)
  have 12: "c_status cust2 = ''Active''" "c_fees cust2 = Some 0"
    by code_simp+
  from ok bad upd 12 show ?thesis by simp
qed

text \<open>
  The claim C3 itself fails: an out-of-set \<open>status\<close> and a negative \<open>fees\<close> are not
  replaced by the default and by 0; the schema's validators reject them.
\<close>

theorem enumerated_and_fees_policy_counterexample:
  "Customer_create env1 [] (body_of (new_customer_fields @ [(''status'', JStr ''Bogus'')]))
     = (Inl (FormatInvalid [''status'']), [])
   \<and> Customer_create env1 [] (body_of (new_customer_fields @ [(''fees'', JNum (Num (- 5)))]))
     = (Inl (FormatInvalid [''fees'']), [])"
  by code_simp

subsection \<open>The phone of a new Customer\<close>

lemma phone_rejected:
  assumes "\<not> (truthy (body ''serviceSubCategory'') \<and> \<not> ObjectId_isValid_val (body ''serviceSubCategory''))"
    and "\<forall>f\<in>set requiredFields. truthy (body f)"
    and "\<not> phoneRegex_test (body ''phone'')"
  shows "Customer_create E custs body = (Inl (FormatInvalid [''phone'']), custs)"
proof -
  have "normalize_subcategory body f = body f" if "f \<in> set requiredFields" for f
    using that by (auto simp: normalize_subcategory_def requiredFields_def)
  then have m: "filter (\<lambda>field. \<not> truthy (normalize_subcategory body field)) requiredFields = []"
    using assms(2) by (simp add: filter_empty_conv)
  have p: "normalize_subcategory body ''phone'' = body ''phone''"
    by (simp add: normalize_subcategory_def)
  show ?thesis
    using assms(1,3) by (simp add: Customer_create_def Let_def m p)
qed

lemma create_customerData_phone:
  "create_customerData E b = Some d \<Longrightarrow>
   create_customerData E (b(''phone'' := JStr p)) = Some (d\<lparr>d_phone := Some (js_trim p)\<rparr>)"
  unfolding create_customerData_def by (auto simp: bind_eq_Some_conv)

lemma validate_phone:
  "Customer_validate t d = [] \<Longrightarrow> ten_digits p \<Longrightarrow> Customer_validate t (d\<lparr>d_phone := Some p\<rparr>) = []"
  by (auto simp: Customer_validate_def ten_digits_trim) (simp add: ten_digits_def)

lemma normalize_phone:
  "normalize_subcategory (body(''phone'' := v)) = (normalize_subcategory body)(''phone'' := v)"
  by (auto simp: normalize_subcategory_def)

lemma Customer_create_Inr:
  assumes "Customer_create E custs body = (Inr c, custs')"
  shows "\<not> (truthy (body ''serviceSubCategory'') \<and> \<not> ObjectId_isValid_val (body ''serviceSubCategory''))
    \<and> filter (\<lambda>field. \<not> truthy (normalize_subcategory body field)) requiredFields = []
    \<and> (\<exists>d. create_customerData E (normalize_subcategory body) = Some d
          \<and> Customer_validate (now E) d = []
          \<and> c = Customer_set d (Customer_blank E))
    \<and> \<not> list_ex (\<lambda>x. c_id x = newId E) custs \<and> custs' = custs @ [c]"
proof -
  have i: "c_id (Customer_set d (Customer_blank E)) = newId E" for d
    by (simp add: Customer_set_def Customer_blank_def)
  show ?thesis
    using assms unfolding Customer_create_def Let_def i
    by (cases "create_customerData E (normalize_subcategory body)") (auto split: if_splits)
qed

lemma phone_replaced:
  assumes "Customer_create E custs body = (Inr c, custs')" and "ten_digits p"
  shows "Customer_create E custs (body(''phone'' := JStr p))
           = (Inr (c\<lparr>c_phone := p\<rparr>), custs @ [c\<lparr>c_phone := p\<rparr>])"
proof -
  let ?b = "normalize_subcategory body"
  from Customer_create_Inr [OF assms(1)] obtain d where
    g: "\<not> (truthy (body ''serviceSubCategory'') \<and> \<not> ObjectId_isValid_val (body ''serviceSubCategory''))"
    and m: "filter (\<lambda>field. \<not> truthy (?b field)) requiredFields = []"
    and d: "create_customerData E ?b = Some d" "Customer_validate (now E) d = []"
      "c = Customer_set d (Customer_blank E)"
    and f: "\<not> list_ex (\<lambda>x. c_id x = newId E) custs"
    by blast
  have p: "p \<noteq> []" "js_trim p = p"
    using assms(2) by (auto simp: ten_digits_def ten_digits_trim)
  have m': "filter (\<lambda>field. \<not> truthy ((?b(''phone'' := JStr p)) field)) requiredFields = []"
    using m p(1) by (auto simp: filter_empty_conv)
  have d': "create_customerData E (?b(''phone'' := JStr p)) = Some (d\<lparr>d_phone := Some p\<rparr>)"
    using create_customerData_phone [OF d(1), of p] by (simp add: p)
  have s: "Customer_set (d\<lparr>d_phone := Some p\<rparr>) (Customer_blank E) = c\<lparr>c_phone := p\<rparr>"
    by (simp add: d(3) Customer_set_def p)
  have i: "c_id (c\<lparr>c_phone := p\<rparr>) = newId E"
    by (simp add: d(3) Customer_set_def Customer_blank_def)
  have k: "(body(''phone'' := JStr p)) ''serviceSubCategory'' = body ''serviceSubCategory''"
    "(?b(''phone'' := JStr p)) ''phone'' = JStr p"
    by simp_all
  show ?thesis
    using g f assms(2)
    by (simp add: Customer_create_def normalize_phone m' d' validate_phone [OF d(2) assms(2)] s i k Let_def
          del: fun_upd_apply)
qed

lemma missing_fields:
  assumes "\<not> (truthy (body ''serviceSubCategory'') \<and> \<not> ObjectId_isValid_val (body ''serviceSubCategory''))"
    and "\<not> (\<forall>f\<in>set requiredFields. truthy (body f))"
  shows "Customer_create E custs body =
           (Inl (MissingField (filter (\<lambda>f. \<not> truthy (body f)) requiredFields)), custs)"
proof -
  have e: "filter (\<lambda>field. \<not> truthy (normalize_subcategory body field)) requiredFields
         = filter (\<lambda>f. \<not> truthy (body f)) requiredFields"
    by (simp add: requiredFields_def normalize_subcategory_def)
  have "filter (\<lambda>f. \<not> truthy (body f)) requiredFields \<noteq> []"
    using assms(2) by (auto simp: filter_empty_conv)
  then show ?thesis
    using assms(1) by (simp add: Customer_create_def Let_def e)
qed

lemma missing_phone:
  assumes "\<not> (truthy (body ''serviceSubCategory'') \<and> \<not> ObjectId_isValid_val (body ''serviceSubCategory''))"
    and "\<not> truthy (body ''phone'')"
  shows "\<exists>missing. Customer_create E custs body = (Inl (MissingField missing), custs)
           \<and> ''phone'' \<in> set missing"
proof -
  have "\<not> (\<forall>f\<in>set requiredFields. truthy (body f))"
    using assms(2) by (auto simp: requiredFields_def)
  from missing_fields [OF assms(1) this, of E custs] assms(2) show ?thesis
    by (auto simp: requiredFields_def)
qed

lemma malformed_subcategory:
  assumes "truthy (body ''serviceSubCategory'') \<and> \<not> ObjectId_isValid_val (body ''serviceSubCategory'')"
  shows "Customer_create E custs body = (Inl InvalidIdentifier, custs)"
  using assms by (simp add: Customer_create_def Let_def)

text \<open>
  C9, as the code has it. The create route checks the subcategory reference first,
  then that \<open>name\<close>, \<open>phone\<close>, \<open>address\<close>, \<open>serviceCategory\<close> and \<open>serviceCategoryName\<close> are
  there and not empty, and only then the phone. So:
  \<^item> a request that passes the two first checks and whose phone is not exactly ten digits
    fails with FormatInvalid on \<open>phone\<close>, and nothing is stored;
  \<^item> a request with a subcategory reference that is empty or well formed and a required
    field that is absent or empty fails with MissingField on the fields that are; in
    particular an absent or empty phone is answered with MissingField, not with
    FormatInvalid;
  \<^item> a request with a subcategory reference that is not well formed fails with
    InvalidIdentifier, whatever its phone;
  \<^item> with a phone of exactly ten digits (such as \<open>1234567890\<close>) the creation succeeds: for
    a request with valid required fields and no optional ones, and for every request
    that succeeds with some phone and has its phone replaced by the ten digits.
\<close>

theorem Customer_create_phone:
  "(\<not> (truthy (body ''serviceSubCategory'') \<and> \<not> ObjectId_isValid_val (body ''serviceSubCategory''))
      \<and> (\<forall>f\<in>set requiredFields. truthy (body f)) \<and> \<not> phoneRegex_test (body ''phone'')
    \<longrightarrow> Customer_create E custs body = (Inl (FormatInvalid [''phone'']), custs))
   \<and> (\<not> (truthy (body ''serviceSubCategory'') \<and> \<not> ObjectId_isValid_val (body ''serviceSubCategory''))
      \<and> \<not> (\<forall>f\<in>set requiredFields. truthy (body f))
    \<longrightarrow> Customer_create E custs body =
          (Inl (MissingField (filter (\<lambda>f. \<not> truthy (body f)) requiredFields)), custs))
   \<and> (\<not> (truthy (body ''serviceSubCategory'') \<and> \<not> ObjectId_isValid_val (body ''serviceSubCategory''))
      \<and> \<not> truthy (body ''phone'')
    \<longrightarrow> (\<exists>missing. Customer_create E custs body = (Inl (MissingField missing), custs)
           \<and> ''phone'' \<in> set missing))
   \<and> (truthy (body ''serviceSubCategory'') \<and> \<not> ObjectId_isValid_val (body ''serviceSubCategory'')
    \<longrightarrow> Customer_create E custs body = (Inl InvalidIdentifier, custs))
   \<and> (body ''name'' = JStr n \<and> js_trim n \<noteq> [] \<and> length (js_trim n) \<le> 100
      \<and> body ''address'' = JStr a \<and> js_trim a \<noteq> [] \<and> length (js_trim a) \<le> 500
      \<and> body ''serviceCategory'' = JStr sc \<and> ObjectId_isValid sc
      \<and> body ''serviceCategoryName'' = JStr scn \<and> js_trim scn \<noteq> []
      \<and> body ''phone'' = JStr p \<and> ten_digits p
      \<and> (\<forall>f. f \<notin> set requiredFields \<longrightarrow> body f = JUndefined)
      \<and> (\<forall>x\<in>set custs. c_id x \<noteq> newId E)
    \<longrightarrow> Customer_create E custs body =
        (Inr ((Customer_blank E)\<lparr>c_name := js_trim n, c_phone := p, c_address := js_trim a,
              c_serviceCategory := map toLowerCase sc, c_serviceCategoryName := js_trim scn,
              c_fees := Some 0\<rparr>),
         custs @ [(Customer_blank E)\<lparr>c_name := js_trim n, c_phone := p, c_address := js_trim a,
              c_serviceCategory := map toLowerCase sc, c_serviceCategoryName := js_trim scn,
              c_fees := Some 0\<rparr>]))
   \<and> (\<forall>c custs' q. Customer_create E custs body = (Inr c, custs') \<and> ten_digits q
    \<longrightarrow> Customer_create E custs (body(''phone'' := JStr q))
          = (Inr (c\<lparr>c_phone := q\<rparr>), custs @ [c\<lparr>c_phone := q\<rparr>]))"
  using phone_rejected [of body E custs]
    missing_fields [of body E custs]
    missing_phone [of body E custs]
    malformed_subcategory [of body E custs]
    minimal_create_succeeds [of body n a sc scn p custs E]
    phone_replaced [of E custs body]
  by blast

theorem Customer_create_phone_witness:
  "Customer_create env1 [cust1] (body_of ((''phone'', JStr ''12345'') # new_customer_fields))
     = (Inl (FormatInvalid [''phone'']), [cust1])
   \<and> Customer_create env1 [cust1] (body_of new_customer_fields) = (Inr cust2, [cust1, cust2])"
proof -
  let ?bad = "body_of ((''phone'', JStr ''12345'') # new_customer_fields)"
  let ?good = "body_of new_customer_fields"
  have 1: "\<not> (truthy (?bad ''serviceSubCategory'') \<and> \<not> ObjectId_isValid_val (?bad ''serviceSubCategory''))"
    by code_simp
  have 2: "\<forall>f\<in>set requiredFields. truthy (?bad f)" by code_simp
  have 3: "\<not> phoneRegex_test (?bad ''phone'')" by code_simp
  have 4: "?good ''name'' = JStr ''Ravi''" "?good ''address'' = JStr ''4 Lake View''"
    "?good ''serviceCategory'' = JStr ''65a1b2c3d4e5f60718293a4b''"
    "?good ''serviceCategoryName'' = JStr ''Internet''" "?good ''phone'' = JStr ''1234567890''"
    by code_simp+
  have 5: "js_trim ''Ravi'' = ''Ravi''" "js_trim ''4 Lake View'' = ''4 Lake View''"
    "js_trim ''Internet'' = ''Internet''" "ten_digits ''1234567890''"
    "ObjectId_isValid ''65a1b2c3d4e5f60718293a4b''"
    by code_simp+
  have 6: "\<forall>f. f \<notin> set requiredFields \<longrightarrow> ?good f = JUndefined"
    by (simp add: body_of_def new_customer_fields_def requiredFields_def)
  have 7: "\<forall>x\<in>set [cust1]. c_id x \<noteq> newId env1" by code_simp
  have 8: "(Customer_blank env1)\<lparr>c_name := ''Ravi'', c_phone := ''1234567890'',
      c_address := ''4 Lake View'', c_serviceCategory := map toLowerCase ''65a1b2c3d4e5f60718293a4b'',
      c_serviceCategoryName := ''Internet'', c_fees := Some 0\<rparr> = cust2"
    by code_simp
  note t1 = Customer_create_phone [where body = ?bad and E = env1 and custs = "[cust1]",
      THEN conjunct1]
  from t1 1 2 3
  have bad: "Customer_create env1 [cust1] ?bad = (Inl (FormatInvalid [''phone'']), [cust1])"
    by blast
  note t2 = Customer_create_phone [where body = ?good and n = "''Ravi''" and a = "''4 Lake View''"
      and sc = "''65a1b2c3d4e5f60718293a4b''" and scn = "''Internet''" and p = "''1234567890''"
      and custs = "[cust1]" and E = env1, THEN conjunct2, THEN conjunct2, THEN conjunct2,
      THEN conjunct2, THEN conjunct1]
  from t2 4 5 6 7
  have "Customer_create env1 [cust1] ?good =
        (Inr ((Customer_blank env1)\<lparr>c_name := ''Ravi'', c_phone := ''1234567890'',
              c_address := ''4 Lake View'',
              c_serviceCategory := map toLowerCase ''65a1b2c3d4e5f60718293a4b'',
              c_serviceCategoryName := ''Internet'', c_fees := Some 0\<rparr>),
         [cust1] @ [(Customer_blank env1)\<lparr>c_name := ''Ravi'', c_phone := ''1234567890'',
              c_address := ''4 Lake View'',
              c_serviceCategory := map toLowerCase ''65a1b2c3d4e5f60718293a4b'',
              c_serviceCategoryName := ''Internet'', c_fees := Some 0\<rparr>])"
    by simp
  then have "Customer_create env1 [cust1] ?good = (Inr cust2, [cust1, cust2])"
    unfolding 8 by simp
  with bad show ?thesis by simp
qed

text \<open>
  The claim C9 itself (any phone that is not exactly ten digits is rejected with
  FormatInvalid) fails: an empty phone in an otherwise valid request is answered
  with MissingField, and so is the phone \<open>12345\<close> in a request without the other
  required fields.
\<close>

theorem Customer_create_phone_counterexample:
  "Customer_create env1 [cust1] (body_of ((''phone'', JStr []) # new_customer_fields))
     = (Inl (MissingField [''phone'']), [cust1])
   \<and> \<not> ten_digits []
   \<and> Customer_create env1 [cust1] (body_of [(''phone'', JStr ''12345'')])
     = (Inl (MissingField [''name'', ''address'', ''serviceCategory'', ''serviceCategoryName'']), [cust1])
   \<and> \<not> ten_digits ''12345''"
  by code_simp

subsection \<open>Names without pattern syntax\<close>

lemma plain_step:
  "c \<notin> set special_chars \<Longrightarrow>
   normal_step ((alts, cur) # rest) c = Parsing Normal ((alts, Atom (Lit c) # cur) # rest)"
  by (simp add: normal_step_def push_def special_chars_def)

lemma plain_steps:
  "pattern_free cs \<Longrightarrow>
   foldl step (Parsing Normal ((alts, cur) # rest)) cs
     = Parsing Normal ((alts, rev (map (\<lambda>c. Atom (Lit c)) cs) @ cur) # rest)"
  by (induction cs arbitrary: cur) (simp_all add: pattern_free_def plain_step)

lemma parse_anchored:
  assumes "pattern_free cs"
  shows "parse (''^'' @ cs @ ''$'') = Compiled (Cat Bol (foldr Cat (map Lit cs) (Cat Eol Empty)))"
proof -
  have "foldl step (Parsing Normal [([], [])]) (''^'' @ cs @ ''$'')
      = Parsing Normal [([], Assertion Eol # rev (map (\<lambda>c. Atom (Lit c)) cs) @ [Assertion Bol])]"
    by (simp add: normal_step_def push_def plain_steps [OF assms])
  then show ?thesis
    by (simp add: parse_def frame_re_def alt_re_def comp_def)
qed

lemma ends_literal:
  "i \<le> length s \<Longrightarrow> ends (foldr Cat (map Lit cs) r) s i =
     (if i + length cs \<le> length s \<and> map toUpperCase (take (length cs) (drop i s)) = map toUpperCase cs
      then ends r s (i + length cs) else [])"
proof (induction cs arbitrary: i)
  case Nil
  then show ?case by simp
next
  case (Cons c cs)
  show ?case
  proof (cases "i < length s")
    case True
    then have d: "drop i s = s ! i # drop (Suc i) s"
      by (simp add: Cons_nth_drop_Suc)
    show ?thesis
      using True by (auto simp: Cons d)
  next
    case False
    then show ?thesis by simp
  qed
qed

lemma search_anchored:
  "search (Cat Bol (foldr Cat (map Lit cs) (Cat Eol Empty))) s
     \<longleftrightarrow> map toUpperCase s = map toUpperCase cs"
proof -
  have e: "ends (Cat Bol (foldr Cat (map Lit cs) (Cat Eol Empty))) s i \<noteq> [] \<longleftrightarrow>
           i = 0 \<and> map toUpperCase s = map toUpperCase cs" for i
  proof (cases "i = 0")
    case True
    have "map toUpperCase s = map toUpperCase cs \<Longrightarrow> length cs = length s"
      by (metis length_map)
    then show ?thesis
      using True by (auto simp: ends_literal)
  next
    case False
    then show ?thesis by simp
  qed
  show ?thesis
    unfolding search_def list_ex_iff e by auto
qed

lemma fragment_RegExp_anchored:
  assumes "pattern_free cs"
  shows "fragment_RegExp (''^'' @ cs @ ''$'') = Some (\<lambda>s. map toUpperCase s = map toUpperCase cs)"
  unfolding fragment_RegExp_def parse_anchored [OF assms]
  by (simp add: search_anchored [abs_def])

text \<open>
  For a name without pattern syntax the duplicate lookups are the comparison up to
  letter case that their comments announce.
\<close>

lemma find_Some_ex: "P x \<Longrightarrow> x \<in> set xs \<Longrightarrow> \<exists>y. find P xs = Some y"
  by (cases "find P xs") (auto simp: find_None_iff)

lemma Category_create_duplicate_plain:
  assumes "b_name b = Some n" and "js_trim n \<noteq> []" and "pattern_free (js_trim n)"
    and "c \<in> set cs" and "map toUpperCase (cat_name c) = map toUpperCase (js_trim n)"
  shows "Category_create fragment_RegExp t i cs b = (Inl DuplicateName, cs)"
proof -
  have rx: "fragment_RegExp (CHR ''^'' # js_trim n @ ''$'')
              = Some (\<lambda>s. map toUpperCase s = map toUpperCase (js_trim n))"
    using fragment_RegExp_anchored [OF assms(3)] by simp
  obtain y where "find (\<lambda>c. map toUpperCase (cat_name c) = map toUpperCase (js_trim n)) cs = Some y"
    using find_Some_ex [of "\<lambda>c. map toUpperCase (cat_name c) = map toUpperCase (js_trim n)" c cs]
      assms(4,5) by blast
  then show ?thesis
    using assms(1,2) by (simp add: Category_create_def Category_validate_def sanitized_name_def rx)
qed

lemma SubCategory_create_duplicate_plain:
  assumes "sb_name b = Some n" and "js_trim n \<noteq> []" and "pattern_free (js_trim n)"
    and "sb_categoryId b = Some cid" and "castObjectId cid = Some oid"
    and "find (\<lambda>c. cat_id c = oid) cs = Some c"
    and "s \<in> set subs" and "sub_category s = oid"
    and "map toUpperCase (sub_name s) = map toUpperCase (js_trim n)"
  shows "SubCategory_create fragment_RegExp t i cs subs b = (Inl DuplicateName, subs)"
proof -
  have rx: "fragment_RegExp (CHR ''^'' # js_trim n @ ''$'')
              = Some (\<lambda>s. map toUpperCase s = map toUpperCase (js_trim n))"
    using fragment_RegExp_anchored [OF assms(3)] by simp
  have v: "ObjectId_isValid cid" "cid \<noteq> []"
    using assms(5) by (auto simp: castObjectId_def ObjectId_isValid_def split: if_splits)
  have e: "SubCategory_validate cs b = []"
    using assms(1,2,4,5,6) v
    by (simp add: SubCategory_validate_def sanitized_name_def categoryId_errors_def
        Category_findById_def)
  obtain y where "find (\<lambda>s. map toUpperCase (sub_name s) = map toUpperCase (js_trim n)
                          \<and> sub_category s = oid) subs = Some y"
    using find_Some_ex [of "\<lambda>s. map toUpperCase (sub_name s) = map toUpperCase (js_trim n)
                          \<and> sub_category s = oid" s subs] assms(7,8,9) by blast
  then show ?thesis
    using assms(1,4,5) by (simp add: SubCategory_create_def e sanitized_name_def rx)
qed

subsection \<open>The category reference of a SubCategory\<close>

lemma castObjectId_valid: "castObjectId i = Some oid \<Longrightarrow> ObjectId_isValid i"
  by (simp add: castObjectId_def split: if_splits)

lemma categoryId_errors_missing:
  assumes "castObjectId cid = Some oid" and "find (\<lambda>c. cat_id c = oid) cs = None"
  shows "V_ReferenceNotFound \<in> set (categoryId_errors cs (Some cid))"
  using assms castObjectId_valid [OF assms(1)]
  by (simp add: categoryId_errors_def Category_findById_def)

lemma categoryId_errors_malformed:
  assumes "\<not> ObjectId_isValid cid"
  shows "V_InvalidIdentifier ''categoryId'' \<in> set (categoryId_errors cs (Some cid))
       \<and> V_ReferenceNotFound \<notin> set (categoryId_errors cs (Some cid))"
  using assms by (simp add: categoryId_errors_def)

lemma categoryId_errors_found:
  assumes "castObjectId cid = Some oid" and "find (\<lambda>c. cat_id c = oid) cs = Some c"
  shows "categoryId_errors cs (Some cid) = []"
proof -
  have "cid \<noteq> []"
    using castObjectId_valid [OF assms(1)] by (auto simp: ObjectId_isValid_def)
  then show ?thesis
    using assms castObjectId_valid [OF assms(1)]
    by (simp add: categoryId_errors_def Category_findById_def)
qed

lemma SubCategory_create_errors:
  assumes "e \<in> set (SubCategory_validate cs b)"
  shows "SubCategory_create rx t newid cs subs b = (Inl (ValidatorErrors (SubCategory_validate cs b)), subs)"
  using assms by (auto simp: SubCategory_create_def)

lemma SubCategory_update_errors:
  assumes "e \<in> set (SubCategory_validate cs b)"
  shows "\<exists>errs. SubCategory_update rx t cs subs i b = (Inl (ValidatorErrors errs), subs)
           \<and> set errs \<inter> {V_ReferenceNotFound, V_InvalidIdentifier ''categoryId''}
             = set (SubCategory_validate cs b) \<inter> {V_ReferenceNotFound, V_InvalidIdentifier ''categoryId''}"
  using assms by (auto simp: SubCategory_update_def Let_def)

lemma validate_categoryId:
  "set (SubCategory_validate cs b) \<inter> {V_ReferenceNotFound, V_InvalidIdentifier ''categoryId''}
     = set (categoryId_errors cs (sb_categoryId b)) \<inter> {V_ReferenceNotFound, V_InvalidIdentifier ''categoryId''}"
  by (auto simp: SubCategory_validate_def)

lemma SubCategory_create_succeeds:
  assumes n: "sb_name b = Some n" "js_trim n \<noteq> []" "pattern_free (js_trim n)"
    and c: "sb_categoryId b = Some cid" "castObjectId cid = Some oid"
      "find (\<lambda>c. cat_id c = oid) cs = Some c"
    and u: "\<forall>s\<in>set subs. sub_category s = oid \<longrightarrow>
              map toUpperCase (sub_name s) \<noteq> map toUpperCase (js_trim n)"
    and f: "\<forall>s\<in>set subs. sub_id s \<noteq> newid"
  shows "SubCategory_create fragment_RegExp t newid cs subs b =
     (Inr (\<lparr>sub_id = newid, sub_name = js_trim n, sub_category = oid,
            sub_description = js_trim (the_default [] (sb_description b)),
            sub_createdAt = t, sub_updatedAt = t\<rparr>, Some c),
      subs @ [\<lparr>sub_id = newid, sub_name = js_trim n, sub_category = oid,
            sub_description = js_trim (the_default [] (sb_description b)),
            sub_createdAt = t, sub_updatedAt = t\<rparr>])"
proof -
  have v: "SubCategory_validate cs b = []"
    using n(1,2) categoryId_errors_found [OF c(2,3)]
    by (simp add: SubCategory_validate_def sanitized_name_def c(1))
  have nf: "find (\<lambda>s. map toUpperCase (sub_name s) = map toUpperCase (js_trim n) \<and> sub_category s = oid) subs = None"
    using u by (auto simp: find_None_iff)
  have ins: "\<not> list_ex (\<lambda>x. sub_id x = newid \<or> (sub_name x = js_trim n \<and> sub_category x = oid)) subs"
    using u f by (auto simp: list_ex_iff)
  have rx: "fragment_RegExp (CHR ''^'' # js_trim n @ ''$'')
              = Some (\<lambda>s. map toUpperCase s = map toUpperCase (js_trim n))"
    using fragment_RegExp_anchored [OF n(3)] by simp
  show ?thesis
    unfolding SubCategory_create_def Let_def
    using ins
    by (cases "sb_description b")
       (simp_all add: v sanitized_name_def n(1) c rx nf
          SubCategory_insert_def populate_category_def the_default_def)
qed

text \<open>
  A \<open>categoryId\<close> that is not a well-formed identifier is answered by the validator's
  own check (\<open>Invalid category ID format\<close>), before any lookup.
\<close>

lemma SubCategory_malformed_category:
  assumes "sb_categoryId b = Some cid" and "\<not> ObjectId_isValid cid"
  shows "(\<exists>errs. SubCategory_create rx t newid cs subs b = (Inl (ValidatorErrors errs), subs)
              \<and> V_InvalidIdentifier ''categoryId'' \<in> set errs \<and> V_ReferenceNotFound \<notin> set errs)
       \<and> (\<exists>errs. SubCategory_update rx t cs subs i b = (Inl (ValidatorErrors errs), subs)
              \<and> V_InvalidIdentifier ''categoryId'' \<in> set errs \<and> V_ReferenceNotFound \<notin> set errs)"
proof -
  from assms categoryId_errors_malformed [of cid cs] validate_categoryId [of cs b]
  have m: "V_InvalidIdentifier ''categoryId'' \<in> set (SubCategory_validate cs b)"
    "V_ReferenceNotFound \<notin> set (SubCategory_validate cs b)"
    by auto
  from SubCategory_create_errors [OF m(1)] m
  have 1: "\<exists>errs. SubCategory_create rx t newid cs subs b = (Inl (ValidatorErrors errs), subs)
              \<and> V_InvalidIdentifier ''categoryId'' \<in> set errs \<and> V_ReferenceNotFound \<notin> set errs"
    by blast
  from SubCategory_update_errors [OF m(1), of rx t subs i] m
  have 2: "\<exists>errs. SubCategory_update rx t cs subs i b = (Inl (ValidatorErrors errs), subs)
              \<and> V_InvalidIdentifier ''categoryId'' \<in> set errs \<and> V_ReferenceNotFound \<notin> set errs"
    by blast
  from 1 2 show ?thesis by (rule conjI)
qed

lemma SubCategory_reference_missing:
  assumes "sb_categoryId b = Some cid" and "castObjectId cid = Some oid"
    and "find (\<lambda>c. cat_id c = oid) cs = None"
  shows "(\<exists>errs. SubCategory_create rx t newid cs subs b = (Inl (ValidatorErrors errs), subs)
              \<and> V_ReferenceNotFound \<in> set errs)
       \<and> (\<exists>errs. SubCategory_update rx t cs subs i b = (Inl (ValidatorErrors errs), subs)
              \<and> V_ReferenceNotFound \<in> set errs)"
proof -
  have m: "V_ReferenceNotFound \<in> set (SubCategory_validate cs b)"
    using assms categoryId_errors_missing [of cid oid cs] by (simp add: SubCategory_validate_def)
  from SubCategory_create_errors [OF m] m
  have 1: "\<exists>errs. SubCategory_create rx t newid cs subs b = (Inl (ValidatorErrors errs), subs)
              \<and> V_ReferenceNotFound \<in> set errs"
    by blast
  from SubCategory_update_errors [OF m, of rx t subs i] m
  have 2: "\<exists>errs. SubCategory_update rx t cs subs i b = (Inl (ValidatorErrors errs), subs)
              \<and> V_ReferenceNotFound \<in> set errs"
    by blast
  from 1 2 show ?thesis by (rule conjI)
qed

lemma SubCategory_create_examples:
  "SubCategory_create fragment_RegExp t newid [cat1] [sub1]
       (named_in ''C++'' ''65a1b2c3d4e5f60718293a4b'') = (Inl ServerError, [sub1])
   \<and> SubCategory_create fragment_RegExp t newid [cat1] [sub1]
       (named_in ''Fi.re'' ''65a1b2c3d4e5f60718293a4b'') = (Inl DuplicateName, [sub1])
   \<and> Category_findById [cat1] ''65a1b2c3d4e5f60718293a4b'' = Inr (Some cat1)
   \<and> map toUpperCase (sub_name sub1) \<noteq> map toUpperCase ''C++''
   \<and> map toUpperCase (sub_name sub1) \<noteq> map toUpperCase ''Fi.re''
   \<and> SubCategory_validate [cat1] (named_in ''C++'' ''65a1b2c3d4e5f60718293a4b'') = []
   \<and> SubCategory_validate [cat1] (named_in ''Fi.re'' ''65a1b2c3d4e5f60718293a4b'') = []
   \<and> in_fragment ''^C++$'' \<and> in_fragment ''^Fi.re$''"
  by code_simp

text \<open>
  C7. The first half of the claim holds: a SubCategory request whose \<open>categoryId\<close> is a
  well-formed identifier of no stored Category is answered, on create and on update,
  with the validators' errors, ReferenceNotFound (\<open>Category not found\<close>) among them.
  The second half (a create whose Category exists succeeds, for an otherwise valid
  input that is no duplicate) holds for the names without pattern syntax: such a
  create, with a name that is not empty once trimmed and that no SubCategory of that
  Category has up to letter case, succeeds and stores the new SubCategory (the stored
  names being trimmed, as the schema stores them). For the other names it fails: the
  lookup that its comment announces as a comparison up to case interpolates the name
  into a pattern. With the Category \<open>Internet\<close> and its SubCategory \<open>Fibre\<close> stored, the
  name \<open>C++\<close> passes the validators and is no duplicate, but is no well-formed pattern,
  and the create ends in the 500 of the \<open>catch\<close> block; the name \<open>Fi.re\<close> is refused as a
  duplicate of \<open>Fibre\<close>.
\<close>

theorem SubCategory_category_reference:
  "(sb_categoryId b = Some cid \<and> castObjectId cid = Some oid
      \<and> find (\<lambda>c. cat_id c = oid) cs = None \<longrightarrow>
      (\<exists>errs. SubCategory_create rx t newid cs subs b = (Inl (ValidatorErrors errs), subs)
              \<and> V_ReferenceNotFound \<in> set errs)
    \<and> (\<exists>errs. SubCategory_update rx t cs subs i b = (Inl (ValidatorErrors errs), subs)
              \<and> V_ReferenceNotFound \<in> set errs))
   \<and> (sb_name b = Some n \<and> js_trim n \<noteq> [] \<and> pattern_free (js_trim n)
      \<and> sb_categoryId b = Some cid \<and> castObjectId cid = Some oid
      \<and> find (\<lambda>c. cat_id c = oid) cs = Some c
      \<and> (\<forall>s\<in>set subs. js_trim (sub_name s) = sub_name s)
      \<and> (\<forall>s\<in>set subs. sub_category s = oid \<longrightarrow>
              map toUpperCase (sub_name s) \<noteq> map toUpperCase (js_trim n))
      \<and> (\<forall>s\<in>set subs. sub_id s \<noteq> newid) \<longrightarrow>
      SubCategory_create fragment_RegExp t newid cs subs b =
        (Inr (\<lparr>sub_id = newid, sub_name = js_trim n, sub_category = oid,
               sub_description = js_trim (the_default [] (sb_description b)),
               sub_createdAt = t, sub_updatedAt = t\<rparr>, Some c),
         subs @ [\<lparr>sub_id = newid, sub_name = js_trim n, sub_category = oid,
               sub_description = js_trim (the_default [] (sb_description b)),
               sub_createdAt = t, sub_updatedAt = t\<rparr>]))
   \<and> SubCategory_create fragment_RegExp t newid [cat1] [sub1]
         (named_in ''C++'' ''65a1b2c3d4e5f60718293a4b'') = (Inl ServerError, [sub1])
   \<and> SubCategory_create fragment_RegExp t newid [cat1] [sub1]
         (named_in ''Fi.re'' ''65a1b2c3d4e5f60718293a4b'') = (Inl DuplicateName, [sub1])
   \<and> Category_findById [cat1] ''65a1b2c3d4e5f60718293a4b'' = Inr (Some cat1)
   \<and> map toUpperCase (sub_name sub1) \<noteq> map toUpperCase ''C++''
   \<and> map toUpperCase (sub_name sub1) \<noteq> map toUpperCase ''Fi.re''
   \<and> SubCategory_validate [cat1] (named_in ''C++'' ''65a1b2c3d4e5f60718293a4b'') = []
   \<and> SubCategory_validate [cat1] (named_in ''Fi.re'' ''65a1b2c3d4e5f60718293a4b'') = []
   \<and> in_fragment ''^C++$'' \<and> in_fragment ''^Fi.re$''"
proof -
  have a: "sb_categoryId b = Some cid \<and> castObjectId cid = Some oid
      \<and> find (\<lambda>c. cat_id c = oid) cs = None \<longrightarrow>
      (\<exists>errs. SubCategory_create rx t newid cs subs b = (Inl (ValidatorErrors errs), subs)
              \<and> V_ReferenceNotFound \<in> set errs)
    \<and> (\<exists>errs. SubCategory_update rx t cs subs i b = (Inl (ValidatorErrors errs), subs)
              \<and> V_ReferenceNotFound \<in> set errs)"
    using SubCategory_reference_missing [of b cid oid cs rx t newid subs i] by blast
  have s: "sb_name b = Some n \<and> js_trim n \<noteq> [] \<and> pattern_free (js_trim n)
      \<and> sb_categoryId b = Some cid \<and> castObjectId cid = Some oid
      \<and> find (\<lambda>c. cat_id c = oid) cs = Some c
      \<and> (\<forall>s\<in>set subs. js_trim (sub_name s) = sub_name s)
      \<and> (\<forall>s\<in>set subs. sub_category s = oid \<longrightarrow>
              map toUpperCase (sub_name s) \<noteq> map toUpperCase (js_trim n))
      \<and> (\<forall>s\<in>set subs. sub_id s \<noteq> newid) \<longrightarrow>
      SubCategory_create fragment_RegExp t newid cs subs b =
        (Inr (\<lparr>sub_id = newid, sub_name = js_trim n, sub_category = oid,
               sub_description = js_trim (the_default [] (sb_description b)),
               sub_createdAt = t, sub_updatedAt = t\<rparr>, Some c),
         subs @ [\<lparr>sub_id = newid, sub_name = js_trim n, sub_category = oid,
               sub_description = js_trim (the_default [] (sb_description b)),
               sub_createdAt = t, sub_updatedAt = t\<rparr>])"
    using SubCategory_create_succeeds [of b n cid oid cs c subs newid t] by blast
  note e = SubCategory_create_examples [of t newid]
  from a s e show ?thesis
    by - ((rule conjI, assumption)+, assumption)
qed

theorem SubCategory_category_reference_witness:
  "SubCategory_create fragment_RegExp 3000 ''65a1b2c3d4e5f60718293a5f'' [cat1] [sub1]
       (named_in ''Copper'' ''65A1B2c3d4e5f60718293a4b'')
     = (Inr (sub_copper, Some cat1), [sub1, sub_copper])
   \<and> (\<exists>errs. SubCategory_create fragment_RegExp 3000 ''65a1b2c3d4e5f60718293a5f'' [cat1] [sub1]
                (named_in ''Copper'' ''65a1b2c3d4e5f60718293a99'')
              = (Inl (ValidatorErrors errs), [sub1]) \<and> V_ReferenceNotFound \<in> set errs)"
proof -
  let ?ok = "named_in ''Copper'' ''65A1B2c3d4e5f60718293a4b''"
  let ?missing = "named_in ''Copper'' ''65a1b2c3d4e5f60718293a99''"
  have 1: "sb_name ?ok = Some ''Copper''" "js_trim ''Copper'' \<noteq> []" "pattern_free (js_trim ''Copper'')"
    "sb_categoryId ?ok = Some ''65A1B2c3d4e5f60718293a4b''"
    "find (\<lambda>c. cat_id c = ''65a1b2c3d4e5f60718293a4b'') [cat1] = Some cat1"
    "\<forall>s\<in>set [sub1]. sub_category s = ''65a1b2c3d4e5f60718293a4b'' \<longrightarrow>
        map toUpperCase (sub_name s) \<noteq> map toUpperCase (js_trim ''Copper'')"
    "\<forall>s\<in>set [sub1]. sub_id s \<noteq> ''65a1b2c3d4e5f60718293a5f''"
    "\<forall>s\<in>set [sub1]. js_trim (sub_name s) = sub_name s"
    by code_simp+
  have 2: "sb_categoryId ?missing = Some ''65a1b2c3d4e5f60718293a99''"
    "castObjectId ''65a1b2c3d4e5f60718293a99'' = Some ''65a1b2c3d4e5f60718293a99''"
    "find (\<lambda>c. cat_id c = ''65a1b2c3d4e5f60718293a99'') [cat1] = None"
    by code_simp+
  have 3: "\<lparr>sub_id = ''65a1b2c3d4e5f60718293a5f'', sub_name = js_trim ''Copper'',
            sub_category = ''65a1b2c3d4e5f60718293a4b'',
            sub_description = js_trim (the_default [] (sb_description ?ok)),
            sub_createdAt = 3000, sub_updatedAt = 3000\<rparr> = sub_copper"
    by code_simp
  note t1 = SubCategory_category_reference [where b = ?ok and n = "''Copper''"
      and cid = "''65A1B2c3d4e5f60718293a4b''" and oid = "''65a1b2c3d4e5f60718293a4b''"
      and cs = "[cat1]" and c = cat1 and subs = "[sub1]" and newid = "''65a1b2c3d4e5f60718293a5f''"
      and t = 3000, THEN conjunct2, THEN conjunct1]
  from t1 1 castObjectId_example
  have "SubCategory_create fragment_RegExp 3000 ''65a1b2c3d4e5f60718293a5f'' [cat1] [sub1] ?ok =
        (Inr (\<lparr>sub_id = ''65a1b2c3d4e5f60718293a5f'', sub_name = js_trim ''Copper'',
               sub_category = ''65a1b2c3d4e5f60718293a4b'',
               sub_description = js_trim (the_default [] (sb_description ?ok)),
               sub_createdAt = 3000, sub_updatedAt = 3000\<rparr>, Some cat1),
         [sub1] @ [\<lparr>sub_id = ''65a1b2c3d4e5f60718293a5f'', sub_name = js_trim ''Copper'',
               sub_category = ''65a1b2c3d4e5f60718293a4b'',
               sub_description = js_trim (the_default [] (sb_description ?ok)),
               sub_createdAt = 3000, sub_updatedAt = 3000\<rparr>])"
    by blast
  then have ok: "SubCategory_create fragment_RegExp 3000 ''65a1b2c3d4e5f60718293a5f'' [cat1] [sub1] ?ok
       = (Inr (sub_copper, Some cat1), [sub1, sub_copper])"
    unfolding 3 by simp
  note t2 = SubCategory_category_reference [where b = ?missing
      and cid = "''65a1b2c3d4e5f60718293a99''" and oid = "''65a1b2c3d4e5f60718293a99''"
      and cs = "[cat1]" and subs = "[sub1]" and newid = "''65a1b2c3d4e5f60718293a5f''"
      and t = 3000 and rx = fragment_RegExp, THEN conjunct1]
  from t2 2
  have "\<exists>errs. SubCategory_create fragment_RegExp 3000 ''65a1b2c3d4e5f60718293a5f'' [cat1] [sub1] ?missing
              = (Inl (ValidatorErrors errs), [sub1]) \<and> V_ReferenceNotFound \<in> set errs"
    by blast
  with ok show ?thesis by blast
qed

subsection \<open>The customer list\<close>

lemma parse_literal:
  assumes "pattern_free cs"
  shows "parse cs = Compiled (foldr Cat (map Lit cs) Empty)"
proof -
  have "foldl step (Parsing Normal [([], [])]) cs
      = Parsing Normal [([], rev (map (\<lambda>c. Atom (Lit c)) cs))]"
    by (simp add: plain_steps [OF assms])
  then show ?thesis
    by (simp add: parse_def frame_re_def alt_re_def comp_def rev_map)
qed

lemma search_literal:
  "search (foldr Cat (map Lit cs) Empty) s = contains_ci cs s"
proof -
  have "(ends (foldr Cat (map Lit cs) Empty) s i \<noteq> []) =
        (map toUpperCase (take (length cs) (drop i s)) = map toUpperCase cs)"
    if "i \<le> length s" for i
  proof -
    have "i + length cs \<le> length s"
      if e: "map toUpperCase (take (length cs) (drop i s)) = map toUpperCase cs"
    proof -
      from e have "length (take (length cs) (drop i s)) = length cs"
        by (metis length_map)
      with \<open>i \<le> length s\<close> show ?thesis by simp
    qed
    then show ?thesis
      using that by (auto simp: ends_literal)
  qed
  then show ?thesis
    unfolding search_def contains_ci_def list_ex_iff by auto
qed

lemma fragment_RegExp_literal:
  assumes "pattern_free cs"
  shows "fragment_RegExp cs = Some (contains_ci cs)"
  unfolding fragment_RegExp_def parse_literal [OF assms]
  by (simp add: search_literal [abs_def])

lemma Customer_list_found:
  assumes "present (q_search q) \<longrightarrow> rx (the_default [] (q_search q)) = Some m"
    and "present (q_service q) \<longrightarrow> castObjectId (the_default [] (q_service q)) = Some svc"
    and "the_default ''createdAt'' (q_sortBy q) \<noteq> []"
  shows "\<exists>rows. Customer_list rx cs subs custs q = Inr rows
     \<and> rows = map (populate_customer cs subs) (map fst rows)
     \<and> mset (map fst rows) = mset (filter (selected m q svc) custs)
     \<and> (if the_default ''desc'' (q_sortOrder q) = ''desc''
        then sorted (rev (map (field_key (the_default ''createdAt'' (q_sortBy q))) (map fst rows)))
        else sorted (map (field_key (the_default ''createdAt'' (q_sortBy q))) (map fst rows)))"
proof -
  define pat where "pat = (if present (q_search q) then Some m else None)"
  define sv where "sv = (if present (q_service q) then Some svc else None)"
  define st where "st = (if present (q_status q) then q_status q else None)"
  define key where "key = field_key (the_default ''createdAt'' (q_sortBy q))"
  define asc where "asc = sort_key key (filter (query_holds pat st sv) custs)"
  define ord where "ord = (if the_default ''desc'' (q_sortOrder q) = ''desc'' then rev asc else asc)"
  define rows where "rows = map (populate_customer cs subs) ord"
  have f: "query_holds pat st sv = selected m q svc"
    by (rule ext) (auto simp: query_holds_def selected_def pat_def st_def sv_def split: option.splits)
  have fp: "map fst (map (populate_customer cs subs) xs) = xs" for xs
    by (induction xs) (simp_all add: populate_customer_def)
  have l: "Customer_list rx cs subs custs q = Inr rows"
    using assms
    by (simp add: Customer_list_def Let_def pat_def sv_def st_def asc_def key_def the_default_def
        rows_def ord_def split: option.splits)
  have r: "map fst rows = ord"
    unfolding rows_def by (rule fp)
  have s: "sorted (map key asc)"
    by (simp add: asc_def)
  have m: "mset ord = mset (filter (selected m q svc) custs)"
    by (simp add: ord_def asc_def f)
  have o: "if the_default ''desc'' (q_sortOrder q) = ''desc''
        then sorted (rev (map key ord)) else sorted (map key ord)"
    using s by (simp add: ord_def rev_map)
  have "rows = map (populate_customer cs subs) (map fst rows)"
    unfolding r by (simp add: rows_def)
  with l m o show ?thesis
    unfolding r [symmetric] key_def by blast
qed

text \<open>
  A search string that is not a well-formed pattern, a \<open>service\<close> that is not a
  well-formed identifier and an empty \<open>sortBy\<close> are answered with a 500.
\<close>

lemma Customer_list_refused:
  assumes "(present (q_search q) \<and> rx (the_default [] (q_search q)) = None)
         \<or> (present (q_service q) \<and> castObjectId (the_default [] (q_service q)) = None)
         \<or> q_sortBy q = Some []"
  shows "Customer_list rx cs subs custs q = Inl ServerError"
  using assms by (auto simp: Customer_list_def Let_def split: option.splits)

text \<open>
  C8, as the code has it. When the search string, if present, is a pattern the store
  accepts, \<open>service\<close>, if present, is a well-formed identifier and \<open>sortBy\<close>, if present,
  is a path of the schema (any other value goes to the store as it is), the list holds exactly
  the stored customers (each once per stored document, with its references resolved)
  that satisfy the conjunction of: if \<open>search\<close> is present, \<open>name\<close>, \<open>email\<close>, \<open>phone\<close> or
  \<open>serviceNumber\<close> matches it as a case-insensitive pattern; if \<open>status\<close> is present,
  \<open>status\<close> equals it; if \<open>service\<close> is present, \<open>serviceCategory\<close> is that identifier. The
  list is ordered by the \<open>sortBy\<close> field (default \<open>createdAt\<close>), descending when
  \<open>sortOrder\<close> is \<open>desc\<close> (the default) and ascending otherwise. A search string without
  pattern syntax matches a field exactly when the field contains it up to letter
  case.
\<close>

theorem Customer_list_query:
  "((present (q_search q) \<longrightarrow> rx (the_default [] (q_search q)) = Some m)
      \<and> (present (q_service q) \<longrightarrow> castObjectId (the_default [] (q_service q)) = Some svc)
      \<and> the_default ''createdAt'' (q_sortBy q) \<in> set schema_paths
    \<longrightarrow> (\<exists>rows. Customer_list rx cs subs custs q = Inr rows
          \<and> rows = map (populate_customer cs subs) (map fst rows)
          \<and> mset (map fst rows) = mset (filter (selected m q svc) custs)
          \<and> (if the_default ''desc'' (q_sortOrder q) = ''desc''
              then sorted (rev (map (field_key (the_default ''createdAt'' (q_sortBy q))) (map fst rows)))
              else sorted (map (field_key (the_default ''createdAt'' (q_sortBy q))) (map fst rows)))))
   \<and> (pattern_free s \<longrightarrow> fragment_RegExp s = Some (contains_ci s))"
proof -
  have "the_default ''createdAt'' (q_sortBy q) \<noteq> []"
    if "the_default ''createdAt'' (q_sortBy q) \<in> set schema_paths"
    using that by (auto simp: schema_paths_def)
  then show ?thesis
    using Customer_list_found [of q rx m svc cs subs custs] fragment_RegExp_literal [of s]
    by blast
qed

theorem Customer_list_query_witness:
  "Customer_list fragment_RegExp [cat1] [sub1] [cust1, cust2] (searching ''555'')
     = Inr [(cust1, Some cat1, Some sub1)]
   \<and> filter (selected (contains_ci ''555'') (searching ''555'') []) [cust1, cust2] = [cust1]"
proof -
  let ?q = "searching ''555''"
  have 0: "pattern_free ''555''" by code_simp
  have 1: "present (q_search ?q) \<longrightarrow> fragment_RegExp (the_default [] (q_search ?q)) = Some (contains_ci ''555'')"
    using Customer_list_query [where s = "''555''"] 0 by (simp add: searching_def the_default_def)
  have 2: "present (q_service ?q) \<longrightarrow> castObjectId (the_default [] (q_service ?q)) = Some []"
    by (simp add: searching_def)
  have 5: "the_default ''createdAt'' (q_sortBy ?q) \<in> set schema_paths" by code_simp
  from Customer_list_query [where q = ?q and rx = fragment_RegExp and m = "contains_ci ''555''"
      and svc = "[]" and cs = "[cat1]" and subs = "[sub1]" and custs = "[cust1, cust2]"] 1 2 5
  obtain rows where r: "Customer_list fragment_RegExp [cat1] [sub1] [cust1, cust2] ?q = Inr rows"
    "rows = map (populate_customer [cat1] [sub1]) (map fst rows)"
    "mset (map fst rows) = mset (filter (selected (contains_ci ''555'') ?q []) [cust1, cust2])"
    by blast
  have 3: "filter (selected (contains_ci ''555'') ?q []) [cust1, cust2] = [cust1]" by code_simp
  have 4: "populate_customer [cat1] [sub1] cust1 = (cust1, Some cat1, Some sub1)" by code_simp
  from r(3) have "mset (map fst rows) = {#cust1#}"
    unfolding 3 by simp
  then have "map fst rows = [cust1]"
    by (simp only: mset_single_iff)
  with r(2) have "rows = [(cust1, Some cat1, Some sub1)]"
    by (simp add: 4)
  then show ?thesis
    using r(1) 3 by simp
qed

text \<open>
  The claim C8 itself fails: the search string is taken as a pattern, so the search
  \<open>A.ha\<close> lists a customer none of whose four fields contains \<open>A.ha\<close>, and a \<open>service\<close> that
  is not a well-formed identifier gives no empty list but a 500.
\<close>

theorem Customer_list_query_counterexample:
  "Customer_list fragment_RegExp [cat1] [sub1] [cust1, cust2] (searching ''A.ha'')
     = Inr [(cust1, Some cat1, Some sub1)]
   \<and> \<not> contains_ci ''A.ha'' (c_name cust1)
   \<and> \<not> matches_opt (contains_ci ''A.ha'') (c_email cust1)
   \<and> \<not> contains_ci ''A.ha'' (c_phone cust1)
   \<and> \<not> matches_opt (contains_ci ''A.ha'') (c_serviceNumber cust1)
   \<and> in_fragment ''A.ha''
   \<and> Customer_list fragment_RegExp [cat1] [sub1] [cust1, cust2]
        ((searching [])\<lparr>q_service := Some ''abc''\<rparr>) = Inl ServerError"
  by code_simp

end
